theory Spec2Isabelle
  imports Complex_Main "HOL-Library.AList"
begin

section \<open>Conventions of the embedding\<close>

text \<open>
  The analysis modules of DriveGuard are Python. Python's \<open>float\<close> values are modelled
  as HOL reals (exact arithmetic), Python's \<open>int\<close> values as \<open>int\<close> or \<open>nat\<close>,
  dictionaries with a fixed key set as records, and a raised exception as the left
  injection of a sum type. The computer-vision primitives of OpenCV and the object
  detector are outside the repository: what they return (frame rate, frames, flow
  fields, detections, colour masks) is the input of the model.
\<close>

datatype py_error = RuntimeError string | ZeroDivisionError | CvError

text \<open>\<open>int(x)\<close> on a float: truncation towards zero.\<close>

definition py_int :: "real \<Rightarrow> int" where
  "py_int x = (if 0 \<le> x then \<lfloor>x\<rfloor> else \<lceil>x\<rceil>)"

text \<open>\<open>round(x)\<close>: Python 3 rounds to the nearest integer, a tie to the even one.\<close>

definition py_round :: "real \<Rightarrow> int" where
  "py_round x =
     (let f = \<lfloor>x\<rfloor>; d = x - of_int f
      in if d < 1 / 2 then f
         else if 1 / 2 < d then f + 1
         else if even f then f else f + 1)"

text \<open>\<open>round(x, n)\<close>: the nearest multiple of \<open>10 ^ -n\<close>, as a float.\<close>

definition py_round_nd :: "real \<Rightarrow> nat \<Rightarrow> real" where
  "py_round_nd x n = of_int (py_round (x * 10 ^ n)) / 10 ^ n"

text \<open>\<open>cap.get(cv2.CAP_PROP_FPS) or 30.0\<close>: a reported rate of 0 is falsy.\<close>

definition fps_or_default :: "real \<Rightarrow> real" where
  "fps_or_default reported = (if reported = 0 then 30 else reported)"

section \<open>Frame sampling steps (main\_v2.py)\<close>

definition PROCESS_HZ_TS :: real where "PROCESS_HZ_TS = 8"
definition PROC_HZ_CE :: real where "PROC_HZ_CE = 8"
definition PROCESS_HZ_TURN :: real where "PROCESS_HZ_TURN = 10"
definition PROCESS_HZ_LC :: real where "PROCESS_HZ_LC = 8"

text \<open>\<open>step = max(1, int(round(fps / HZ)))\<close>, the line shared by
  \<open>run_traffic_signal_summary\<close>, \<open>run_close_encounters\<close>, \<open>run_turn_count\<close> and
  \<open>run_lane_change_count\<close>; its argument is the rate after the \<open>or 30.0\<close>.\<close>

definition sampling_step :: "real \<Rightarrow> real \<Rightarrow> int" where
  "sampling_step hz fps = max 1 (py_round (fps / hz))"

definition traffic_signal_step :: "real \<Rightarrow> int" where
  "traffic_signal_step reported = sampling_step PROCESS_HZ_TS (fps_or_default reported)"

definition close_encounters_step :: "real \<Rightarrow> int" where
  "close_encounters_step reported = sampling_step PROC_HZ_CE (fps_or_default reported)"

definition turn_count_step :: "real \<Rightarrow> int" where
  "turn_count_step reported = sampling_step PROCESS_HZ_TURN (fps_or_default reported)"

definition lane_change_step :: "real \<Rightarrow> int" where
  "lane_change_step reported = sampling_step PROCESS_HZ_LC (fps_or_default reported)"

text \<open>\<open>calculate_average_speed\<close>: \<open>sample_rate = max(1, int(fps / 5))\<close>.\<close>

definition speed_sample_rate :: "real \<Rightarrow> int" where
  "speed_sample_rate reported = max 1 (py_int (fps_or_default reported / 5))"

section \<open>Floats that may be infinite\<close>

text \<open>\<open>float('inf')\<close> occurs as a time-to-collision and as the initial minimum
  distance of a track; such values are \<open>Fin x\<close> or \<open>PInf\<close>.\<close>

datatype xreal = Fin real | PInf

text \<open>\<open>a < b\<close> for a possibly infinite \<open>a\<close> and a finite \<open>b\<close>, and the converse.\<close>

fun xreal_less_fin :: "xreal \<Rightarrow> real \<Rightarrow> bool" where
  "xreal_less_fin (Fin a) b = (a < b)"
| "xreal_less_fin PInf b = False"

fun fin_less_xreal :: "real \<Rightarrow> xreal \<Rightarrow> bool" where
  "fin_less_xreal a (Fin b) = (a < b)"
| "fin_less_xreal a PInf = True"

section \<open>Proximity extractor (enhanced\_proximity\_detection.py)\<close>

subsection \<open>The detector object\<close>

text \<open>What \<open>cv2.VideoCapture\<close> reports for an opened video, and what the detector with
  tracking returns for each frame read: class name, integer box corners, track identity.\<close>

record detection =
  det_cls :: string
  det_xyxy :: "int \<times> int \<times> int \<times> int"
  det_id :: "int option"

record prox_video =
  pv_fps :: real
  pv_width :: int
  pv_height :: int
  pv_frames :: "detection list list"

record detector =
  d_fps :: real
  d_width :: int
  d_height :: int
  d_focal_length :: real

definition DANGEROUS_DISTANCE_M :: real where "DANGEROUS_DISTANCE_M = 15"
definition CRITICAL_DISTANCE_M :: real where "CRITICAL_DISTANCE_M = 8"
definition TTC_THRESHOLD_SEC :: real where "TTC_THRESHOLD_SEC = 4"
definition MIN_TRACK_FRAMES :: nat where "MIN_TRACK_FRAMES = 5"
definition MIN_BOX_HEIGHT_RATIO :: real where "MIN_BOX_HEIGHT_RATIO = 0.20"

text \<open>\<open>EnhancedProximityDetector.__init__\<close> on a video that opened: the field of view
  is 90 degrees, so the focal length is \<open>width / (2 * tan(radians(45)))\<close>.\<close>

definition init_detector :: "prox_video \<Rightarrow> detector" where
  "init_detector v =
     \<lparr> d_fps = fps_or_default (pv_fps v),
       d_width = pv_width v,
       d_height = pv_height v,
       d_focal_length = of_int (pv_width v) / (2 * tan ((90 / 2) * pi / 180)) \<rparr>"

subsection \<open>\<open>estimate_distance\<close>\<close>

definition real_heights :: "(string \<times> real) list" where
  "real_heights =
     [(''car'', 1.5), (''truck'', 3.0), (''bus'', 3.5), (''motorcycle'', 1.2), (''bicycle'', 1.5)]"

text \<open>\<open>np.clip(x, lo, hi)\<close> is \<open>minimum(maximum(x, lo), hi)\<close>.\<close>

definition np_clip :: "real \<Rightarrow> real \<Rightarrow> real \<Rightarrow> real" where
  "np_clip x lo hi = min (max x lo) hi"

definition estimate_distance :: "detector \<Rightarrow> int \<times> int \<times> int \<times> int \<Rightarrow> string \<Rightarrow> real" where
  "estimate_distance det box vehicle_class =
     (case box of (x1, y1, x2, y2) \<Rightarrow>
        let box_height_px = y2 - y1 in
        if box_height_px \<le> 0 then 100
        else
          let real_height = (case map_of real_heights vehicle_class of
                               Some h \<Rightarrow> h | None \<Rightarrow> 1.5);
              distance = (real_height * d_focal_length det) / of_int box_height_px;
              y_center = (of_int (y1 + y2) :: real) / 2;
              horizon_y = of_int (d_height det) * 0.45;
              distance' = (if y_center < horizon_y then distance * 1.5 else distance)
          in np_clip distance' 1 100)"

subsection \<open>Track histories, \<open>calculate_ttc\<close> and \<open>is_lateral_movement\<close>\<close>

record track_data =
  td_time :: real
  td_distance :: real
  td_box :: "int \<times> int \<times> int \<times> int"
  td_box_height :: int
  td_center_x :: real
  td_center_y :: real
  td_class :: string
  td_is_frontal :: bool

text \<open>\<open>xs[-min(5, len(xs)):]\<close> for a non-empty list: its last up to five entries.\<close>

definition recent_window :: "'a list \<Rightarrow> 'a list" where
  "recent_window xs = drop (length xs - min 5 (length xs)) xs"

definition mean :: "real list \<Rightarrow> real" where
  "mean xs = sum_list xs / of_nat (length xs)"

text \<open>The first coefficient of \<open>np.polyfit(x, y, 1)\<close>: the slope of the least-squares
  line through the points \<open>(x, y)\<close>, in exact arithmetic.\<close>

definition polyfit_slope :: "real list \<Rightarrow> real list \<Rightarrow> real" where
  "polyfit_slope xs ys =
     sum_list (map (\<lambda>(x, y). (x - mean xs) * (y - mean ys)) (zip xs ys))
       / sum_list (map (\<lambda>x. (x - mean xs) ^ 2) xs)"

definition calculate_ttc :: "track_data list \<Rightarrow> xreal" where
  "calculate_ttc track_history =
     (if length track_history < 3 then PInf
      else
        let recent = recent_window track_history;
            distances = map td_distance recent;
            times = map td_time recent
        in if length times < 2 then PInf
           else
             let time_diffs = map (\<lambda>t. t - hd times) times
             in if length time_diffs < 2 then PInf
                else
                  let slope = polyfit_slope time_diffs distances
                  in if slope \<ge> - 0.1 then PInf
                     else Fin (last distances / \<bar>slope\<bar>))"

definition is_lateral_movement :: "detector \<Rightarrow> track_data list \<Rightarrow> bool" where
  "is_lateral_movement det track_history =
     (if length track_history < 3 then False
      else
        let recent = recent_window track_history;
            x_positions = map td_center_x recent;
            x_movement = \<bar>last x_positions - hd x_positions\<bar>
        in x_movement > of_int (d_width det) * 0.3)"

subsection \<open>The per-track state of \<open>detect_encounters\<close>\<close>

record track =
  tr_history :: "track_data list"
  tr_first_frame :: nat
  tr_last_frame :: nat
  tr_min_distance :: xreal
  tr_max_danger_score :: real
  tr_is_dangerous :: bool
  tr_peak_time :: "real option"
  tr_peak_distance :: "real option"
  tr_ttc :: "real option"

text \<open>The factory of the \<open>defaultdict\<close>; the keys \<open>peak_time\<close>, \<open>peak_distance\<close> and
  \<open>ttc\<close> are absent until a danger score is recorded.\<close>

definition new_track :: track where
  "new_track =
     \<lparr> tr_history = [], tr_first_frame = 0, tr_last_frame = 0, tr_min_distance = PInf,
       tr_max_danger_score = 0, tr_is_dangerous = False,
       tr_peak_time = None, tr_peak_distance = None, tr_ttc = None \<rparr>"

text \<open>The dictionary of tracks keeps insertion order: an association list.\<close>

type_synonym tracks = "(int \<times> track) list"

definition track_of :: "tracks \<Rightarrow> int \<Rightarrow> track" where
  "track_of vehicle_tracks track_id =
     (case map_of vehicle_tracks track_id of Some tr \<Rightarrow> tr | None \<Rightarrow> new_track)"

text \<open>Lines 253 to 291 of \<open>detect_encounters\<close>: the sample is appended to the track, the
  frame numbers and the minimum distance are updated, and danger is evaluated. The
  quotient \<open>box_height / self.height\<close> of two integers raises on a zero frame height.\<close>

definition update_track :: "detector \<Rightarrow> nat \<Rightarrow> track \<Rightarrow> track_data \<Rightarrow> py_error + track" where
  "update_track det frame_idx tr0 track_data =
     (let distance = td_distance track_data;
          time_sec = td_time track_data;
          tr1 = tr0\<lparr> tr_history := tr_history tr0 @ [track_data], tr_last_frame := frame_idx \<rparr>;
          tr2 = (if tr_first_frame tr1 = 0 then tr1\<lparr> tr_first_frame := frame_idx \<rparr> else tr1);
          tr3 = (if fin_less_xreal distance (tr_min_distance tr2)
                 then tr2\<lparr> tr_min_distance := Fin distance \<rparr> else tr2)
      in if length (tr_history tr3) \<ge> MIN_TRACK_FRAMES then
           let ttc = calculate_ttc (tr_history tr3);
               is_lateral = is_lateral_movement det (tr_history tr3);
               is_close = (distance < DANGEROUS_DISTANCE_M);
               is_critical = (distance < CRITICAL_DISTANCE_M);
               is_approaching = xreal_less_fin ttc TTC_THRESHOLD_SEC
           in if is_close \<and> td_is_frontal track_data \<and> (is_approaching \<or> is_critical)
                 \<and> \<not> is_lateral then
                let distance_factor = 1 / max distance 0.5;
                    ttc_factor = (case ttc of Fin v \<Rightarrow> 1 / max v 0.5 | PInf \<Rightarrow> 0.5)
                in if d_height det = 0 then Inl ZeroDivisionError
                   else
                     let box_factor = of_int (td_box_height track_data) / of_int (d_height det);
                         danger_score = distance_factor * 0.5 + ttc_factor * 0.3 + box_factor * 0.2
                     in if danger_score > tr_max_danger_score tr3 then
                          Inr (tr3\<lparr> tr_max_danger_score := danger_score,
                                    tr_is_dangerous := True,
                                    tr_peak_time := Some time_sec,
                                    tr_peak_distance := Some distance,
                                    tr_ttc := Some (case ttc of Fin v \<Rightarrow> v | PInf \<Rightarrow> 0) \<rparr>)
                        else Inr tr3
              else Inr tr3
         else Inr tr3)"

text \<open>Lines 210 to 253: one box of a processed frame. Boxes of other classes, boxes
  lower than 20 percent of the frame height and boxes without identity are skipped.\<close>

definition make_track_data :: "detector \<Rightarrow> real \<Rightarrow> detection \<Rightarrow> track_data" where
  "make_track_data det time_sec box =
     (case det_xyxy box of (x1, y1, x2, y2) \<Rightarrow>
        let center_x = (of_int (x1 + x2) :: real) / 2 in
        \<lparr> td_time = time_sec,
          td_distance = estimate_distance det (x1, y1, x2, y2) (det_cls box),
          td_box = (x1, y1, x2, y2),
          td_box_height = y2 - y1,
          td_center_x = center_x,
          td_center_y = of_int (y1 + y2) / 2,
          td_class = det_cls box,
          td_is_frontal = (of_int (d_width det) * 0.3 < center_x
                           \<and> center_x < of_int (d_width det) * 0.7) \<rparr>)"

definition process_box :: "detector \<Rightarrow> nat \<Rightarrow> real \<Rightarrow> tracks \<Rightarrow> detection \<Rightarrow> py_error + tracks" where
  "process_box det frame_idx time_sec vehicle_tracks box =
     (if det_cls box \<notin> set [''car'', ''truck'', ''bus'', ''motorcycle''] then Inr vehicle_tracks
      else
        case det_xyxy box of (x1, y1, x2, y2) \<Rightarrow>
          if (of_int (y2 - y1) :: real) < of_int (d_height det) * MIN_BOX_HEIGHT_RATIO
          then Inr vehicle_tracks
          else
            (case det_id box of
               None \<Rightarrow> Inr vehicle_tracks
             | Some track_id \<Rightarrow>
                 (case update_track det frame_idx (track_of vehicle_tracks track_id)
                         (make_track_data det time_sec box) of
                    Inl e \<Rightarrow> Inl e
                  | Inr tr \<Rightarrow> Inr (AList.update track_id tr vehicle_tracks))))"

fun process_boxes :: "detector \<Rightarrow> nat \<Rightarrow> real \<Rightarrow> tracks \<Rightarrow> detection list \<Rightarrow> py_error + tracks" where
  "process_boxes det frame_idx time_sec vehicle_tracks [] = Inr vehicle_tracks"
| "process_boxes det frame_idx time_sec vehicle_tracks (box # boxes) =
     (case process_box det frame_idx time_sec vehicle_tracks box of
        Inl e \<Rightarrow> Inl e
      | Inr vt \<Rightarrow> process_boxes det frame_idx time_sec vt boxes)"

text \<open>The \<open>while True\<close> loop over the frames read: the frame counter is advanced, odd
  frames are skipped, and a frame without boxes is skipped.\<close>

fun detect_loop :: "detector \<Rightarrow> nat \<Rightarrow> tracks \<Rightarrow> detection list list \<Rightarrow> py_error + tracks" where
  "detect_loop det frame_idx vehicle_tracks [] = Inr vehicle_tracks"
| "detect_loop det frame_idx vehicle_tracks (boxes # frames) =
     (let frame_idx' = frame_idx + 1;
          time_sec = of_nat frame_idx' / d_fps det
      in if frame_idx' mod 2 \<noteq> 0 then detect_loop det frame_idx' vehicle_tracks frames
         else if boxes = [] then detect_loop det frame_idx' vehicle_tracks frames
         else
           case process_boxes det frame_idx' time_sec vehicle_tracks boxes of
             Inl e \<Rightarrow> Inl e
           | Inr vt \<Rightarrow> detect_loop det frame_idx' vt frames)"

subsection \<open>From dangerous tracks to close encounters\<close>

record encounter =
  enc_start_time :: real
  enc_end_time :: real
  enc_peak_time :: real
  enc_peak_score :: real
  enc_where :: string
  enc_max_box_height_norm :: real
  enc_min_distance_m :: xreal
  enc_ttc_sec :: real

fun xreal_round_nd :: "xreal \<Rightarrow> nat \<Rightarrow> xreal" where
  "xreal_round_nd (Fin x) n = Fin (py_round_nd x n)"
| "xreal_round_nd PInf n = PInf"

definition make_encounter :: "detector \<Rightarrow> track \<Rightarrow> py_error + encounter" where
  "make_encounter det tr =
     (let hist = tr_history tr;
          avg_x = mean (map td_center_x hist);
          location = (if avg_x < of_int (d_width det) * 0.33 then ''left''
                      else if avg_x > of_int (d_width det) * 0.67 then ''right''
                      else ''center'');
          peak_score = min (tr_max_danger_score tr) 1
      in if d_height det = 0 then Inl ZeroDivisionError
         else Inr
           \<lparr> enc_start_time = py_round_nd (td_time (hd hist)) 2,
             enc_end_time = py_round_nd (td_time (last hist)) 2,
             enc_peak_time = py_round_nd (case tr_peak_time tr of Some t \<Rightarrow> t
                                           | None \<Rightarrow> td_time (hd hist)) 2,
             enc_peak_score = py_round_nd peak_score 3,
             enc_where = location,
             enc_max_box_height_norm =
               py_round_nd (of_int (Max (set (map td_box_height hist))) / of_int (d_height det)) 3,
             enc_min_distance_m = xreal_round_nd (tr_min_distance tr) 2,
             enc_ttc_sec = py_round_nd (case tr_ttc tr of Some t \<Rightarrow> t | None \<Rightarrow> 0) 2 \<rparr>)"

fun convert_tracks :: "detector \<Rightarrow> tracks \<Rightarrow> py_error + encounter list" where
  "convert_tracks det [] = Inr []"
| "convert_tracks det ((track_id, tr) # rest) =
     (if \<not> tr_is_dangerous tr then convert_tracks det rest
      else if length (tr_history tr) < MIN_TRACK_FRAMES then convert_tracks det rest
      else
        case make_encounter det tr of
          Inl e \<Rightarrow> Inl e
        | Inr enc \<Rightarrow>
            (case convert_tracks det rest of
               Inl e \<Rightarrow> Inl e
             | Inr encs \<Rightarrow> Inr (enc # encs)))"

record prox_result =
  pr_close_encounters :: "encounter list"
  pr_event_count :: nat
  pr_method :: "string option"
  pr_error :: "string option"

definition detect_encounters :: "detector \<Rightarrow> detection list list \<Rightarrow> py_error + prox_result" where
  "detect_encounters det frames =
     (case detect_loop det 0 [] frames of
        Inl e \<Rightarrow> Inl e
      | Inr vehicle_tracks \<Rightarrow>
          (case convert_tracks det vehicle_tracks of
             Inl e \<Rightarrow> Inl e
           | Inr close_encounters \<Rightarrow>
               Inr \<lparr> pr_close_encounters = close_encounters,
                     pr_event_count = length close_encounters,
                     pr_method = Some ''enhanced_proximity_v2'',
                     pr_error = None \<rparr>))"

text \<open>The public entry point. \<open>has_yolo\<close> is the module flag \<open>HAS_YOLO\<close>; the source is
  \<open>None\<close> when \<open>cv2.VideoCapture\<close> cannot open the path, which makes the constructor
  raise.\<close>

definition detect_close_encounters_enhanced :: "bool \<Rightarrow> prox_video option \<Rightarrow> py_error + prox_result" where
  "detect_close_encounters_enhanced has_yolo src =
     (if \<not> has_yolo then
        Inr \<lparr> pr_close_encounters = [], pr_event_count = 0, pr_method = None,
              pr_error = Some ''YOLO not available'' \<rparr>
      else
        case src of
          None \<Rightarrow> Inl (RuntimeError ''Cannot open video'')
        | Some v \<Rightarrow> detect_encounters (init_detector v) (pv_frames v))"

section \<open>Close encounters by band scores (main\_v2.py, \<open>run_close_encounters\<close>)\<close>

subsection \<open>Constants and numpy helpers\<close>

definition VEH :: "int set" where "VEH = {2, 3, 5, 7}"
definition TARGET_W_CE :: int where "TARGET_W_CE = 896"
definition Y0 :: real where "Y0 = 0.60"
definition Y1 :: real where "Y1 = 0.95"
definition X_BANDS :: "(real \<times> real) list" where
  "X_BANDS = [(0.12, 0.40), (0.35, 0.65), (0.60, 0.88)]"
definition CENTER_BAND :: "real \<times> real" where "CENTER_BAND = (0.22, 0.78)"
definition EMA_A :: real where "EMA_A = 0.25"
definition BASE_SEC :: real where "BASE_SEC = 1.5"
definition ENTER_K :: real where "ENTER_K = 0.18"
definition EXIT_K :: real where "EXIT_K = 0.10"
definition DERIV_MIN :: real where "DERIV_MIN = 0.04"
definition MIN_BOX_H :: real where "MIN_BOX_H = 0.14"
definition MERGE_GAP :: real where "MERGE_GAP = 2.0"

text \<open>\<open>deque(maxlen=n).append(x)\<close>: the oldest entry leaves a full buffer.\<close>

definition deque_append :: "nat \<Rightarrow> 'a list \<Rightarrow> 'a \<Rightarrow> 'a list" where
  "deque_append maxlen dq x = (let dq' = dq @ [x] in drop (length dq' - maxlen) dq')"

definition np_median :: "real list \<Rightarrow> real" where
  "np_median xs =
     (let s = sort xs; n = length s
      in if even n then (s ! (n div 2 - 1) + s ! (n div 2)) / 2 else s ! (n div 2))"

text \<open>\<open>np.argmax\<close>: the first index of the largest entry.\<close>

definition np_argmax :: "real list \<Rightarrow> nat" where
  "np_argmax xs = length (takeWhile (\<lambda>x. x \<noteq> Max (set xs)) xs)"

subsection \<open>Events\<close>

text \<open>The event under construction has no \<open>end_time\<close> key yet; a finished event has all
  six keys. The key \<open>where\<close> is the field \<open>where_band\<close>.\<close>

record cur_event =
  ce_start_time :: real
  ce_peak_time :: real
  ce_peak_score :: real
  ce_where :: string
  ce_max_box_height_norm :: real

record event =
  start_time :: real
  peak_time :: real
  peak_score :: real
  where_band :: string
  max_box_height_norm :: real
  end_time :: real

definition close_event :: "cur_event \<Rightarrow> real \<Rightarrow> event" where
  "close_event c t =
     \<lparr> start_time = ce_start_time c, peak_time = ce_peak_time c, peak_score = ce_peak_score c,
       where_band = ce_where c, max_box_height_norm = ce_max_box_height_norm c,
       end_time = t \<rparr>"

text \<open>The variables \<open>state\<close> and \<open>cur_event\<close> change together: \<open>Idle\<close> is
  \<open>state == "idle"\<close> with \<open>cur_event = None\<close>, \<open>InEvent c\<close> is \<open>state == "in_event"\<close>
  with the dictionary \<open>c\<close>.\<close>

datatype machine = Idle | InEvent cur_event

subsection \<open>The sampled-frame loop\<close>

text \<open>What the detector and the optical flow give for a frame: the boxes (class id and
  integer corners) and, for each of the three bands, the median expansion of
  \<open>_expansion_score\<close>.\<close>

record ce_frame =
  cf_boxes :: "(int \<times> int \<times> int \<times> int \<times> int) list"
  cf_exp_med :: "real list"

record ce_video =
  cv_fps :: real
  cv_first :: "(nat \<times> nat) option"
  cv_frames :: "ce_frame list"

record ce_loop =
  cl_i :: nat
  cl_vals :: "real list list"
  cl_bases :: "real list list"
  cl_ema :: "real list"
  cl_times :: "real list"
  cl_state :: machine
  cl_events :: "event list"

definition ce_init :: ce_loop where
  "ce_init =
     \<lparr> cl_i = 0, cl_vals = [[], [], []], cl_bases = [[], [], []], cl_ema = [0, 0, 0],
       cl_times = [], cl_state = Idle, cl_events = [] \<rparr>"

definition bands_px :: "int \<Rightarrow> int \<Rightarrow> (int \<times> int \<times> int \<times> int) list" where
  "bands_px W H =
     (let y0b = py_int (of_int H * Y0); y1b = py_int (of_int H * Y1)
      in map (\<lambda>xb. (py_int (of_int W * fst xb), y0b, py_int (of_int W * snd xb), y1b)) X_BANDS)"

text \<open>Lines 325 to 336: the vehicle boxes whose centre lies in the centre band and in
  the lower part of the frame.\<close>

definition keep_box :: "int \<Rightarrow> int \<Rightarrow> int \<times> int \<times> int \<times> int \<times> int \<Rightarrow> bool" where
  "keep_box W H b =
     (case b of (c, x1, y1, x2, y2) \<Rightarrow>
        c \<in> VEH \<and> \<not> (x2 - x1 \<le> 0 \<or> y2 - y1 \<le> 0) \<and>
        (let cxn = (of_int (x1 + x2) :: real) / (2 * of_int W);
             cyn = (of_int (y1 + y2) :: real) / (2 * of_int H)
         in fst CENTER_BAND \<le> cxn \<and> cxn \<le> snd CENTER_BAND \<and> cyn \<ge> 0.45))"

definition frame_boxes :: "int \<Rightarrow> int \<Rightarrow> ce_frame \<Rightarrow> (int \<times> int \<times> int \<times> int) list" where
  "frame_boxes W H fr = map snd (filter (keep_box W H) (cf_boxes fr))"

text \<open>Lines 349 to 355: the largest normalised height of a box that overlaps the band.\<close>

definition band_hmax :: "int \<times> int \<times> int \<times> int \<Rightarrow> (int \<times> int \<times> int \<times> int) list \<Rightarrow> real" where
  "band_hmax band boxes =
     (case band of (x0, y0, x1, y1) \<Rightarrow>
        let h_band = y1 - y0
        in fold (\<lambda>(xa, ya, xb, yb) hmax.
                   let ox0 = max x0 xa; oy0 = max y0 ya; ox1 = min x1 xb; oy1 = min y1 yb
                   in if ox1 > ox0 \<and> oy1 > oy0
                      then max hmax (of_int (yb - ya) / of_int h_band) else hmax)
             boxes 0)"

text \<open>One sampled frame, lines 318 to 387, in three steps: the smoothing of the band
  scores (lines 318 to 360), the fused score and its thresholds (lines 363 to 370), and
  the state machine (lines 372 to 387). The dictionary \<open>tracked_vehicles\<close> is written
  but never read, and is left out.\<close>

definition band_heights :: "int \<Rightarrow> int \<Rightarrow> ce_frame \<Rightarrow> real list" where
  "band_heights W H fr =
     (let boxes = frame_boxes W H fr; bands = bands_px W H
      in map (\<lambda>bi. band_hmax (bands ! bi) boxes) [0, 1, 2])"

definition ce_smooth :: "real \<Rightarrow> int \<Rightarrow> int \<Rightarrow> ce_loop \<Rightarrow> ce_frame \<Rightarrow> ce_loop" where
  "ce_smooth t W H st fr =
     (let times = cl_times st @ [t];
          band_box_h = band_heights W H fr;
          score = (\<lambda>bi. max (band_box_h ! bi) 0 + 1.0 * max (cf_exp_med fr ! bi) 0);
          ema = map (\<lambda>bi. if cl_vals st ! bi = [] then score bi
                           else EMA_A * score bi + (1 - EMA_A) * (cl_ema st ! bi)) [0, 1, 2];
          vals = map (\<lambda>bi. (cl_vals st ! bi) @ [ema ! bi]) [0, 1, 2];
          bases = map (\<lambda>bi. deque_append (nat (max 3 (py_int (BASE_SEC * PROC_HZ_CE))))
                                (cl_bases st ! bi) (ema ! bi)) [0, 1, 2]
      in st\<lparr> cl_vals := vals, cl_bases := bases, cl_ema := ema, cl_times := times \<rparr>)"

record ce_scores =
  sc_fused :: real
  sc_d1 :: real
  sc_peak_band :: nat
  sc_peak_box_h :: real
  sc_box_ok :: bool
  sc_enter_thr :: real
  sc_exit_thr :: real

text \<open>The argument is the loop state after the smoothing step: \<open>cl_ema\<close> holds the band
  scores of this frame and \<open>cl_vals\<close> ends with them.\<close>

definition ce_scores_of :: "int \<Rightarrow> int \<Rightarrow> ce_loop \<Rightarrow> ce_frame \<Rightarrow> ce_scores" where
  "ce_scores_of W H st fr =
     (let band_box_h = band_heights W H fr;
          band_scores = cl_ema st;
          vals = cl_vals st;
          bases = cl_bases st;
          medians = map (\<lambda>bi. if length (bases ! bi) \<ge> 3 then np_median (bases ! bi) else 0)
                      [0, 1, 2];
          fused = Max (set band_scores);
          fused_prev = (if length (cl_times st) < 2 then fused
                        else Max (set (map (\<lambda>bi. (vals ! bi) ! (length (vals ! bi) - 2))
                                         [0, 1, 2])));
          peak_band = np_argmax band_scores
      in \<lparr> sc_fused = fused,
           sc_d1 = fused - fused_prev,
           sc_peak_band = peak_band,
           sc_peak_box_h = band_box_h ! peak_band,
           sc_box_ok = (band_box_h ! peak_band \<ge> MIN_BOX_H * 0.9),
           sc_enter_thr = np_median medians + ENTER_K,
           sc_exit_thr = np_median medians + EXIT_K \<rparr>)"

definition ce_machine :: "real \<Rightarrow> ce_scores \<Rightarrow> ce_loop \<Rightarrow> ce_loop" where
  "ce_machine t sc st =
     (case cl_state st of
        Idle \<Rightarrow>
          if sc_fused sc \<ge> sc_enter_thr sc \<and> sc_d1 sc \<ge> DERIV_MIN \<and> sc_box_ok sc
          then st\<lparr> cl_state := InEvent
                 \<lparr> ce_start_time = py_round_nd t 2, ce_peak_time = py_round_nd t 2,
                   ce_peak_score = py_round_nd (sc_fused sc) 3,
                   ce_where = [''left'', ''center'', ''right''] ! sc_peak_band sc,
                   ce_max_box_height_norm = py_round_nd (sc_peak_box_h sc) 3 \<rparr> \<rparr>
          else st
      | InEvent c \<Rightarrow>
          let c' = (if sc_fused sc > ce_peak_score c
                    then c\<lparr> ce_peak_score := py_round_nd (sc_fused sc) 3,
                            ce_peak_time := py_round_nd t 2,
                            ce_where := [''left'', ''center'', ''right''] ! sc_peak_band sc,
                            ce_max_box_height_norm := py_round_nd (sc_peak_box_h sc) 3 \<rparr>
                    else c)
          in if sc_fused sc \<le> sc_exit_thr sc
             then st\<lparr> cl_events := cl_events st @ [close_event c' (py_round_nd t 2)],
                       cl_state := Idle \<rparr>
             else st\<lparr> cl_state := InEvent c' \<rparr>)"

definition ce_sample :: "real \<Rightarrow> int \<Rightarrow> int \<Rightarrow> ce_loop \<Rightarrow> ce_frame \<Rightarrow> ce_loop" where
  "ce_sample fps W H st fr =
     (let t = of_nat (cl_i st) / fps;
          st1 = ce_smooth t W H st fr
      in ce_machine t (ce_scores_of W H st1 fr) st1)"

text \<open>The \<open>while True\<close> loop: every frame read advances \<open>i\<close>; frames whose index is not
  a multiple of \<open>step\<close> are skipped.\<close>

fun ce_scan :: "real \<Rightarrow> int \<Rightarrow> int \<Rightarrow> int \<Rightarrow> ce_loop \<Rightarrow> ce_frame list \<Rightarrow> ce_loop" where
  "ce_scan fps step W H st [] = st"
| "ce_scan fps step W H st (fr # frames) =
     (let st1 = st\<lparr> cl_i := cl_i st + 1 \<rparr>
      in if int (cl_i st1) mod step \<noteq> 0 then ce_scan fps step W H st1 frames
         else ce_scan fps step W H (ce_sample fps W H st1 fr) frames)"

text \<open>Lines 389 to 391: an event still open at the end of the stream is closed at the
  last sampled time.\<close>

definition force_close :: "ce_loop \<Rightarrow> event list" where
  "force_close st =
     (case cl_state st of
        Idle \<Rightarrow> cl_events st
      | InEvent c \<Rightarrow> cl_events st @ [close_event c (py_round_nd (last (cl_times st)) 2)])"

subsection \<open>The finalize pass, lines 395 to 414\<close>

fun drop_short :: "event list \<Rightarrow> event list \<Rightarrow> event list" where
  "drop_short final [] = final"
| "drop_short final (e # events) =
     (if end_time e - start_time e \<ge> 0.2 then drop_short (final @ [e]) events
      else drop_short final events)"

text \<open>One iteration of the merge loop; \<open>merged\<close> is not empty when the loop runs.\<close>

definition merge_step :: "event list \<Rightarrow> event \<Rightarrow> event list" where
  "merge_step merged e =
     (let m = last merged
      in if start_time e - end_time m \<le> MERGE_GAP then
           let m1 = (if peak_score e > peak_score m
                     then m\<lparr> peak_score := peak_score e, peak_time := peak_time e,
                             where_band := where_band e,
                             max_box_height_norm := max_box_height_norm e \<rparr>
                     else m)
           in butlast merged @ [m1\<lparr> end_time := end_time e \<rparr>]
         else merged @ [e])"

definition merge_events :: "event list \<Rightarrow> event list" where
  "merge_events final =
     (case final of
        [] \<Rightarrow> []
      | e0 # rest \<Rightarrow> fold (\<lambda>e merged. merge_step merged e) rest [e0])"

definition finalize_events :: "event list \<Rightarrow> event list" where
  "finalize_events events = merge_events (drop_short [] events)"

subsection \<open>The entry point\<close>

record ce_result =
  cr_close_encounters :: "event list"
  cr_event_count :: nat
  cr_note :: "string option"

text \<open>\<open>has_yolo\<close> is the module flag \<open>_HAS_YOLO\<close>; the source is \<open>None\<close> when the path
  cannot be opened. \<open>cv_first\<close> is the shape \<open>(H0, W0)\<close> of the first frame, \<open>None\<close>
  when no frame can be read. A resize to height 0 is refused by OpenCV.\<close>

definition run_close_encounters :: "bool \<Rightarrow> ce_video option \<Rightarrow> py_error + ce_result" where
  "run_close_encounters has_yolo src =
     (if \<not> has_yolo then
        Inr \<lparr> cr_close_encounters = [], cr_event_count = 0,
              cr_note = Some ''ultralytics not installed'' \<rparr>
      else
        case src of
          None \<Rightarrow> Inl (RuntimeError ''Could not open video'')
        | Some v \<Rightarrow>
            let fps = fps_or_default (cv_fps v);
                step = close_encounters_step (cv_fps v)
            in (case cv_first v of
                  None \<Rightarrow> Inr \<lparr> cr_close_encounters = [], cr_event_count = 0, cr_note = None \<rparr>
                | Some (H0, W0) \<Rightarrow>
                    if W0 = 0 then Inl ZeroDivisionError
                    else
                      let s = of_int TARGET_W_CE / (of_nat W0 :: real);
                          W = TARGET_W_CE;
                          H = py_int (of_nat H0 * s)
                      in if H = 0 then Inl CvError
                         else
                           let st = ce_scan fps step W H ce_init (cv_frames v);
                               merged = finalize_events (force_close st)
                           in Inr \<lparr> cr_close_encounters = merged,
                                    cr_event_count = length merged, cr_note = None \<rparr>))"

section \<open>Traffic signal summary (main\_v2.py)\<close>

definition TARGET_WIDTH_TS :: int where "TARGET_WIDTH_TS = 800"

text \<open>The result dictionary: \<open>violations\<close> is always present, the other two keys are
  set by \<open>_postprocess_smoother\<close>. A violation window is a pair of times.\<close>

record ts_result =
  violations :: "(real \<times> real) list"
  traffic_violation_windows :: "(real \<times> real) list option"
  violation :: "bool option"

definition postprocess_smoother :: "real \<Rightarrow> ts_result \<Rightarrow> ts_result" where
  "postprocess_smoother dur_sec out_json =
     (let out1 = (case traffic_violation_windows out_json of
                    None \<Rightarrow> out_json\<lparr> traffic_violation_windows := Some [] \<rparr>
                  | Some w \<Rightarrow> out_json)
      in out1\<lparr> violation :=
           Some (length (case traffic_violation_windows out1 of None \<Rightarrow> [] | Some w \<Rightarrow> w) > 0) \<rparr>)"

text \<open>An opened video: the reported rate, the shapes \<open>(height, width)\<close> of the frames
  that can be read, and the two properties read after the scan.\<close>

record ts_video =
  tv_fps :: real
  tv_frames :: "(nat \<times> nat) list"
  tv_frame_count :: real
  tv_pos_msec :: real

text \<open>The scan loop of lines 191 to 195: it only counts.\<close>

fun ts_scan :: "int \<Rightarrow> nat \<Rightarrow> (nat \<times> nat) list \<Rightarrow> nat" where
  "ts_scan step idx [] = idx"
| "ts_scan step idx (frame # frames) =
     (let idx' = idx + 1
      in if int idx' mod step \<noteq> 0 then ts_scan step idx' frames else ts_scan step idx' frames)"

definition run_traffic_signal_summary :: "ts_video option \<Rightarrow> py_error + ts_result" where
  "run_traffic_signal_summary src =
     (case src of
        None \<Rightarrow> Inl (RuntimeError ''Could not open video'')
      | Some v \<Rightarrow>
          let fps = fps_or_default (tv_fps v);
              step = traffic_signal_step (tv_fps v);
              out = \<lparr> violations = [], traffic_violation_windows = None, violation = None \<rparr>
          in (case tv_frames v of
                [] \<Rightarrow> Inr (postprocess_smoother (py_round_nd 0 3) out)
              | (h, w) # frames \<Rightarrow>
                  if w = 0 then Inl ZeroDivisionError
                  else if py_int (of_int (int h * TARGET_WIDTH_TS) / of_nat w) = 0 then Inl CvError
                  else
                    let idx = ts_scan step 0 frames;
                        total_frames = tv_frame_count v;
                        dur_sec = (if total_frames > 0 then total_frames / fps
                                   else tv_pos_msec v / 1000)
                    in Inr (postprocess_smoother (py_round_nd dur_sec 3) out)))"

section \<open>Bus-lane colour coverage (main\_v2.py, \<open>run_bus_lane_color\<close>)\<close>

definition MIN_RED_COVERAGE :: real where "MIN_RED_COVERAGE = 0.12"
definition BUFFER_SIZE_FRAMES :: nat where "BUFFER_SIZE_FRAMES = 12"
definition MIN_DURATION_SEC :: real where "MIN_DURATION_SEC = 1.0"

text \<open>For each frame the red mask of the region of interest is given by its number of
  non-zero pixels and its size. A range has its \<open>end_time\<close> key once it is closed.\<close>

record bl_frame =
  bf_nonzero :: nat
  bf_size :: nat

record bl_video =
  bv_fps :: real
  bv_frames :: "bl_frame list"

record vrange =
  vr_start_time :: real
  vr_end_time :: "real option"

record bl_loop =
  bl_buffer :: "bool list"
  bl_violation_active :: bool
  bl_ranges :: "vrange list"
  bl_frame_idx :: nat

definition bl_init :: bl_loop where
  "bl_init = \<lparr> bl_buffer = [], bl_violation_active = False, bl_ranges = [], bl_frame_idx = 0 \<rparr>"

definition on_bus_lane :: "bl_frame \<Rightarrow> bool" where
  "on_bus_lane fr = (of_nat (bf_nonzero fr) / (of_nat (bf_size fr) + 1 / 10 ^ 6) \<ge> MIN_RED_COVERAGE)"

text \<open>\<open>if "end_time" not in ranges[-1]: ranges[-1]["end_time"] = t\<close>. The list is not
  empty whenever a violation is active (lemma \<open>bl_active_ranges\<close> below).\<close>

definition set_last_end :: "vrange list \<Rightarrow> real \<Rightarrow> vrange list" where
  "set_last_end ranges t =
     (if ranges = [] then ranges
      else if vr_end_time (last ranges) = None
      then butlast ranges @ [(last ranges)\<lparr> vr_end_time := Some t \<rparr>]
      else ranges)"

text \<open>One iteration, lines 707 to 725: the open test, then the close test.\<close>

definition bl_step :: "real \<Rightarrow> bl_loop \<Rightarrow> bl_frame \<Rightarrow> bl_loop" where
  "bl_step fps st fr =
     (let frame_idx = bl_frame_idx st + 1;
          buffer = deque_append BUFFER_SIZE_FRAMES (bl_buffer st) (on_bus_lane fr);
          st1 = st\<lparr> bl_frame_idx := frame_idx, bl_buffer := buffer \<rparr>;
          st2 = (if \<not> bl_violation_active st1 \<and> length buffer = BUFFER_SIZE_FRAMES
                    \<and> list_all (\<lambda>b. b) buffer
                 then st1\<lparr> bl_ranges := bl_ranges st1
                              @ [\<lparr> vr_start_time = of_nat frame_idx / fps, vr_end_time = None \<rparr>],
                           bl_violation_active := True \<rparr>
                 else st1)
      in if bl_violation_active st2 \<and> length buffer = BUFFER_SIZE_FRAMES
            \<and> \<not> list_ex (\<lambda>b. b) buffer
         then st2\<lparr> bl_ranges := set_last_end (bl_ranges st2) (of_nat frame_idx / fps),
                   bl_violation_active := False \<rparr>
         else st2)"

definition bl_scan :: "real \<Rightarrow> bl_loop \<Rightarrow> bl_frame list \<Rightarrow> bl_loop" where
  "bl_scan fps st frames = fold (\<lambda>fr s. bl_step fps s fr) frames st"

record bl_result =
  violation_detected :: bool
  violation_ranges :: "(real \<times> real) list"

definition bl_final :: "vrange list \<Rightarrow> (real \<times> real) list" where
  "bl_final ranges =
     concat (map (\<lambda>r. case vr_end_time r of
                         None \<Rightarrow> []
                       | Some e \<Rightarrow> if e - vr_start_time r \<ge> MIN_DURATION_SEC
                                   then [(py_round_nd (vr_start_time r) 2, py_round_nd e 2)]
                                   else []) ranges)"

definition run_bus_lane_color :: "bl_video option \<Rightarrow> bl_result" where
  "run_bus_lane_color src =
     (case src of
        None \<Rightarrow> \<lparr> violation_detected = False, violation_ranges = [] \<rparr>
      | Some v \<Rightarrow>
          let fps = fps_or_default (bv_fps v);
              st = bl_scan fps bl_init (bv_frames v);
              ranges = (if bl_violation_active st \<and> bl_ranges st \<noteq> []
                        then set_last_end (bl_ranges st) (of_nat (bl_frame_idx st) / fps)
                        else bl_ranges st);
              final = bl_final ranges
          in \<lparr> violation_detected = (final \<noteq> []), violation_ranges = final \<rparr>)"

section \<open>Average speed (main\_v2.py, \<open>calculate_average_speed\<close>)\<close>

text \<open>\<open>np.percentile(a, q)\<close> with the default linear interpolation: the sorted array is
  read at the fractional position \<open>q / 100 * (n - 1)\<close>.\<close>

definition np_percentile :: "real list \<Rightarrow> real \<Rightarrow> real" where
  "np_percentile xs q =
     (let s = sort xs;
          pos = q / 100 * (of_nat (length s) - 1);
          lo = nat \<lfloor>pos\<rfloor>;
          frac = pos - of_int \<lfloor>pos\<rfloor>
      in if lo + 1 < length s then s ! lo + frac * (s ! (lo + 1) - s ! lo) else s ! lo)"

text \<open>For each frame read: its height, and the dense flow of the region of interest
  against the previous sampled frame as a list of displacement vectors (\<open>None\<close> when
  OpenCV returns no flow).\<close>

record sp_frame =
  sf_height :: nat
  sf_width :: nat
  sf_flow :: "(real \<times> real) list option"

record sp_video =
  sv_fps :: real
  sv_frames :: "sp_frame list"

record sp_loop =
  sl_frame_count :: nat
  sl_has_prev :: bool
  sl_speeds :: "real list"

text \<open>The number of rows of \<open>a[lo:hi, :]\<close> for an array of \<open>n\<close> rows.\<close>

definition slice_rows :: "nat \<Rightarrow> int \<Rightarrow> int \<Rightarrow> nat" where
  "slice_rows n lo hi =
     (let norm = (\<lambda>k. if k < 0 then max (k + int n) 0 else min k (int n))
      in nat (norm hi - norm lo))"

definition frame_speed :: "real \<Rightarrow> int \<Rightarrow> real \<Rightarrow> (real \<times> real) list \<Rightarrow> real option" where
  "frame_speed fps sample_rate meters_per_pixel flow =
     (let magnitude = map (\<lambda>(u, v). sqrt (u ^ 2 + v ^ 2)) flow;
          valid_flows = filter (\<lambda>m. m > 0) magnitude
      in if length valid_flows > 0 then
           let flow_magnitude = np_percentile valid_flows 75;
               speed_mps = flow_magnitude * meters_per_pixel * (fps / of_int sample_rate);
               speed_kmph = speed_mps * 3.6
           in Some (np_clip speed_kmph 0 150)
         else None)"

definition sp_step :: "real \<Rightarrow> int \<Rightarrow> real \<Rightarrow> real \<Rightarrow> real \<Rightarrow> sp_loop \<Rightarrow> sp_frame \<Rightarrow> sp_loop" where
  "sp_step fps sample_rate meters_per_pixel roi_top roi_bottom st fr =
     (let st1 = st\<lparr> sl_frame_count := sl_frame_count st + 1 \<rparr>
      in if int (sl_frame_count st1) mod sample_rate \<noteq> 0 then st1
         else if \<not> sl_has_prev st1 then st1\<lparr> sl_has_prev := True \<rparr>
         else
           let h = sf_height fr;
               roi_start_y = py_int (of_nat h * roi_top);
               roi_end_y = py_int (of_nat h * roi_bottom)
           in if slice_rows h roi_start_y roi_end_y * sf_width fr = 0 then st1
              else
                case sf_flow fr of
                  None \<Rightarrow> st1
                | Some flow \<Rightarrow>
                    (case frame_speed fps sample_rate meters_per_pixel flow of
                       None \<Rightarrow> st1
                     | Some speed_kmph \<Rightarrow> st1\<lparr> sl_speeds := sl_speeds st1 @ [speed_kmph] \<rparr>))"

text \<open>Lines 143 to 162: the interquartile filter and the mean.\<close>

definition iqr_filtered :: "real list \<Rightarrow> real list" where
  "iqr_filtered speeds =
     (let q1 = np_percentile speeds 25;
          q3 = np_percentile speeds 75;
          iqr = q3 - q1;
          lower_bound = max 0 (q1 - 1.5 * iqr);
          upper_bound = min 150 (q3 + 1.5 * iqr)
      in filter (\<lambda>s. s \<ge> lower_bound \<and> s \<le> upper_bound) speeds)"

definition aggregate_speeds :: "real list \<Rightarrow> real" where
  "aggregate_speeds all_frame_speeds_kmph =
     (if all_frame_speeds_kmph = [] then 0
      else
        let filtered_speeds = iqr_filtered all_frame_speeds_kmph;
            filtered_speeds' = (if length filtered_speeds = 0 then all_frame_speeds_kmph
                                else filtered_speeds)
        in mean filtered_speeds')"

definition collect_speeds :: "real \<Rightarrow> real \<Rightarrow> real \<Rightarrow> real \<Rightarrow> sp_frame list \<Rightarrow> real list" where
  "collect_speeds reported meters_per_pixel roi_top roi_bottom frames =
     (let fps = fps_or_default reported;
          sample_rate = speed_sample_rate reported
      in sl_speeds (fold (\<lambda>fr s. sp_step fps sample_rate meters_per_pixel roi_top roi_bottom s fr)
                      frames \<lparr> sl_frame_count = 0, sl_has_prev = False, sl_speeds = [] \<rparr>))"

definition calculate_average_speed :: "sp_video option \<Rightarrow> real \<Rightarrow> real \<Rightarrow> real \<Rightarrow> real" where
  "calculate_average_speed src meters_per_pixel roi_top roi_bottom =
     (case src of
        None \<Rightarrow> 0
      | Some v \<Rightarrow>
          aggregate_speeds
            (collect_speeds (sv_fps v) meters_per_pixel roi_top roi_bottom (sv_frames v)))"

section \<open>Entry points whose analysis is not modelled\<close>

text \<open>\<open>run_turn_count\<close> and \<open>run_lane_change_count\<close> return the same dictionary of three
  counts; \<open>estimate_speed_multimethod\<close> constructs an \<open>EnhancedSpeedDetector\<close>. Their
  behaviour on a path that cannot be opened is decided in their first lines; the rest
  of each function is the parameter \<open>analysis\<close>.\<close>

record turn_result =
  turn_count :: int
  left :: int
  right :: int

definition run_turn_count :: "('v \<Rightarrow> py_error + turn_result) \<Rightarrow> 'v option \<Rightarrow> py_error + turn_result" where
  "run_turn_count analysis src =
     (case src of
        None \<Rightarrow> Inr \<lparr> turn_count = 0, left = 0, right = 0 \<rparr>
      | Some v \<Rightarrow> analysis v)"

definition run_lane_change_count :: "('v \<Rightarrow> py_error + turn_result) \<Rightarrow> 'v option \<Rightarrow> py_error + turn_result" where
  "run_lane_change_count analysis src =
     (case src of
        None \<Rightarrow> Inr \<lparr> turn_count = 0, left = 0, right = 0 \<rparr>
      | Some v \<Rightarrow> analysis v)"

definition estimate_speed_multimethod :: "('v \<Rightarrow> py_error + 'r) \<Rightarrow> 'v option \<Rightarrow> py_error + 'r" where
  "estimate_speed_multimethod analysis src =
     (case src of
        None \<Rightarrow> Inl (RuntimeError ''Cannot open video'')
      | Some v \<Rightarrow> analysis v)"

section \<open>Rounding facts\<close>

lemma py_round_int [simp]: "py_round (of_int k) = k"
  by (simp add: py_round_def)

lemma py_round_lower: "x - 1 / 2 \<le> of_int (py_round x)"
  unfolding py_round_def Let_def by (simp; linarith)

lemma py_round_upper: "of_int (py_round x) \<le> x + 1 / 2"
  unfolding py_round_def Let_def by (simp; linarith)

lemma py_round_ge_one:
  assumes "1 \<le> x"
  shows "1 \<le> py_round x"
proof -
  have "1 \<le> \<lfloor>x\<rfloor>" using assms by linarith
  then show ?thesis unfolding py_round_def Let_def by simp
qed

lemma py_int_ge_one:
  assumes "1 \<le> x"
  shows "1 \<le> py_int x"
proof -
  have "1 \<le> \<lfloor>x\<rfloor>" using assms by linarith
  then show ?thesis using assms by (simp add: py_int_def)
qed

section \<open>The traffic-signal summary never reports a violation\<close>

text \<open>
  Claim C10. Whenever \<open>run_traffic_signal_summary\<close> returns, the list \<open>violations\<close> and
  the list \<open>traffic_violation_windows\<close> of its result are empty and the flag \<open>violation\<close>
  is false: the scan loop appends nothing, and \<open>_postprocess_smoother\<close> sets the flag
  from the emptiness of the window list. It does return for every video that opens
  and whose first frame, if there is one, can be resized (its width is not zero and the
  scaled height is at least one pixel).
\<close>

theorem traffic_signal_never_reports_violation:
  "(run_traffic_signal_summary src = Inr out \<longrightarrow>
      violations out = [] \<and> traffic_violation_windows out = Some [] \<and> violation out = Some False)
   \<and> ((case tv_frames v of [] \<Rightarrow> True | (h, w) # frames \<Rightarrow> w \<noteq> 0 \<and> w \<le> 800 * h) \<longrightarrow>
      run_traffic_signal_summary (Some v) =
        Inr \<lparr> violations = [], traffic_violation_windows = Some [], violation = Some False \<rparr>)"
proof (intro conjI impI)
  assume "run_traffic_signal_summary src = Inr out"
  then have "out = \<lparr> violations = [], traffic_violation_windows = Some [], violation = Some False \<rparr>"
    by (auto simp: run_traffic_signal_summary_def postprocess_smoother_def Let_def
             split: option.splits list.splits if_splits)
  then show "violations out = []" "traffic_violation_windows out = Some []"
    "violation out = Some False"
    by simp_all
next
  assume a: "case tv_frames v of [] \<Rightarrow> True | (h, w) # frames \<Rightarrow> w \<noteq> 0 \<and> w \<le> 800 * h"
  show "run_traffic_signal_summary (Some v) =
        Inr \<lparr> violations = [], traffic_violation_windows = Some [], violation = Some False \<rparr>"
  proof (cases "tv_frames v")
    case Nil
    then show ?thesis
      by (simp add: run_traffic_signal_summary_def postprocess_smoother_def Let_def)
  next
    case (Cons p frames)
    obtain h w where p: "p = (h, w)" by (cases p)
    from a Cons p have w: "w \<noteq> 0" "w \<le> 800 * h" by simp_all
    then have "(1::real) \<le> of_int (int h * 800) / of_nat w"
      by (simp add: le_divide_eq)
    then have "1 \<le> py_int (of_int (int h * 800) / of_nat w)"
      by (rule py_int_ge_one)
    then have "py_int (of_int (int h * TARGET_WIDTH_TS) / of_nat w) \<noteq> 0"
      by (simp add: TARGET_WIDTH_TS_def)
    with Cons p w show ?thesis
      by (simp add: run_traffic_signal_summary_def postprocess_smoother_def Let_def)
  qed
qed

theorem traffic_signal_witness:
  "run_traffic_signal_summary
     (Some \<lparr> tv_fps = 30, tv_frames = [(720, 1280), (720, 1280), (720, 1280)],
             tv_frame_count = 3, tv_pos_msec = 100 \<rparr>)
   = Inr \<lparr> violations = [], traffic_violation_windows = Some [], violation = Some False \<rparr>"
  using traffic_signal_never_reports_violation
    [of "Some \<lparr> tv_fps = 30, tv_frames = [(720, 1280), (720, 1280), (720, 1280)],
             tv_frame_count = 3, tv_pos_msec = 100 \<rparr>"
        "\<lparr> violations = [], traffic_violation_windows = Some [], violation = Some False \<rparr>"
        "\<lparr> tv_fps = 30, tv_frames = [(720, 1280), (720, 1280), (720, 1280)],
             tv_frame_count = 3, tv_pos_msec = 100 \<rparr>"]
  by simp

section \<open>Sampling steps\<close>

text \<open>
  Claim C6, as stated: in every sampling loop the step is
  \<open>max(1, round(f_native / f_target))\<close>. It fails for \<open>calculate_average_speed\<close>, which
  truncates instead of rounding: at the common rate of 29.97 frames per second its
  step is 5, while rounding 29.97 / 5 gives 6.
\<close>

theorem speed_sample_rate_not_rounded:
  "speed_sample_rate 29.97 \<noteq> max 1 (py_round (fps_or_default 29.97 / 5))"
  by (simp add: speed_sample_rate_def fps_or_default_def py_int_def py_round_def Let_def)

text \<open>
  Claim C6, amended. In \<open>run_traffic_signal_summary\<close>, \<open>run_close_encounters\<close>,
  \<open>run_turn_count\<close> and \<open>run_lane_change_count\<close> the step is
  \<open>max(1, round(fps / target))\<close> with targets 8, 8, 10 and 8 Hz; such a step is at
  least 1 and equals \<open>round(fps / target)\<close> whenever the positive target does not exceed
  the rate. In \<open>calculate_average_speed\<close> the step is \<open>max(1, int(fps / 5))\<close>, the
  truncated quotient, which is at least 1 as well. In all of them a reported rate of 0
  is replaced by 30.
\<close>

theorem sampling_steps:
  "traffic_signal_step r = max 1 (py_round (fps_or_default r / 8))
   \<and> close_encounters_step r = max 1 (py_round (fps_or_default r / 8))
   \<and> turn_count_step r = max 1 (py_round (fps_or_default r / 10))
   \<and> lane_change_step r = max 1 (py_round (fps_or_default r / 8))
   \<and> 1 \<le> sampling_step hz fps
   \<and> (0 < hz \<and> hz \<le> fps \<longrightarrow> sampling_step hz fps = py_round (fps / hz))
   \<and> speed_sample_rate r = max 1 (py_int (fps_or_default r / 5))
   \<and> 1 \<le> speed_sample_rate r
   \<and> fps_or_default 0 = 30"
proof -
  have "sampling_step hz fps = py_round (fps / hz)" if "0 < hz" "hz \<le> fps"
  proof -
    from that have "1 \<le> fps / hz" by (simp add: le_divide_eq)
    then have "1 \<le> py_round (fps / hz)" by (rule py_round_ge_one)
    then show ?thesis by (simp add: sampling_step_def)
  qed
  then show ?thesis
    by (simp add: traffic_signal_step_def close_encounters_step_def turn_count_step_def
        lane_change_step_def sampling_step_def speed_sample_rate_def fps_or_default_def
        PROCESS_HZ_TS_def PROC_HZ_CE_def PROCESS_HZ_TURN_def PROCESS_HZ_LC_def)
qed

theorem sampling_steps_witness:
  "turn_count_step 0 = 3 \<and> (0 < (8::real) \<and> (8::real) \<le> 30) \<and> sampling_step 8 30 = 4
   \<and> speed_sample_rate 0 = 6"
  using sampling_steps [of 0 8 30]
  by (simp add: py_round_def py_int_def Let_def fps_or_default_def)

section \<open>Entry points on a path that cannot be opened\<close>

text \<open>
  Claim C9, as stated: every entry point raises when the path cannot be opened. It
  fails for \<open>run_turn_count\<close>, which returns the dictionary of zero counts.
\<close>

theorem run_turn_count_does_not_raise:
  "run_turn_count Inr (None :: turn_result option) = Inr \<lparr> turn_count = 0, left = 0, right = 0 \<rparr>"
  by (simp add: run_turn_count_def)

text \<open>
  Claim C9, amended. On a path that cannot be opened, \<open>run_traffic_signal_summary\<close>,
  \<open>run_close_encounters\<close> and \<open>detect_close_encounters_enhanced\<close> (both with the
  detector library present) and \<open>estimate_speed_multimethod\<close> raise \<open>RuntimeError\<close>;
  \<open>run_turn_count\<close> and \<open>run_lane_change_count\<close> return zero counts,
  \<open>run_bus_lane_color\<close> returns no violation and \<open>calculate_average_speed\<close> returns 0,
  none of them raising. When the detector library is absent, \<open>run_close_encounters\<close>
  and \<open>detect_close_encounters_enhanced\<close> return an empty result with
  \<open>event_count = 0\<close> for every path, whether it opens or not.
\<close>

theorem entry_points_unopened:
  "run_traffic_signal_summary None = Inl (RuntimeError ''Could not open video'')
   \<and> run_close_encounters True None = Inl (RuntimeError ''Could not open video'')
   \<and> detect_close_encounters_enhanced True None = Inl (RuntimeError ''Cannot open video'')
   \<and> estimate_speed_multimethod analysis None = Inl (RuntimeError ''Cannot open video'')
   \<and> run_turn_count analysis1 None = Inr \<lparr> turn_count = 0, left = 0, right = 0 \<rparr>
   \<and> run_lane_change_count analysis2 None = Inr \<lparr> turn_count = 0, left = 0, right = 0 \<rparr>
   \<and> run_bus_lane_color None = \<lparr> violation_detected = False, violation_ranges = [] \<rparr>
   \<and> calculate_average_speed None meters_per_pixel roi_top roi_bottom = 0
   \<and> run_close_encounters False src1 =
       Inr \<lparr> cr_close_encounters = [], cr_event_count = 0,
             cr_note = Some ''ultralytics not installed'' \<rparr>
   \<and> detect_close_encounters_enhanced False src2 =
       Inr \<lparr> pr_close_encounters = [], pr_event_count = 0, pr_method = None,
             pr_error = Some ''YOLO not available'' \<rparr>"
  by (simp add: run_traffic_signal_summary_def run_close_encounters_def
      detect_close_encounters_enhanced_def estimate_speed_multimethod_def run_turn_count_def
      run_lane_change_count_def run_bus_lane_color_def calculate_average_speed_def)

section \<open>Distance estimation\<close>




section \<open>Time to collision\<close>









section \<open>Danger classification of a track\<close>

lemma track_of_update:
  "track_of (AList.update k v al) k' = (if k' = k then v else track_of al k')"
  by (simp add: track_of_def update_conv')

lemma make_track_data_distance:
  "td_distance (make_track_data det t b) = estimate_distance det (det_xyxy b) (det_cls b)"
  by (cases "det_xyxy b") (simp add: make_track_data_def Let_def)

lemma make_track_data_frontal:
  "det_xyxy b = (xa, ya, xb, yb) \<Longrightarrow>
   td_is_frontal (make_track_data det t b) =
     (of_int (d_width det) * 0.3 < (of_int (xa + xb) :: real) / 2
      \<and> (of_int (xa + xb) :: real) / 2 < of_int (d_width det) * 0.7)"
  by (auto simp add: make_track_data_def Let_def)

lemma update_track_criteria:
  assumes "update_track det k tr td = Inr tr'"
    and "tr_is_dangerous tr' \<noteq> tr_is_dangerous tr
         \<or> tr_max_danger_score tr' \<noteq> tr_max_danger_score tr
         \<or> tr_peak_time tr' \<noteq> tr_peak_time tr"
  shows "5 \<le> length (tr_history tr) + 1 \<and> td_distance td < 15 \<and> td_is_frontal td
     \<and> (xreal_less_fin (calculate_ttc (tr_history tr @ [td])) 4 \<or> td_distance td < 8)
     \<and> \<not> is_lateral_movement det (tr_history tr @ [td])"
  using assms
  by (auto simp add: update_track_def Let_def MIN_TRACK_FRAMES_def DANGEROUS_DISTANCE_M_def
      CRITICAL_DISTANCE_M_def TTC_THRESHOLD_SEC_def split: if_splits)

lemma update_track_far:
  assumes "15 \<le> td_distance td"
  shows "\<exists>tr'. update_track det k tr td = Inr tr' \<and> tr_is_dangerous tr' = tr_is_dangerous tr"
  using assms
  by (simp add: update_track_def Let_def DANGEROUS_DISTANCE_M_def)

lemma process_box_far:
  assumes "process_box det k t vt b = Inr vt'"
    and "det_id b = Some tid \<longrightarrow> 15 \<le> estimate_distance det (det_xyxy b) (det_cls b)"
  shows "tr_is_dangerous (track_of vt' tid) = tr_is_dangerous (track_of vt tid)"
proof (cases "det_id b")
  case None
  with assms(1) show ?thesis
    by (auto simp add: process_box_def split: if_splits prod.splits)
next
  case (Some j)
  show ?thesis
  proof (cases "j = tid")
    case True
    with Some assms(2) have "15 \<le> td_distance (make_track_data det t b)"
      by (simp add: make_track_data_distance)
    from update_track_far [OF this, of det k "track_of vt tid"]
    obtain tr' where "update_track det k (track_of vt tid) (make_track_data det t b) = Inr tr'"
      and "tr_is_dangerous tr' = tr_is_dangerous (track_of vt tid)"
      by blast
    with assms(1) Some True show ?thesis
      by (auto simp add: process_box_def track_of_update split: if_splits prod.splits)
  next
    case False
    with assms(1) Some show ?thesis
      by (auto simp add: process_box_def track_of_update split: if_splits prod.splits sum.splits)
  qed
qed

lemma process_boxes_far:
  assumes "process_boxes det k t vt boxes = Inr vt'"
    and "\<forall>b \<in> set boxes. det_id b = Some tid \<longrightarrow>
           15 \<le> estimate_distance det (det_xyxy b) (det_cls b)"
  shows "tr_is_dangerous (track_of vt' tid) = tr_is_dangerous (track_of vt tid)"
  using assms
proof (induction boxes arbitrary: vt)
  case Nil
  then show ?case by simp
next
  case (Cons b boxes)
  from Cons.prems(1) obtain vt1 where b: "process_box det k t vt b = Inr vt1"
    and rest: "process_boxes det k t vt1 boxes = Inr vt'"
    by (auto split: sum.splits)
  from process_box_far [OF b] Cons.prems(2)
  have "tr_is_dangerous (track_of vt1 tid) = tr_is_dangerous (track_of vt tid)" by simp
  moreover from Cons.IH [OF rest] Cons.prems(2)
  have "tr_is_dangerous (track_of vt' tid) = tr_is_dangerous (track_of vt1 tid)" by simp
  ultimately show ?case by simp
qed

lemma detect_loop_far:
  assumes "detect_loop det i vt frames = Inr vt'"
    and "\<forall>boxes \<in> set frames. \<forall>b \<in> set boxes. det_id b = Some tid \<longrightarrow>
           15 \<le> estimate_distance det (det_xyxy b) (det_cls b)"
  shows "tr_is_dangerous (track_of vt' tid) = tr_is_dangerous (track_of vt tid)"
  using assms
proof (induction frames arbitrary: i vt)
  case Nil
  then show ?case by simp
next
  case (Cons boxes frames)
  have far: "\<forall>b \<in> set boxes. det_id b = Some tid \<longrightarrow>
           15 \<le> estimate_distance det (det_xyxy b) (det_cls b)"
    and far': "\<forall>boxes \<in> set frames. \<forall>b \<in> set boxes. det_id b = Some tid \<longrightarrow>
           15 \<le> estimate_distance det (det_xyxy b) (det_cls b)"
    using Cons.prems(2) by simp_all
  show ?case
  proof (cases "Suc i mod 2 \<noteq> 0 \<or> boxes = []")
    case True
    with Cons.prems(1) have "detect_loop det (Suc i) vt frames = Inr vt'"
      by (auto simp add: Let_def split: if_splits)
    from Cons.IH [OF this far'] show ?thesis .
  next
    case False
    with Cons.prems(1) obtain vt1 where
      b: "process_boxes det (Suc i) (of_nat (Suc i) / d_fps det) vt boxes = Inr vt1"
      and rest: "detect_loop det (Suc i) vt1 frames = Inr vt'"
      by (auto simp add: Let_def split: if_splits sum.splits)
    from process_boxes_far [OF b far] Cons.IH [OF rest far'] show ?thesis by simp
  qed
qed


text \<open>
  Claim C2. A sample changes the danger state of a track (its flag, its maximal danger
  score or its peak time) only when the track has at least 5 samples, the estimated
  distance is below 15 m, the box is frontal, the time to collision is below 4 s or
  the distance is below 8 m, and the track does not move laterally. Frontal means
  that the horizontal centre of the box lies strictly between 30 and 70 percent of the
  frame width. A sample at distance 50 m never changes the flag, and over a whole run
  of the frame loop a track all of whose samples are at 50 m is not marked dangerous,
  whatever its time to collision.
\<close>

theorem danger_criteria:
  "(update_track det k tr td = Inr tr'
      \<and> (tr_is_dangerous tr' \<noteq> tr_is_dangerous tr
           \<or> tr_max_danger_score tr' \<noteq> tr_max_danger_score tr
           \<or> tr_peak_time tr' \<noteq> tr_peak_time tr)
    \<longrightarrow> 5 \<le> length (tr_history tr) + 1 \<and> td_distance td < 15 \<and> td_is_frontal td
        \<and> (xreal_less_fin (calculate_ttc (tr_history tr @ [td])) 4 \<or> td_distance td < 8)
        \<and> \<not> is_lateral_movement det (tr_history tr @ [td]))
   \<and> (det_xyxy b = (xa, ya, xb, yb) \<longrightarrow>
        td_is_frontal (make_track_data det t b) =
          (of_int (d_width det) * 0.3 < (of_int (xa + xb) :: real) / 2
           \<and> (of_int (xa + xb) :: real) / 2 < of_int (d_width det) * 0.7))
   \<and> (td_distance td = 50 \<longrightarrow>
        (\<exists>tr1. update_track det k tr td = Inr tr1 \<and> tr_is_dangerous tr1 = tr_is_dangerous tr))
   \<and> (detect_loop det i vt frames = Inr vt'
        \<and> (\<forall>boxes \<in> set frames. \<forall>b \<in> set boxes. det_id b = Some tid \<longrightarrow>
              estimate_distance det (det_xyxy b) (det_cls b) = 50)
        \<and> \<not> tr_is_dangerous (track_of vt tid)
      \<longrightarrow> \<not> tr_is_dangerous (track_of vt' tid))"
proof (intro conjI impI)
  assume "update_track det k tr td = Inr tr'
      \<and> (tr_is_dangerous tr' \<noteq> tr_is_dangerous tr
           \<or> tr_max_danger_score tr' \<noteq> tr_max_danger_score tr
           \<or> tr_peak_time tr' \<noteq> tr_peak_time tr)"
  then have c: "5 \<le> length (tr_history tr) + 1 \<and> td_distance td < 15 \<and> td_is_frontal td
     \<and> (xreal_less_fin (calculate_ttc (tr_history tr @ [td])) 4 \<or> td_distance td < 8)
     \<and> \<not> is_lateral_movement det (tr_history tr @ [td])"
    using update_track_criteria [of det k tr td tr'] by blast
  from c show "5 \<le> length (tr_history tr) + 1" by blast
  from c show "td_distance td < 15" by blast
  from c show "td_is_frontal td" by blast
  from c show "xreal_less_fin (calculate_ttc (tr_history tr @ [td])) 4 \<or> td_distance td < 8"
    by blast
  from c show "\<not> is_lateral_movement det (tr_history tr @ [td])" by blast
next
  assume "det_xyxy b = (xa, ya, xb, yb)"
  then show "td_is_frontal (make_track_data det t b) =
          (of_int (d_width det) * 0.3 < (of_int (xa + xb) :: real) / 2
           \<and> (of_int (xa + xb) :: real) / 2 < of_int (d_width det) * 0.7)"
    by (rule make_track_data_frontal)
next
  assume "td_distance td = 50"
  then have "15 \<le> td_distance td" by simp
  then show "\<exists>tr1. update_track det k tr td = Inr tr1 \<and> tr_is_dangerous tr1 = tr_is_dangerous tr"
    by (rule update_track_far)
next
  assume a: "detect_loop det i vt frames = Inr vt'
        \<and> (\<forall>boxes \<in> set frames. \<forall>b \<in> set boxes. det_id b = Some tid \<longrightarrow>
              estimate_distance det (det_xyxy b) (det_cls b) = 50)
        \<and> \<not> tr_is_dangerous (track_of vt tid)"
  then have "\<forall>boxes \<in> set frames. \<forall>b \<in> set boxes. det_id b = Some tid \<longrightarrow>
           15 \<le> estimate_distance det (det_xyxy b) (det_cls b)"
    by auto
  with a detect_loop_far [of det i vt frames vt' tid]
  show "\<not> tr_is_dangerous (track_of vt' tid)" by blast
qed

theorem danger_criteria_witness:
  "update_track \<lparr> d_fps = 30, d_width = 4000, d_height = 1000, d_focal_length = 2000 \<rparr> 10 \<lparr> tr_history = [\<lparr> td_time = 1, td_distance = 5, td_box = (1950, 100, 2050, 500), td_box_height = 400, td_center_x = 2000, td_center_y = 300, td_class = ''car'', td_is_frontal = True \<rparr>, \<lparr> td_time = 2, td_distance = 5, td_box = (1950, 100, 2050, 500), td_box_height = 400, td_center_x = 2000, td_center_y = 300, td_class = ''car'', td_is_frontal = True \<rparr>, \<lparr> td_time = 3, td_distance = 5, td_box = (1950, 100, 2050, 500), td_box_height = 400, td_center_x = 2000, td_center_y = 300, td_class = ''car'', td_is_frontal = True \<rparr>, \<lparr> td_time = 4, td_distance = 5, td_box = (1950, 100, 2050, 500), td_box_height = 400, td_center_x = 2000, td_center_y = 300, td_class = ''car'', td_is_frontal = True \<rparr>], tr_first_frame = 2, tr_last_frame = 8, tr_min_distance = Fin 5, tr_max_danger_score = 0, tr_is_dangerous = False, tr_peak_time = None, tr_peak_distance = None, tr_ttc = None \<rparr> \<lparr> td_time = 5, td_distance = 5, td_box = (1950, 100, 2050, 500), td_box_height = 400, td_center_x = 2000, td_center_y = 300, td_class = ''car'', td_is_frontal = True \<rparr>
     = Inr \<lparr> tr_history = [\<lparr> td_time = 1, td_distance = 5, td_box = (1950, 100, 2050, 500), td_box_height = 400, td_center_x = 2000, td_center_y = 300, td_class = ''car'', td_is_frontal = True \<rparr>, \<lparr> td_time = 2, td_distance = 5, td_box = (1950, 100, 2050, 500), td_box_height = 400, td_center_x = 2000, td_center_y = 300, td_class = ''car'', td_is_frontal = True \<rparr>, \<lparr> td_time = 3, td_distance = 5, td_box = (1950, 100, 2050, 500), td_box_height = 400, td_center_x = 2000, td_center_y = 300, td_class = ''car'', td_is_frontal = True \<rparr>, \<lparr> td_time = 4, td_distance = 5, td_box = (1950, 100, 2050, 500), td_box_height = 400, td_center_x = 2000, td_center_y = 300, td_class = ''car'', td_is_frontal = True \<rparr>, \<lparr> td_time = 5, td_distance = 5, td_box = (1950, 100, 2050, 500), td_box_height = 400, td_center_x = 2000, td_center_y = 300, td_class = ''car'', td_is_frontal = True \<rparr>], tr_first_frame = 2, tr_last_frame = 10, tr_min_distance = Fin 5, tr_max_danger_score = 33 / 100, tr_is_dangerous = True, tr_peak_time = Some 5, tr_peak_distance = Some 5, tr_ttc = Some 0 \<rparr>
   \<and> td_distance \<lparr> td_time = 5, td_distance = 5, td_box = (1950, 100, 2050, 500), td_box_height = 400, td_center_x = 2000, td_center_y = 300, td_class = ''car'', td_is_frontal = True \<rparr> < 15 \<and> td_is_frontal \<lparr> td_time = 5, td_distance = 5, td_box = (1950, 100, 2050, 500), td_box_height = 400, td_center_x = 2000, td_center_y = 300, td_class = ''car'', td_is_frontal = True \<rparr>
   \<and> td_distance \<lparr> td_time = 5, td_distance = 5, td_box = (1950, 100, 2050, 500), td_box_height = 400, td_center_x = 2000, td_center_y = 300, td_class = ''car'', td_is_frontal = True \<rparr> < 8
   \<and> \<not> is_lateral_movement \<lparr> d_fps = 30, d_width = 4000, d_height = 1000, d_focal_length = 2000 \<rparr> [\<lparr> td_time = 1, td_distance = 5, td_box = (1950, 100, 2050, 500), td_box_height = 400, td_center_x = 2000, td_center_y = 300, td_class = ''car'', td_is_frontal = True \<rparr>, \<lparr> td_time = 2, td_distance = 5, td_box = (1950, 100, 2050, 500), td_box_height = 400, td_center_x = 2000, td_center_y = 300, td_class = ''car'', td_is_frontal = True \<rparr>, \<lparr> td_time = 3, td_distance = 5, td_box = (1950, 100, 2050, 500), td_box_height = 400, td_center_x = 2000, td_center_y = 300, td_class = ''car'', td_is_frontal = True \<rparr>, \<lparr> td_time = 4, td_distance = 5, td_box = (1950, 100, 2050, 500), td_box_height = 400, td_center_x = 2000, td_center_y = 300, td_class = ''car'', td_is_frontal = True \<rparr>, \<lparr> td_time = 5, td_distance = 5, td_box = (1950, 100, 2050, 500), td_box_height = 400, td_center_x = 2000, td_center_y = 300, td_class = ''car'', td_is_frontal = True \<rparr>]
   \<and> td_is_frontal (make_track_data \<lparr> d_fps = 30, d_width = 4000, d_height = 1000, d_focal_length = 2000 \<rparr> 1 \<lparr> det_cls = ''bus'', det_xyxy = (1900, 100, 2100, 310), det_id = Some 7 \<rparr>)
   \<and> update_track \<lparr> d_fps = 30, d_width = 4000, d_height = 1000, d_focal_length = 2000 \<rparr> 10 \<lparr> tr_history = [\<lparr> td_time = 1, td_distance = 5, td_box = (1950, 100, 2050, 500), td_box_height = 400, td_center_x = 2000, td_center_y = 300, td_class = ''car'', td_is_frontal = True \<rparr>, \<lparr> td_time = 2, td_distance = 5, td_box = (1950, 100, 2050, 500), td_box_height = 400, td_center_x = 2000, td_center_y = 300, td_class = ''car'', td_is_frontal = True \<rparr>, \<lparr> td_time = 3, td_distance = 5, td_box = (1950, 100, 2050, 500), td_box_height = 400, td_center_x = 2000, td_center_y = 300, td_class = ''car'', td_is_frontal = True \<rparr>, \<lparr> td_time = 4, td_distance = 5, td_box = (1950, 100, 2050, 500), td_box_height = 400, td_center_x = 2000, td_center_y = 300, td_class = ''car'', td_is_frontal = True \<rparr>], tr_first_frame = 2, tr_last_frame = 8, tr_min_distance = Fin 5, tr_max_danger_score = 0, tr_is_dangerous = False, tr_peak_time = None, tr_peak_distance = None, tr_ttc = None \<rparr> \<lparr> td_time = 5, td_distance = 50, td_box = (1950, 100, 2050, 500), td_box_height = 400, td_center_x = 2000, td_center_y = 300, td_class = ''car'', td_is_frontal = True \<rparr>
     = Inr (\<lparr> tr_history = [\<lparr> td_time = 1, td_distance = 5, td_box = (1950, 100, 2050, 500), td_box_height = 400, td_center_x = 2000, td_center_y = 300, td_class = ''car'', td_is_frontal = True \<rparr>, \<lparr> td_time = 2, td_distance = 5, td_box = (1950, 100, 2050, 500), td_box_height = 400, td_center_x = 2000, td_center_y = 300, td_class = ''car'', td_is_frontal = True \<rparr>, \<lparr> td_time = 3, td_distance = 5, td_box = (1950, 100, 2050, 500), td_box_height = 400, td_center_x = 2000, td_center_y = 300, td_class = ''car'', td_is_frontal = True \<rparr>, \<lparr> td_time = 4, td_distance = 5, td_box = (1950, 100, 2050, 500), td_box_height = 400, td_center_x = 2000, td_center_y = 300, td_class = ''car'', td_is_frontal = True \<rparr>], tr_first_frame = 2, tr_last_frame = 8, tr_min_distance = Fin 5, tr_max_danger_score = 0, tr_is_dangerous = False, tr_peak_time = None, tr_peak_distance = None, tr_ttc = None \<rparr>\<lparr> tr_history := [\<lparr> td_time = 1, td_distance = 5, td_box = (1950, 100, 2050, 500), td_box_height = 400, td_center_x = 2000, td_center_y = 300, td_class = ''car'', td_is_frontal = True \<rparr>, \<lparr> td_time = 2, td_distance = 5, td_box = (1950, 100, 2050, 500), td_box_height = 400, td_center_x = 2000, td_center_y = 300, td_class = ''car'', td_is_frontal = True \<rparr>, \<lparr> td_time = 3, td_distance = 5, td_box = (1950, 100, 2050, 500), td_box_height = 400, td_center_x = 2000, td_center_y = 300, td_class = ''car'', td_is_frontal = True \<rparr>, \<lparr> td_time = 4, td_distance = 5, td_box = (1950, 100, 2050, 500), td_box_height = 400, td_center_x = 2000, td_center_y = 300, td_class = ''car'', td_is_frontal = True \<rparr>] @ [\<lparr> td_time = 5, td_distance = 50, td_box = (1950, 100, 2050, 500), td_box_height = 400, td_center_x = 2000, td_center_y = 300, td_class = ''car'', td_is_frontal = True \<rparr>], tr_last_frame := 10 \<rparr>)
   \<and> estimate_distance \<lparr> d_fps = 30, d_width = 4000, d_height = 1000, d_focal_length = 2000 \<rparr> (1900, 100, 2100, 310) ''bus'' = 50
   \<and> \<not> isl (detect_loop \<lparr> d_fps = 30, d_width = 4000, d_height = 1000, d_focal_length = 2000 \<rparr> 0 [] [[], [\<lparr> det_cls = ''bus'', det_xyxy = (1900, 100, 2100, 310), det_id = Some 7 \<rparr>], [], [\<lparr> det_cls = ''bus'', det_xyxy = (1900, 100, 2100, 310), det_id = Some 7 \<rparr>], [], [\<lparr> det_cls = ''bus'', det_xyxy = (1900, 100, 2100, 310), det_id = Some 7 \<rparr>], [], [\<lparr> det_cls = ''bus'', det_xyxy = (1900, 100, 2100, 310), det_id = Some 7 \<rparr>], [], [\<lparr> det_cls = ''bus'', det_xyxy = (1900, 100, 2100, 310), det_id = Some 7 \<rparr>]])
   \<and> \<not> tr_is_dangerous (track_of (projr (detect_loop \<lparr> d_fps = 30, d_width = 4000, d_height = 1000, d_focal_length = 2000 \<rparr> 0 [] [[], [\<lparr> det_cls = ''bus'', det_xyxy = (1900, 100, 2100, 310), det_id = Some 7 \<rparr>], [], [\<lparr> det_cls = ''bus'', det_xyxy = (1900, 100, 2100, 310), det_id = Some 7 \<rparr>], [], [\<lparr> det_cls = ''bus'', det_xyxy = (1900, 100, 2100, 310), det_id = Some 7 \<rparr>], [], [\<lparr> det_cls = ''bus'', det_xyxy = (1900, 100, 2100, 310), det_id = Some 7 \<rparr>], [], [\<lparr> det_cls = ''bus'', det_xyxy = (1900, 100, 2100, 310), det_id = Some 7 \<rparr>]])) 7)
   \<and> length (tr_history (track_of (projr (detect_loop \<lparr> d_fps = 30, d_width = 4000, d_height = 1000, d_focal_length = 2000 \<rparr> 0 [] [[], [\<lparr> det_cls = ''bus'', det_xyxy = (1900, 100, 2100, 310), det_id = Some 7 \<rparr>], [], [\<lparr> det_cls = ''bus'', det_xyxy = (1900, 100, 2100, 310), det_id = Some 7 \<rparr>], [], [\<lparr> det_cls = ''bus'', det_xyxy = (1900, 100, 2100, 310), det_id = Some 7 \<rparr>], [], [\<lparr> det_cls = ''bus'', det_xyxy = (1900, 100, 2100, 310), det_id = Some 7 \<rparr>], [], [\<lparr> det_cls = ''bus'', det_xyxy = (1900, 100, 2100, 310), det_id = Some 7 \<rparr>]])) 7)) = 5"
proof -
  have ttc: "calculate_ttc [\<lparr> td_time = 1, td_distance = 5, td_box = (1950, 100, 2050, 500), td_box_height = 400, td_center_x = 2000, td_center_y = 300, td_class = ''car'', td_is_frontal = True \<rparr>, \<lparr> td_time = 2, td_distance = 5, td_box = (1950, 100, 2050, 500), td_box_height = 400, td_center_x = 2000, td_center_y = 300, td_class = ''car'', td_is_frontal = True \<rparr>, \<lparr> td_time = 3, td_distance = 5, td_box = (1950, 100, 2050, 500), td_box_height = 400, td_center_x = 2000, td_center_y = 300, td_class = ''car'', td_is_frontal = True \<rparr>, \<lparr> td_time = 4, td_distance = 5, td_box = (1950, 100, 2050, 500), td_box_height = 400, td_center_x = 2000, td_center_y = 300, td_class = ''car'', td_is_frontal = True \<rparr>, \<lparr> td_time = 5, td_distance = 5, td_box = (1950, 100, 2050, 500), td_box_height = 400, td_center_x = 2000, td_center_y = 300, td_class = ''car'', td_is_frontal = True \<rparr>] = PInf"
    by (simp add: calculate_ttc_def recent_window_def polyfit_slope_def mean_def Let_def)
  have lat: "\<not> is_lateral_movement \<lparr> d_fps = 30, d_width = 4000, d_height = 1000, d_focal_length = 2000 \<rparr> [\<lparr> td_time = 1, td_distance = 5, td_box = (1950, 100, 2050, 500), td_box_height = 400, td_center_x = 2000, td_center_y = 300, td_class = ''car'', td_is_frontal = True \<rparr>, \<lparr> td_time = 2, td_distance = 5, td_box = (1950, 100, 2050, 500), td_box_height = 400, td_center_x = 2000, td_center_y = 300, td_class = ''car'', td_is_frontal = True \<rparr>, \<lparr> td_time = 3, td_distance = 5, td_box = (1950, 100, 2050, 500), td_box_height = 400, td_center_x = 2000, td_center_y = 300, td_class = ''car'', td_is_frontal = True \<rparr>, \<lparr> td_time = 4, td_distance = 5, td_box = (1950, 100, 2050, 500), td_box_height = 400, td_center_x = 2000, td_center_y = 300, td_class = ''car'', td_is_frontal = True \<rparr>, \<lparr> td_time = 5, td_distance = 5, td_box = (1950, 100, 2050, 500), td_box_height = 400, td_center_x = 2000, td_center_y = 300, td_class = ''car'', td_is_frontal = True \<rparr>]"
    by (simp add: is_lateral_movement_def recent_window_def Let_def)
  have u5: "update_track \<lparr> d_fps = 30, d_width = 4000, d_height = 1000, d_focal_length = 2000 \<rparr> 10 \<lparr> tr_history = [\<lparr> td_time = 1, td_distance = 5, td_box = (1950, 100, 2050, 500), td_box_height = 400, td_center_x = 2000, td_center_y = 300, td_class = ''car'', td_is_frontal = True \<rparr>, \<lparr> td_time = 2, td_distance = 5, td_box = (1950, 100, 2050, 500), td_box_height = 400, td_center_x = 2000, td_center_y = 300, td_class = ''car'', td_is_frontal = True \<rparr>, \<lparr> td_time = 3, td_distance = 5, td_box = (1950, 100, 2050, 500), td_box_height = 400, td_center_x = 2000, td_center_y = 300, td_class = ''car'', td_is_frontal = True \<rparr>, \<lparr> td_time = 4, td_distance = 5, td_box = (1950, 100, 2050, 500), td_box_height = 400, td_center_x = 2000, td_center_y = 300, td_class = ''car'', td_is_frontal = True \<rparr>], tr_first_frame = 2, tr_last_frame = 8, tr_min_distance = Fin 5, tr_max_danger_score = 0, tr_is_dangerous = False, tr_peak_time = None, tr_peak_distance = None, tr_ttc = None \<rparr> \<lparr> td_time = 5, td_distance = 5, td_box = (1950, 100, 2050, 500), td_box_height = 400, td_center_x = 2000, td_center_y = 300, td_class = ''car'', td_is_frontal = True \<rparr> = Inr \<lparr> tr_history = [\<lparr> td_time = 1, td_distance = 5, td_box = (1950, 100, 2050, 500), td_box_height = 400, td_center_x = 2000, td_center_y = 300, td_class = ''car'', td_is_frontal = True \<rparr>, \<lparr> td_time = 2, td_distance = 5, td_box = (1950, 100, 2050, 500), td_box_height = 400, td_center_x = 2000, td_center_y = 300, td_class = ''car'', td_is_frontal = True \<rparr>, \<lparr> td_time = 3, td_distance = 5, td_box = (1950, 100, 2050, 500), td_box_height = 400, td_center_x = 2000, td_center_y = 300, td_class = ''car'', td_is_frontal = True \<rparr>, \<lparr> td_time = 4, td_distance = 5, td_box = (1950, 100, 2050, 500), td_box_height = 400, td_center_x = 2000, td_center_y = 300, td_class = ''car'', td_is_frontal = True \<rparr>, \<lparr> td_time = 5, td_distance = 5, td_box = (1950, 100, 2050, 500), td_box_height = 400, td_center_x = 2000, td_center_y = 300, td_class = ''car'', td_is_frontal = True \<rparr>], tr_first_frame = 2, tr_last_frame = 10, tr_min_distance = Fin 5, tr_max_danger_score = 33 / 100, tr_is_dangerous = True, tr_peak_time = Some 5, tr_peak_distance = Some 5, tr_ttc = Some 0 \<rparr>"
    using ttc lat
    by (simp add: update_track_def Let_def MIN_TRACK_FRAMES_def DANGEROUS_DISTANCE_M_def
        CRITICAL_DISTANCE_M_def TTC_THRESHOLD_SEC_def)
  have u50: "update_track \<lparr> d_fps = 30, d_width = 4000, d_height = 1000, d_focal_length = 2000 \<rparr> 10 \<lparr> tr_history = [\<lparr> td_time = 1, td_distance = 5, td_box = (1950, 100, 2050, 500), td_box_height = 400, td_center_x = 2000, td_center_y = 300, td_class = ''car'', td_is_frontal = True \<rparr>, \<lparr> td_time = 2, td_distance = 5, td_box = (1950, 100, 2050, 500), td_box_height = 400, td_center_x = 2000, td_center_y = 300, td_class = ''car'', td_is_frontal = True \<rparr>, \<lparr> td_time = 3, td_distance = 5, td_box = (1950, 100, 2050, 500), td_box_height = 400, td_center_x = 2000, td_center_y = 300, td_class = ''car'', td_is_frontal = True \<rparr>, \<lparr> td_time = 4, td_distance = 5, td_box = (1950, 100, 2050, 500), td_box_height = 400, td_center_x = 2000, td_center_y = 300, td_class = ''car'', td_is_frontal = True \<rparr>], tr_first_frame = 2, tr_last_frame = 8, tr_min_distance = Fin 5, tr_max_danger_score = 0, tr_is_dangerous = False, tr_peak_time = None, tr_peak_distance = None, tr_ttc = None \<rparr> \<lparr> td_time = 5, td_distance = 50, td_box = (1950, 100, 2050, 500), td_box_height = 400, td_center_x = 2000, td_center_y = 300, td_class = ''car'', td_is_frontal = True \<rparr>
     = Inr (\<lparr> tr_history = [\<lparr> td_time = 1, td_distance = 5, td_box = (1950, 100, 2050, 500), td_box_height = 400, td_center_x = 2000, td_center_y = 300, td_class = ''car'', td_is_frontal = True \<rparr>, \<lparr> td_time = 2, td_distance = 5, td_box = (1950, 100, 2050, 500), td_box_height = 400, td_center_x = 2000, td_center_y = 300, td_class = ''car'', td_is_frontal = True \<rparr>, \<lparr> td_time = 3, td_distance = 5, td_box = (1950, 100, 2050, 500), td_box_height = 400, td_center_x = 2000, td_center_y = 300, td_class = ''car'', td_is_frontal = True \<rparr>, \<lparr> td_time = 4, td_distance = 5, td_box = (1950, 100, 2050, 500), td_box_height = 400, td_center_x = 2000, td_center_y = 300, td_class = ''car'', td_is_frontal = True \<rparr>], tr_first_frame = 2, tr_last_frame = 8, tr_min_distance = Fin 5, tr_max_danger_score = 0, tr_is_dangerous = False, tr_peak_time = None, tr_peak_distance = None, tr_ttc = None \<rparr>\<lparr> tr_history := [\<lparr> td_time = 1, td_distance = 5, td_box = (1950, 100, 2050, 500), td_box_height = 400, td_center_x = 2000, td_center_y = 300, td_class = ''car'', td_is_frontal = True \<rparr>, \<lparr> td_time = 2, td_distance = 5, td_box = (1950, 100, 2050, 500), td_box_height = 400, td_center_x = 2000, td_center_y = 300, td_class = ''car'', td_is_frontal = True \<rparr>, \<lparr> td_time = 3, td_distance = 5, td_box = (1950, 100, 2050, 500), td_box_height = 400, td_center_x = 2000, td_center_y = 300, td_class = ''car'', td_is_frontal = True \<rparr>, \<lparr> td_time = 4, td_distance = 5, td_box = (1950, 100, 2050, 500), td_box_height = 400, td_center_x = 2000, td_center_y = 300, td_class = ''car'', td_is_frontal = True \<rparr>] @ [\<lparr> td_time = 5, td_distance = 50, td_box = (1950, 100, 2050, 500), td_box_height = 400, td_center_x = 2000, td_center_y = 300, td_class = ''car'', td_is_frontal = True \<rparr>], tr_last_frame := 10 \<rparr>)"
    by (simp add: update_track_def Let_def MIN_TRACK_FRAMES_def DANGEROUS_DISTANCE_M_def)
  have dist: "estimate_distance \<lparr> d_fps = 30, d_width = 4000, d_height = 1000, d_focal_length = 2000 \<rparr> (1900, 100, 2100, 310) ''bus'' = 50"
    by (simp add: estimate_distance_def real_heights_def np_clip_def Let_def)
  have loop: "\<exists>vt. detect_loop \<lparr> d_fps = 30, d_width = 4000, d_height = 1000, d_focal_length = 2000 \<rparr> 0 [] [[], [\<lparr> det_cls = ''bus'', det_xyxy = (1900, 100, 2100, 310), det_id = Some 7 \<rparr>], [], [\<lparr> det_cls = ''bus'', det_xyxy = (1900, 100, 2100, 310), det_id = Some 7 \<rparr>], [], [\<lparr> det_cls = ''bus'', det_xyxy = (1900, 100, 2100, 310), det_id = Some 7 \<rparr>], [], [\<lparr> det_cls = ''bus'', det_xyxy = (1900, 100, 2100, 310), det_id = Some 7 \<rparr>], [], [\<lparr> det_cls = ''bus'', det_xyxy = (1900, 100, 2100, 310), det_id = Some 7 \<rparr>]] = Inr vt \<and> length (tr_history (track_of vt 7)) = 5"
    by (simp add: process_box_def update_track_def make_track_data_def dist track_of_def
        new_track_def Let_def MIN_TRACK_FRAMES_def MIN_BOX_HEIGHT_RATIO_def
        DANGEROUS_DISTANCE_M_def)
  then obtain vt where vt: "detect_loop \<lparr> d_fps = 30, d_width = 4000, d_height = 1000, d_focal_length = 2000 \<rparr> 0 [] [[], [\<lparr> det_cls = ''bus'', det_xyxy = (1900, 100, 2100, 310), det_id = Some 7 \<rparr>], [], [\<lparr> det_cls = ''bus'', det_xyxy = (1900, 100, 2100, 310), det_id = Some 7 \<rparr>], [], [\<lparr> det_cls = ''bus'', det_xyxy = (1900, 100, 2100, 310), det_id = Some 7 \<rparr>], [], [\<lparr> det_cls = ''bus'', det_xyxy = (1900, 100, 2100, 310), det_id = Some 7 \<rparr>], [], [\<lparr> det_cls = ''bus'', det_xyxy = (1900, 100, 2100, 310), det_id = Some 7 \<rparr>]] = Inr vt"
    and len: "length (tr_history (track_of vt 7)) = 5"
    by blast
  have "\<not> tr_is_dangerous (track_of vt 7)"
    using danger_criteria
      [where det = "\<lparr> d_fps = 30, d_width = 4000, d_height = 1000, d_focal_length = 2000 \<rparr>" and i = 0 and vt = "[]" and frames = "[[], [\<lparr> det_cls = ''bus'', det_xyxy = (1900, 100, 2100, 310), det_id = Some 7 \<rparr>], [], [\<lparr> det_cls = ''bus'', det_xyxy = (1900, 100, 2100, 310), det_id = Some 7 \<rparr>], [], [\<lparr> det_cls = ''bus'', det_xyxy = (1900, 100, 2100, 310), det_id = Some 7 \<rparr>], [], [\<lparr> det_cls = ''bus'', det_xyxy = (1900, 100, 2100, 310), det_id = Some 7 \<rparr>], [], [\<lparr> det_cls = ''bus'', det_xyxy = (1900, 100, 2100, 310), det_id = Some 7 \<rparr>]]" and vt' = vt and tid = 7
         and k = 10 and tr = "\<lparr> tr_history = [\<lparr> td_time = 1, td_distance = 5, td_box = (1950, 100, 2050, 500), td_box_height = 400, td_center_x = 2000, td_center_y = 300, td_class = ''car'', td_is_frontal = True \<rparr>, \<lparr> td_time = 2, td_distance = 5, td_box = (1950, 100, 2050, 500), td_box_height = 400, td_center_x = 2000, td_center_y = 300, td_class = ''car'', td_is_frontal = True \<rparr>, \<lparr> td_time = 3, td_distance = 5, td_box = (1950, 100, 2050, 500), td_box_height = 400, td_center_x = 2000, td_center_y = 300, td_class = ''car'', td_is_frontal = True \<rparr>, \<lparr> td_time = 4, td_distance = 5, td_box = (1950, 100, 2050, 500), td_box_height = 400, td_center_x = 2000, td_center_y = 300, td_class = ''car'', td_is_frontal = True \<rparr>], tr_first_frame = 2, tr_last_frame = 8, tr_min_distance = Fin 5, tr_max_danger_score = 0, tr_is_dangerous = False, tr_peak_time = None, tr_peak_distance = None, tr_ttc = None \<rparr>" and td = "\<lparr> td_time = 5, td_distance = 5, td_box = (1950, 100, 2050, 500), td_box_height = 400, td_center_x = 2000, td_center_y = 300, td_class = ''car'', td_is_frontal = True \<rparr>" and tr' = "\<lparr> tr_history = [\<lparr> td_time = 1, td_distance = 5, td_box = (1950, 100, 2050, 500), td_box_height = 400, td_center_x = 2000, td_center_y = 300, td_class = ''car'', td_is_frontal = True \<rparr>, \<lparr> td_time = 2, td_distance = 5, td_box = (1950, 100, 2050, 500), td_box_height = 400, td_center_x = 2000, td_center_y = 300, td_class = ''car'', td_is_frontal = True \<rparr>, \<lparr> td_time = 3, td_distance = 5, td_box = (1950, 100, 2050, 500), td_box_height = 400, td_center_x = 2000, td_center_y = 300, td_class = ''car'', td_is_frontal = True \<rparr>, \<lparr> td_time = 4, td_distance = 5, td_box = (1950, 100, 2050, 500), td_box_height = 400, td_center_x = 2000, td_center_y = 300, td_class = ''car'', td_is_frontal = True \<rparr>, \<lparr> td_time = 5, td_distance = 5, td_box = (1950, 100, 2050, 500), td_box_height = 400, td_center_x = 2000, td_center_y = 300, td_class = ''car'', td_is_frontal = True \<rparr>], tr_first_frame = 2, tr_last_frame = 10, tr_min_distance = Fin 5, tr_max_danger_score = 33 / 100, tr_is_dangerous = True, tr_peak_time = Some 5, tr_peak_distance = Some 5, tr_ttc = Some 0 \<rparr>"
         and b = "\<lparr> det_cls = ''bus'', det_xyxy = (1900, 100, 2100, 310), det_id = Some 7 \<rparr>" and xa = 1900 and ya = 100 and xb = 2100 and yb = 310 and t = 1]
      vt dist
    by (simp add: track_of_def new_track_def)
  with vt len u5 u50 dist lat show ?thesis
    by (simp add: make_track_data_def)
qed

section \<open>The unanimous buffer of the bus-lane extractor\<close>

lemma length_deque_append: "length (deque_append n dq x) = min n (length dq + 1)"
  by (simp add: deque_append_def Let_def)

lemma length_set_last_end: "length (set_last_end ranges t) = length ranges"
  by (cases "ranges = []") (simp_all add: set_last_end_def)

lemma full_true_has_true:
  assumes "length buffer = BUFFER_SIZE_FRAMES" and "list_all (\<lambda>b. b) buffer"
  shows "list_ex (\<lambda>b. b) buffer"
proof (cases buffer)
  case Nil
  with assms(1) show ?thesis by (simp add: BUFFER_SIZE_FRAMES_def)
next
  case (Cons b bs)
  with assms(2) show ?thesis by simp
qed

lemma bl_step_active:
  "bl_violation_active (bl_step fps st fr) =
     (let buffer = deque_append BUFFER_SIZE_FRAMES (bl_buffer st) (on_bus_lane fr)
      in if \<not> bl_violation_active st
         then length buffer = BUFFER_SIZE_FRAMES \<and> list_all (\<lambda>b. b) buffer
         else \<not> (length buffer = BUFFER_SIZE_FRAMES \<and> \<not> list_ex (\<lambda>b. b) buffer))"
  using full_true_has_true [of "deque_append BUFFER_SIZE_FRAMES (bl_buffer st) (on_bus_lane fr)"]
  by (auto simp add: bl_step_def Let_def)

lemma bl_step_ranges_length:
  "length (bl_ranges (bl_step fps st fr)) =
     (let buffer = deque_append BUFFER_SIZE_FRAMES (bl_buffer st) (on_bus_lane fr)
      in if \<not> bl_violation_active st \<and> length buffer = BUFFER_SIZE_FRAMES
            \<and> list_all (\<lambda>b. b) buffer
         then length (bl_ranges st) + 1 else length (bl_ranges st))"
  by (simp add: bl_step_def Let_def length_set_last_end)

lemma bl_step_buffer:
  "bl_buffer (bl_step fps st fr) = deque_append BUFFER_SIZE_FRAMES (bl_buffer st) (on_bus_lane fr)"
  by (simp add: bl_step_def Let_def)

lemma bl_step_frame_idx: "bl_frame_idx (bl_step fps st fr) = bl_frame_idx st + 1"
  by (simp add: bl_step_def Let_def)

lemma bl_step_record:
  "bl_step fps \<lparr> bl_buffer = buf, bl_violation_active = act, bl_ranges = rs, bl_frame_idx = i \<rparr> fr =
     (let buffer = deque_append BUFFER_SIZE_FRAMES buf (on_bus_lane fr);
          opens = (\<not> act \<and> length buffer = BUFFER_SIZE_FRAMES \<and> list_all (\<lambda>b. b) buffer);
          rs1 = (if opens
                 then rs @ [\<lparr> vr_start_time = of_nat (i + 1) / fps, vr_end_time = None \<rparr>]
                 else rs);
          act1 = (act \<or> opens);
          closes = (act1 \<and> length buffer = BUFFER_SIZE_FRAMES \<and> \<not> list_ex (\<lambda>b. b) buffer)
      in \<lparr> bl_buffer = buffer, bl_violation_active = (act1 \<and> \<not> closes),
           bl_ranges = (if closes then set_last_end rs1 (of_nat (i + 1) / fps) else rs1),
           bl_frame_idx = i + 1 \<rparr>)"
  by (auto simp add: bl_step_def Let_def)

lemma bl_scan_snoc: "bl_scan fps st (frames @ [fr]) = bl_step fps (bl_scan fps st frames) fr"
  by (simp add: bl_scan_def)

text \<open>While a violation is active the buffer is full and a range has been opened.\<close>

lemma bl_active_ranges:
  "bl_violation_active (bl_scan fps bl_init frames) \<longrightarrow>
     length (bl_buffer (bl_scan fps bl_init frames)) = BUFFER_SIZE_FRAMES
     \<and> bl_ranges (bl_scan fps bl_init frames) \<noteq> []"
proof (induction frames rule: rev_induct)
  case Nil
  then show ?case by (simp add: bl_scan_def bl_init_def)
next
  case (snoc fr frames)
  let ?st = "bl_scan fps bl_init frames"
  let ?buffer = "deque_append BUFFER_SIZE_FRAMES (bl_buffer ?st) (on_bus_lane fr)"
  show ?case
  proof
    assume act: "bl_violation_active (bl_scan fps bl_init (frames @ [fr]))"
    show "length (bl_buffer (bl_scan fps bl_init (frames @ [fr]))) = BUFFER_SIZE_FRAMES
     \<and> bl_ranges (bl_scan fps bl_init (frames @ [fr])) \<noteq> []"
    proof (cases "bl_violation_active ?st")
      case True
      with snoc have full: "length (bl_buffer ?st) = BUFFER_SIZE_FRAMES"
        and ne: "bl_ranges ?st \<noteq> []" by simp_all
      from full have "length ?buffer = BUFFER_SIZE_FRAMES"
        by (simp add: length_deque_append)
      moreover from ne True have "length (bl_ranges (bl_step fps ?st fr)) \<noteq> 0"
        by (simp add: bl_step_ranges_length)
      ultimately show ?thesis by (simp add: bl_scan_snoc bl_step_buffer)
    next
      case False
      with act have "length ?buffer = BUFFER_SIZE_FRAMES \<and> list_all (\<lambda>b. b) ?buffer"
        by (simp add: bl_scan_snoc bl_step_active Let_def)
      moreover from this False have "length (bl_ranges (bl_step fps ?st fr)) \<noteq> 0"
        by (simp add: bl_step_ranges_length)
      ultimately show ?thesis by (simp add: bl_scan_snoc bl_step_buffer)
    qed
  qed
qed

lemma deque_append_replicate:
  "deque_append m (replicate n True) True = replicate (min (n + 1) m) True"
proof -
  have "replicate n True @ [True] = replicate (Suc n) True"
    by (simp add: replicate_append_same)
  then have "deque_append m (replicate n True) True
      = drop (Suc n - m) (replicate (Suc n) True)"
    by (simp only: deque_append_def Let_def length_replicate)
  also have "\<dots> = replicate (Suc n - (Suc n - m)) True" by (simp only: drop_replicate)
  also have "Suc n - (Suc n - m) = min (n + 1) m" by (simp add: min_def)
  finally show ?thesis .
qed

lemma bl_scan_all_true:
  assumes "list_all on_bus_lane frames"
  shows "bl_scan fps bl_init frames =
     \<lparr> bl_buffer = replicate (min (length frames) BUFFER_SIZE_FRAMES) True,
       bl_violation_active = (BUFFER_SIZE_FRAMES \<le> length frames),
       bl_ranges = (if BUFFER_SIZE_FRAMES \<le> length frames
                    then [\<lparr> vr_start_time = of_nat BUFFER_SIZE_FRAMES / fps, vr_end_time = None \<rparr>]
                    else []),
       bl_frame_idx = length frames \<rparr>"
  using assms
proof (induction frames rule: rev_induct)
  case Nil
  then show ?case by (simp add: bl_scan_def bl_init_def BUFFER_SIZE_FRAMES_def)
next
  case (snoc fr frames)
  let ?n = "length frames"
  from snoc have fr: "on_bus_lane fr" and IH: "bl_scan fps bl_init frames =
     \<lparr> bl_buffer = replicate (min ?n BUFFER_SIZE_FRAMES) True,
       bl_violation_active = (BUFFER_SIZE_FRAMES \<le> ?n),
       bl_ranges = (if BUFFER_SIZE_FRAMES \<le> ?n
                    then [\<lparr> vr_start_time = of_nat BUFFER_SIZE_FRAMES / fps, vr_end_time = None \<rparr>]
                    else []),
       bl_frame_idx = ?n \<rparr>"
    by simp_all
  define buffer where "buffer = replicate (min (?n + 1) BUFFER_SIZE_FRAMES) True"
  have buf: "deque_append BUFFER_SIZE_FRAMES (replicate (min ?n BUFFER_SIZE_FRAMES) True) True = buffer"
    unfolding buffer_def
    by (simp only: deque_append_replicate) (simp add: min_def)
  have len: "length buffer = min (?n + 1) BUFFER_SIZE_FRAMES" by (simp add: buffer_def)
  have ex: "list_ex (\<lambda>b. b) buffer"
    by (simp add: buffer_def list_ex_iff BUFFER_SIZE_FRAMES_def)
  have al: "list_all (\<lambda>b. b) buffer"
    by (simp add: buffer_def list_all_iff)
  have step: "bl_scan fps bl_init (frames @ [fr]) =
      (let st1 = \<lparr> bl_buffer = buffer, bl_violation_active = (BUFFER_SIZE_FRAMES \<le> ?n),
                   bl_ranges = (if BUFFER_SIZE_FRAMES \<le> ?n
                    then [\<lparr> vr_start_time = of_nat BUFFER_SIZE_FRAMES / fps, vr_end_time = None \<rparr>]
                    else []),
                   bl_frame_idx = ?n + 1 \<rparr>
       in if \<not> BUFFER_SIZE_FRAMES \<le> ?n \<and> length buffer = BUFFER_SIZE_FRAMES
          then st1\<lparr> bl_ranges := bl_ranges st1
                      @ [\<lparr> vr_start_time = of_nat (?n + 1) / fps, vr_end_time = None \<rparr>],
                    bl_violation_active := True \<rparr>
          else st1)"
    using fr ex al by (simp add: bl_scan_snoc IH bl_step_def Let_def buf)
  consider "?n + 1 < BUFFER_SIZE_FRAMES" | "?n + 1 = BUFFER_SIZE_FRAMES"
    | "BUFFER_SIZE_FRAMES \<le> ?n" by linarith
  then show ?case
  proof cases
    case 1
    then show ?thesis by (simp add: step len buffer_def)
  next
    case 2
    then have "\<not> BUFFER_SIZE_FRAMES \<le> ?n" by simp
    with 2 show ?thesis by (simp add: step len buffer_def del: of_nat_Suc of_nat_add)
  next
    case 3
    then show ?thesis by (simp add: step len buffer_def)
  qed
qed


text \<open>
  Claim C7. Let the scan have reached some state and let the next frame be appended to
  the sliding buffer of size \<open>BUFFER_SIZE_FRAMES\<close>. When no violation is active, one
  becomes active exactly when the buffer is full and entirely true, and a new range is
  appended to the list of ranges exactly then. When a violation is active, the buffer
  is full, and the violation ends exactly when the buffer is entirely false. A
  \<open>False\<close> entry anywhere in the buffer prevents opening. After an all-true sequence
  of exactly \<open>BUFFER_SIZE_FRAMES\<close> frames from the start, a violation is active and the
  list of ranges holds exactly one range, opened at frame \<open>BUFFER_SIZE_FRAMES\<close>.
\<close>

theorem unanimous_buffer:
  "(let st = bl_scan fps bl_init frames;
        buffer = deque_append BUFFER_SIZE_FRAMES (bl_buffer st) (on_bus_lane fr);
        st' = bl_step fps st fr
    in (\<not> bl_violation_active st \<longrightarrow>
          (bl_violation_active st'
             \<longleftrightarrow> length buffer = BUFFER_SIZE_FRAMES \<and> list_all (\<lambda>b. b) buffer))
       \<and> (length (bl_ranges st') = length (bl_ranges st) + 1
             \<longleftrightarrow> \<not> bl_violation_active st \<and> length buffer = BUFFER_SIZE_FRAMES
                 \<and> list_all (\<lambda>b. b) buffer)
       \<and> (length (bl_ranges st') = length (bl_ranges st)
             \<longleftrightarrow> \<not> (\<not> bl_violation_active st \<and> length buffer = BUFFER_SIZE_FRAMES
                     \<and> list_all (\<lambda>b. b) buffer))
       \<and> (bl_violation_active st \<longrightarrow>
             length buffer = BUFFER_SIZE_FRAMES
             \<and> (\<not> bl_violation_active st' \<longleftrightarrow> \<not> list_ex (\<lambda>b. b) buffer))
       \<and> (False \<in> set buffer \<longrightarrow>
             length (bl_ranges st') = length (bl_ranges st)
             \<and> (\<not> bl_violation_active st \<longrightarrow> \<not> bl_violation_active st'))
       \<and> (length frames = BUFFER_SIZE_FRAMES \<and> list_all on_bus_lane frames \<longrightarrow>
             bl_violation_active st
             \<and> bl_ranges st =
                 [\<lparr> vr_start_time = of_nat BUFFER_SIZE_FRAMES / fps, vr_end_time = None \<rparr>]))"
proof -
  let ?st = "bl_scan fps bl_init frames"
  let ?buffer = "deque_append BUFFER_SIZE_FRAMES (bl_buffer ?st) (on_bus_lane fr)"
  let ?st' = "bl_step fps ?st fr"
  let ?opens = "\<not> bl_violation_active ?st \<and> length ?buffer = BUFFER_SIZE_FRAMES
                 \<and> list_all (\<lambda>b. b) ?buffer"
  have a: "\<not> bl_violation_active ?st \<longrightarrow>
          (bl_violation_active ?st'
             \<longleftrightarrow> length ?buffer = BUFFER_SIZE_FRAMES \<and> list_all (\<lambda>b. b) ?buffer)"
    by (simp add: bl_step_active Let_def)
  have b: "length (bl_ranges ?st') = length (bl_ranges ?st) + 1 \<longleftrightarrow> ?opens"
    by (simp add: bl_step_ranges_length Let_def)
  have b': "length (bl_ranges ?st') = length (bl_ranges ?st) \<longleftrightarrow> \<not> ?opens"
    by (simp add: bl_step_ranges_length Let_def)
  have c: "bl_violation_active ?st \<longrightarrow>
             length ?buffer = BUFFER_SIZE_FRAMES
             \<and> (\<not> bl_violation_active ?st' \<longleftrightarrow> \<not> list_ex (\<lambda>b. b) ?buffer)"
  proof
    assume act: "bl_violation_active ?st"
    with bl_active_ranges [of fps frames]
    have "length (bl_buffer ?st) = BUFFER_SIZE_FRAMES" by simp
    then have full: "length ?buffer = BUFFER_SIZE_FRAMES" by (simp add: length_deque_append)
    with act show "length ?buffer = BUFFER_SIZE_FRAMES
             \<and> (\<not> bl_violation_active ?st' \<longleftrightarrow> \<not> list_ex (\<lambda>b. b) ?buffer)"
      by (simp add: bl_step_active Let_def)
  qed
  have d: "False \<in> set ?buffer \<longrightarrow>
             length (bl_ranges ?st') = length (bl_ranges ?st)
             \<and> (\<not> bl_violation_active ?st \<longrightarrow> \<not> bl_violation_active ?st')"
  proof
    assume "False \<in> set ?buffer"
    then have "\<not> list_all (\<lambda>b. b) ?buffer" by (auto simp add: list_all_iff)
    with a b' show "length (bl_ranges ?st') = length (bl_ranges ?st)
             \<and> (\<not> bl_violation_active ?st \<longrightarrow> \<not> bl_violation_active ?st')"
      by blast
  qed
  have e: "length frames = BUFFER_SIZE_FRAMES \<and> list_all on_bus_lane frames \<longrightarrow>
             bl_violation_active ?st
             \<and> bl_ranges ?st =
                 [\<lparr> vr_start_time = of_nat BUFFER_SIZE_FRAMES / fps, vr_end_time = None \<rparr>]"
  proof
    assume h: "length frames = BUFFER_SIZE_FRAMES \<and> list_all on_bus_lane frames"
    then have "list_all on_bus_lane frames" by simp
    from bl_scan_all_true [OF this, of fps] h
    show "bl_violation_active ?st
             \<and> bl_ranges ?st =
                 [\<lparr> vr_start_time = of_nat BUFFER_SIZE_FRAMES / fps, vr_end_time = None \<rparr>]"
      by simp
  qed
  from a b b' c d e show ?thesis
    unfolding Let_def by (intro conjI)
qed


theorem unanimous_buffer_witness:
  "\<not> bl_violation_active (bl_scan 30 bl_init [\<lparr> bf_nonzero = 50, bf_size = 100 \<rparr>, \<lparr> bf_nonzero = 50, bf_size = 100 \<rparr>, \<lparr> bf_nonzero = 50, bf_size = 100 \<rparr>, \<lparr> bf_nonzero = 50, bf_size = 100 \<rparr>, \<lparr> bf_nonzero = 50, bf_size = 100 \<rparr>, \<lparr> bf_nonzero = 50, bf_size = 100 \<rparr>, \<lparr> bf_nonzero = 50, bf_size = 100 \<rparr>, \<lparr> bf_nonzero = 50, bf_size = 100 \<rparr>, \<lparr> bf_nonzero = 50, bf_size = 100 \<rparr>, \<lparr> bf_nonzero = 50, bf_size = 100 \<rparr>, \<lparr> bf_nonzero = 50, bf_size = 100 \<rparr>])
   \<and> bl_violation_active (bl_step 30 (bl_scan 30 bl_init [\<lparr> bf_nonzero = 50, bf_size = 100 \<rparr>, \<lparr> bf_nonzero = 50, bf_size = 100 \<rparr>, \<lparr> bf_nonzero = 50, bf_size = 100 \<rparr>, \<lparr> bf_nonzero = 50, bf_size = 100 \<rparr>, \<lparr> bf_nonzero = 50, bf_size = 100 \<rparr>, \<lparr> bf_nonzero = 50, bf_size = 100 \<rparr>, \<lparr> bf_nonzero = 50, bf_size = 100 \<rparr>, \<lparr> bf_nonzero = 50, bf_size = 100 \<rparr>, \<lparr> bf_nonzero = 50, bf_size = 100 \<rparr>, \<lparr> bf_nonzero = 50, bf_size = 100 \<rparr>, \<lparr> bf_nonzero = 50, bf_size = 100 \<rparr>]) \<lparr> bf_nonzero = 50, bf_size = 100 \<rparr>)
   \<and> length (bl_ranges (bl_step 30 (bl_scan 30 bl_init [\<lparr> bf_nonzero = 50, bf_size = 100 \<rparr>, \<lparr> bf_nonzero = 50, bf_size = 100 \<rparr>, \<lparr> bf_nonzero = 50, bf_size = 100 \<rparr>, \<lparr> bf_nonzero = 50, bf_size = 100 \<rparr>, \<lparr> bf_nonzero = 50, bf_size = 100 \<rparr>, \<lparr> bf_nonzero = 50, bf_size = 100 \<rparr>, \<lparr> bf_nonzero = 50, bf_size = 100 \<rparr>, \<lparr> bf_nonzero = 50, bf_size = 100 \<rparr>, \<lparr> bf_nonzero = 50, bf_size = 100 \<rparr>, \<lparr> bf_nonzero = 50, bf_size = 100 \<rparr>, \<lparr> bf_nonzero = 50, bf_size = 100 \<rparr>]) \<lparr> bf_nonzero = 50, bf_size = 100 \<rparr>)) = 1
   \<and> \<not> bl_violation_active (bl_step 30 (bl_scan 30 bl_init [\<lparr> bf_nonzero = 50, bf_size = 100 \<rparr>, \<lparr> bf_nonzero = 50, bf_size = 100 \<rparr>, \<lparr> bf_nonzero = 50, bf_size = 100 \<rparr>, \<lparr> bf_nonzero = 50, bf_size = 100 \<rparr>, \<lparr> bf_nonzero = 50, bf_size = 100 \<rparr>, \<lparr> bf_nonzero = 50, bf_size = 100 \<rparr>, \<lparr> bf_nonzero = 50, bf_size = 100 \<rparr>, \<lparr> bf_nonzero = 50, bf_size = 100 \<rparr>, \<lparr> bf_nonzero = 50, bf_size = 100 \<rparr>, \<lparr> bf_nonzero = 50, bf_size = 100 \<rparr>, \<lparr> bf_nonzero = 50, bf_size = 100 \<rparr>]) \<lparr> bf_nonzero = 0, bf_size = 100 \<rparr>)
   \<and> bl_ranges (bl_step 30 (bl_scan 30 bl_init [\<lparr> bf_nonzero = 50, bf_size = 100 \<rparr>, \<lparr> bf_nonzero = 50, bf_size = 100 \<rparr>, \<lparr> bf_nonzero = 50, bf_size = 100 \<rparr>, \<lparr> bf_nonzero = 50, bf_size = 100 \<rparr>, \<lparr> bf_nonzero = 50, bf_size = 100 \<rparr>, \<lparr> bf_nonzero = 50, bf_size = 100 \<rparr>, \<lparr> bf_nonzero = 50, bf_size = 100 \<rparr>, \<lparr> bf_nonzero = 50, bf_size = 100 \<rparr>, \<lparr> bf_nonzero = 50, bf_size = 100 \<rparr>, \<lparr> bf_nonzero = 50, bf_size = 100 \<rparr>, \<lparr> bf_nonzero = 50, bf_size = 100 \<rparr>]) \<lparr> bf_nonzero = 0, bf_size = 100 \<rparr>) = []
   \<and> bl_violation_active (bl_scan 30 bl_init [\<lparr> bf_nonzero = 50, bf_size = 100 \<rparr>, \<lparr> bf_nonzero = 50, bf_size = 100 \<rparr>, \<lparr> bf_nonzero = 50, bf_size = 100 \<rparr>, \<lparr> bf_nonzero = 50, bf_size = 100 \<rparr>, \<lparr> bf_nonzero = 50, bf_size = 100 \<rparr>, \<lparr> bf_nonzero = 50, bf_size = 100 \<rparr>, \<lparr> bf_nonzero = 50, bf_size = 100 \<rparr>, \<lparr> bf_nonzero = 50, bf_size = 100 \<rparr>, \<lparr> bf_nonzero = 50, bf_size = 100 \<rparr>, \<lparr> bf_nonzero = 50, bf_size = 100 \<rparr>, \<lparr> bf_nonzero = 50, bf_size = 100 \<rparr>, \<lparr> bf_nonzero = 50, bf_size = 100 \<rparr>])
   \<and> bl_ranges (bl_scan 30 bl_init [\<lparr> bf_nonzero = 50, bf_size = 100 \<rparr>, \<lparr> bf_nonzero = 50, bf_size = 100 \<rparr>, \<lparr> bf_nonzero = 50, bf_size = 100 \<rparr>, \<lparr> bf_nonzero = 50, bf_size = 100 \<rparr>, \<lparr> bf_nonzero = 50, bf_size = 100 \<rparr>, \<lparr> bf_nonzero = 50, bf_size = 100 \<rparr>, \<lparr> bf_nonzero = 50, bf_size = 100 \<rparr>, \<lparr> bf_nonzero = 50, bf_size = 100 \<rparr>, \<lparr> bf_nonzero = 50, bf_size = 100 \<rparr>, \<lparr> bf_nonzero = 50, bf_size = 100 \<rparr>, \<lparr> bf_nonzero = 50, bf_size = 100 \<rparr>, \<lparr> bf_nonzero = 50, bf_size = 100 \<rparr>]) = [\<lparr> vr_start_time = 12 / 30, vr_end_time = None \<rparr>]
   \<and> bl_violation_active (bl_scan 30 bl_init [\<lparr> bf_nonzero = 50, bf_size = 100 \<rparr>, \<lparr> bf_nonzero = 50, bf_size = 100 \<rparr>, \<lparr> bf_nonzero = 50, bf_size = 100 \<rparr>, \<lparr> bf_nonzero = 50, bf_size = 100 \<rparr>, \<lparr> bf_nonzero = 50, bf_size = 100 \<rparr>, \<lparr> bf_nonzero = 50, bf_size = 100 \<rparr>, \<lparr> bf_nonzero = 50, bf_size = 100 \<rparr>, \<lparr> bf_nonzero = 50, bf_size = 100 \<rparr>, \<lparr> bf_nonzero = 50, bf_size = 100 \<rparr>, \<lparr> bf_nonzero = 50, bf_size = 100 \<rparr>, \<lparr> bf_nonzero = 50, bf_size = 100 \<rparr>, \<lparr> bf_nonzero = 50, bf_size = 100 \<rparr>, \<lparr> bf_nonzero = 0, bf_size = 100 \<rparr>, \<lparr> bf_nonzero = 0, bf_size = 100 \<rparr>, \<lparr> bf_nonzero = 0, bf_size = 100 \<rparr>, \<lparr> bf_nonzero = 0, bf_size = 100 \<rparr>, \<lparr> bf_nonzero = 0, bf_size = 100 \<rparr>, \<lparr> bf_nonzero = 0, bf_size = 100 \<rparr>, \<lparr> bf_nonzero = 0, bf_size = 100 \<rparr>, \<lparr> bf_nonzero = 0, bf_size = 100 \<rparr>, \<lparr> bf_nonzero = 0, bf_size = 100 \<rparr>, \<lparr> bf_nonzero = 0, bf_size = 100 \<rparr>, \<lparr> bf_nonzero = 0, bf_size = 100 \<rparr>])
   \<and> \<not> bl_violation_active (bl_step 30 (bl_scan 30 bl_init [\<lparr> bf_nonzero = 50, bf_size = 100 \<rparr>, \<lparr> bf_nonzero = 50, bf_size = 100 \<rparr>, \<lparr> bf_nonzero = 50, bf_size = 100 \<rparr>, \<lparr> bf_nonzero = 50, bf_size = 100 \<rparr>, \<lparr> bf_nonzero = 50, bf_size = 100 \<rparr>, \<lparr> bf_nonzero = 50, bf_size = 100 \<rparr>, \<lparr> bf_nonzero = 50, bf_size = 100 \<rparr>, \<lparr> bf_nonzero = 50, bf_size = 100 \<rparr>, \<lparr> bf_nonzero = 50, bf_size = 100 \<rparr>, \<lparr> bf_nonzero = 50, bf_size = 100 \<rparr>, \<lparr> bf_nonzero = 50, bf_size = 100 \<rparr>, \<lparr> bf_nonzero = 50, bf_size = 100 \<rparr>, \<lparr> bf_nonzero = 0, bf_size = 100 \<rparr>, \<lparr> bf_nonzero = 0, bf_size = 100 \<rparr>, \<lparr> bf_nonzero = 0, bf_size = 100 \<rparr>, \<lparr> bf_nonzero = 0, bf_size = 100 \<rparr>, \<lparr> bf_nonzero = 0, bf_size = 100 \<rparr>, \<lparr> bf_nonzero = 0, bf_size = 100 \<rparr>, \<lparr> bf_nonzero = 0, bf_size = 100 \<rparr>, \<lparr> bf_nonzero = 0, bf_size = 100 \<rparr>, \<lparr> bf_nonzero = 0, bf_size = 100 \<rparr>, \<lparr> bf_nonzero = 0, bf_size = 100 \<rparr>, \<lparr> bf_nonzero = 0, bf_size = 100 \<rparr>]) \<lparr> bf_nonzero = 0, bf_size = 100 \<rparr>)
   \<and> bl_ranges (bl_step 30 (bl_scan 30 bl_init [\<lparr> bf_nonzero = 50, bf_size = 100 \<rparr>, \<lparr> bf_nonzero = 50, bf_size = 100 \<rparr>, \<lparr> bf_nonzero = 50, bf_size = 100 \<rparr>, \<lparr> bf_nonzero = 50, bf_size = 100 \<rparr>, \<lparr> bf_nonzero = 50, bf_size = 100 \<rparr>, \<lparr> bf_nonzero = 50, bf_size = 100 \<rparr>, \<lparr> bf_nonzero = 50, bf_size = 100 \<rparr>, \<lparr> bf_nonzero = 50, bf_size = 100 \<rparr>, \<lparr> bf_nonzero = 50, bf_size = 100 \<rparr>, \<lparr> bf_nonzero = 50, bf_size = 100 \<rparr>, \<lparr> bf_nonzero = 50, bf_size = 100 \<rparr>, \<lparr> bf_nonzero = 50, bf_size = 100 \<rparr>, \<lparr> bf_nonzero = 0, bf_size = 100 \<rparr>, \<lparr> bf_nonzero = 0, bf_size = 100 \<rparr>, \<lparr> bf_nonzero = 0, bf_size = 100 \<rparr>, \<lparr> bf_nonzero = 0, bf_size = 100 \<rparr>, \<lparr> bf_nonzero = 0, bf_size = 100 \<rparr>, \<lparr> bf_nonzero = 0, bf_size = 100 \<rparr>, \<lparr> bf_nonzero = 0, bf_size = 100 \<rparr>, \<lparr> bf_nonzero = 0, bf_size = 100 \<rparr>, \<lparr> bf_nonzero = 0, bf_size = 100 \<rparr>, \<lparr> bf_nonzero = 0, bf_size = 100 \<rparr>, \<lparr> bf_nonzero = 0, bf_size = 100 \<rparr>]) \<lparr> bf_nonzero = 0, bf_size = 100 \<rparr>)
       = [\<lparr> vr_start_time = 12 / 30, vr_end_time = Some (24 / 30) \<rparr>]"
proof -
  have t: "on_bus_lane \<lparr> bf_nonzero = 50, bf_size = 100 \<rparr>" and f: "\<not> on_bus_lane \<lparr> bf_nonzero = 0, bf_size = 100 \<rparr>"
    by (simp_all add: on_bus_lane_def MIN_RED_COVERAGE_def)
  have s11: "bl_scan 30 bl_init [\<lparr> bf_nonzero = 50, bf_size = 100 \<rparr>, \<lparr> bf_nonzero = 50, bf_size = 100 \<rparr>, \<lparr> bf_nonzero = 50, bf_size = 100 \<rparr>, \<lparr> bf_nonzero = 50, bf_size = 100 \<rparr>, \<lparr> bf_nonzero = 50, bf_size = 100 \<rparr>, \<lparr> bf_nonzero = 50, bf_size = 100 \<rparr>, \<lparr> bf_nonzero = 50, bf_size = 100 \<rparr>, \<lparr> bf_nonzero = 50, bf_size = 100 \<rparr>, \<lparr> bf_nonzero = 50, bf_size = 100 \<rparr>, \<lparr> bf_nonzero = 50, bf_size = 100 \<rparr>, \<lparr> bf_nonzero = 50, bf_size = 100 \<rparr>] =
      \<lparr> bl_buffer = [True, True, True, True, True, True, True, True, True, True, True], bl_violation_active = False, bl_ranges = [],
        bl_frame_idx = 11 \<rparr>"
    using bl_scan_all_true [of "[\<lparr> bf_nonzero = 50, bf_size = 100 \<rparr>, \<lparr> bf_nonzero = 50, bf_size = 100 \<rparr>, \<lparr> bf_nonzero = 50, bf_size = 100 \<rparr>, \<lparr> bf_nonzero = 50, bf_size = 100 \<rparr>, \<lparr> bf_nonzero = 50, bf_size = 100 \<rparr>, \<lparr> bf_nonzero = 50, bf_size = 100 \<rparr>, \<lparr> bf_nonzero = 50, bf_size = 100 \<rparr>, \<lparr> bf_nonzero = 50, bf_size = 100 \<rparr>, \<lparr> bf_nonzero = 50, bf_size = 100 \<rparr>, \<lparr> bf_nonzero = 50, bf_size = 100 \<rparr>, \<lparr> bf_nonzero = 50, bf_size = 100 \<rparr>]" 30] t by (simp add: BUFFER_SIZE_FRAMES_def eval_nat_numeral)
  have s12: "bl_scan 30 bl_init [\<lparr> bf_nonzero = 50, bf_size = 100 \<rparr>, \<lparr> bf_nonzero = 50, bf_size = 100 \<rparr>, \<lparr> bf_nonzero = 50, bf_size = 100 \<rparr>, \<lparr> bf_nonzero = 50, bf_size = 100 \<rparr>, \<lparr> bf_nonzero = 50, bf_size = 100 \<rparr>, \<lparr> bf_nonzero = 50, bf_size = 100 \<rparr>, \<lparr> bf_nonzero = 50, bf_size = 100 \<rparr>, \<lparr> bf_nonzero = 50, bf_size = 100 \<rparr>, \<lparr> bf_nonzero = 50, bf_size = 100 \<rparr>, \<lparr> bf_nonzero = 50, bf_size = 100 \<rparr>, \<lparr> bf_nonzero = 50, bf_size = 100 \<rparr>, \<lparr> bf_nonzero = 50, bf_size = 100 \<rparr>] =
      \<lparr> bl_buffer = [True, True, True, True, True, True, True, True, True, True, True, True], bl_violation_active = True,
        bl_ranges = [\<lparr> vr_start_time = 12 / 30, vr_end_time = None \<rparr>], bl_frame_idx = 12 \<rparr>"
    using bl_scan_all_true [of "[\<lparr> bf_nonzero = 50, bf_size = 100 \<rparr>, \<lparr> bf_nonzero = 50, bf_size = 100 \<rparr>, \<lparr> bf_nonzero = 50, bf_size = 100 \<rparr>, \<lparr> bf_nonzero = 50, bf_size = 100 \<rparr>, \<lparr> bf_nonzero = 50, bf_size = 100 \<rparr>, \<lparr> bf_nonzero = 50, bf_size = 100 \<rparr>, \<lparr> bf_nonzero = 50, bf_size = 100 \<rparr>, \<lparr> bf_nonzero = 50, bf_size = 100 \<rparr>, \<lparr> bf_nonzero = 50, bf_size = 100 \<rparr>, \<lparr> bf_nonzero = 50, bf_size = 100 \<rparr>, \<lparr> bf_nonzero = 50, bf_size = 100 \<rparr>, \<lparr> bf_nonzero = 50, bf_size = 100 \<rparr>]" 30] t by (simp add: BUFFER_SIZE_FRAMES_def eval_nat_numeral)
  have "[\<lparr> bf_nonzero = 50, bf_size = 100 \<rparr>, \<lparr> bf_nonzero = 50, bf_size = 100 \<rparr>, \<lparr> bf_nonzero = 50, bf_size = 100 \<rparr>, \<lparr> bf_nonzero = 50, bf_size = 100 \<rparr>, \<lparr> bf_nonzero = 50, bf_size = 100 \<rparr>, \<lparr> bf_nonzero = 50, bf_size = 100 \<rparr>, \<lparr> bf_nonzero = 50, bf_size = 100 \<rparr>, \<lparr> bf_nonzero = 50, bf_size = 100 \<rparr>, \<lparr> bf_nonzero = 50, bf_size = 100 \<rparr>, \<lparr> bf_nonzero = 50, bf_size = 100 \<rparr>, \<lparr> bf_nonzero = 50, bf_size = 100 \<rparr>, \<lparr> bf_nonzero = 50, bf_size = 100 \<rparr>, \<lparr> bf_nonzero = 0, bf_size = 100 \<rparr>, \<lparr> bf_nonzero = 0, bf_size = 100 \<rparr>, \<lparr> bf_nonzero = 0, bf_size = 100 \<rparr>, \<lparr> bf_nonzero = 0, bf_size = 100 \<rparr>, \<lparr> bf_nonzero = 0, bf_size = 100 \<rparr>, \<lparr> bf_nonzero = 0, bf_size = 100 \<rparr>, \<lparr> bf_nonzero = 0, bf_size = 100 \<rparr>, \<lparr> bf_nonzero = 0, bf_size = 100 \<rparr>, \<lparr> bf_nonzero = 0, bf_size = 100 \<rparr>, \<lparr> bf_nonzero = 0, bf_size = 100 \<rparr>, \<lparr> bf_nonzero = 0, bf_size = 100 \<rparr>] = [\<lparr> bf_nonzero = 50, bf_size = 100 \<rparr>, \<lparr> bf_nonzero = 50, bf_size = 100 \<rparr>, \<lparr> bf_nonzero = 50, bf_size = 100 \<rparr>, \<lparr> bf_nonzero = 50, bf_size = 100 \<rparr>, \<lparr> bf_nonzero = 50, bf_size = 100 \<rparr>, \<lparr> bf_nonzero = 50, bf_size = 100 \<rparr>, \<lparr> bf_nonzero = 50, bf_size = 100 \<rparr>, \<lparr> bf_nonzero = 50, bf_size = 100 \<rparr>, \<lparr> bf_nonzero = 50, bf_size = 100 \<rparr>, \<lparr> bf_nonzero = 50, bf_size = 100 \<rparr>, \<lparr> bf_nonzero = 50, bf_size = 100 \<rparr>, \<lparr> bf_nonzero = 50, bf_size = 100 \<rparr>] @ [\<lparr> bf_nonzero = 0, bf_size = 100 \<rparr>, \<lparr> bf_nonzero = 0, bf_size = 100 \<rparr>, \<lparr> bf_nonzero = 0, bf_size = 100 \<rparr>, \<lparr> bf_nonzero = 0, bf_size = 100 \<rparr>, \<lparr> bf_nonzero = 0, bf_size = 100 \<rparr>, \<lparr> bf_nonzero = 0, bf_size = 100 \<rparr>, \<lparr> bf_nonzero = 0, bf_size = 100 \<rparr>, \<lparr> bf_nonzero = 0, bf_size = 100 \<rparr>, \<lparr> bf_nonzero = 0, bf_size = 100 \<rparr>, \<lparr> bf_nonzero = 0, bf_size = 100 \<rparr>, \<lparr> bf_nonzero = 0, bf_size = 100 \<rparr>]" by simp
  then have "bl_scan 30 bl_init [\<lparr> bf_nonzero = 50, bf_size = 100 \<rparr>, \<lparr> bf_nonzero = 50, bf_size = 100 \<rparr>, \<lparr> bf_nonzero = 50, bf_size = 100 \<rparr>, \<lparr> bf_nonzero = 50, bf_size = 100 \<rparr>, \<lparr> bf_nonzero = 50, bf_size = 100 \<rparr>, \<lparr> bf_nonzero = 50, bf_size = 100 \<rparr>, \<lparr> bf_nonzero = 50, bf_size = 100 \<rparr>, \<lparr> bf_nonzero = 50, bf_size = 100 \<rparr>, \<lparr> bf_nonzero = 50, bf_size = 100 \<rparr>, \<lparr> bf_nonzero = 50, bf_size = 100 \<rparr>, \<lparr> bf_nonzero = 50, bf_size = 100 \<rparr>, \<lparr> bf_nonzero = 50, bf_size = 100 \<rparr>, \<lparr> bf_nonzero = 0, bf_size = 100 \<rparr>, \<lparr> bf_nonzero = 0, bf_size = 100 \<rparr>, \<lparr> bf_nonzero = 0, bf_size = 100 \<rparr>, \<lparr> bf_nonzero = 0, bf_size = 100 \<rparr>, \<lparr> bf_nonzero = 0, bf_size = 100 \<rparr>, \<lparr> bf_nonzero = 0, bf_size = 100 \<rparr>, \<lparr> bf_nonzero = 0, bf_size = 100 \<rparr>, \<lparr> bf_nonzero = 0, bf_size = 100 \<rparr>, \<lparr> bf_nonzero = 0, bf_size = 100 \<rparr>, \<lparr> bf_nonzero = 0, bf_size = 100 \<rparr>, \<lparr> bf_nonzero = 0, bf_size = 100 \<rparr>]
      = fold (\<lambda>fr s. bl_step 30 s fr) [\<lparr> bf_nonzero = 0, bf_size = 100 \<rparr>, \<lparr> bf_nonzero = 0, bf_size = 100 \<rparr>, \<lparr> bf_nonzero = 0, bf_size = 100 \<rparr>, \<lparr> bf_nonzero = 0, bf_size = 100 \<rparr>, \<lparr> bf_nonzero = 0, bf_size = 100 \<rparr>, \<lparr> bf_nonzero = 0, bf_size = 100 \<rparr>, \<lparr> bf_nonzero = 0, bf_size = 100 \<rparr>, \<lparr> bf_nonzero = 0, bf_size = 100 \<rparr>, \<lparr> bf_nonzero = 0, bf_size = 100 \<rparr>, \<lparr> bf_nonzero = 0, bf_size = 100 \<rparr>, \<lparr> bf_nonzero = 0, bf_size = 100 \<rparr>] (bl_scan 30 bl_init [\<lparr> bf_nonzero = 50, bf_size = 100 \<rparr>, \<lparr> bf_nonzero = 50, bf_size = 100 \<rparr>, \<lparr> bf_nonzero = 50, bf_size = 100 \<rparr>, \<lparr> bf_nonzero = 50, bf_size = 100 \<rparr>, \<lparr> bf_nonzero = 50, bf_size = 100 \<rparr>, \<lparr> bf_nonzero = 50, bf_size = 100 \<rparr>, \<lparr> bf_nonzero = 50, bf_size = 100 \<rparr>, \<lparr> bf_nonzero = 50, bf_size = 100 \<rparr>, \<lparr> bf_nonzero = 50, bf_size = 100 \<rparr>, \<lparr> bf_nonzero = 50, bf_size = 100 \<rparr>, \<lparr> bf_nonzero = 50, bf_size = 100 \<rparr>, \<lparr> bf_nonzero = 50, bf_size = 100 \<rparr>])"
    by (simp only: bl_scan_def fold_append comp_apply)
  then have s23: "bl_scan 30 bl_init [\<lparr> bf_nonzero = 50, bf_size = 100 \<rparr>, \<lparr> bf_nonzero = 50, bf_size = 100 \<rparr>, \<lparr> bf_nonzero = 50, bf_size = 100 \<rparr>, \<lparr> bf_nonzero = 50, bf_size = 100 \<rparr>, \<lparr> bf_nonzero = 50, bf_size = 100 \<rparr>, \<lparr> bf_nonzero = 50, bf_size = 100 \<rparr>, \<lparr> bf_nonzero = 50, bf_size = 100 \<rparr>, \<lparr> bf_nonzero = 50, bf_size = 100 \<rparr>, \<lparr> bf_nonzero = 50, bf_size = 100 \<rparr>, \<lparr> bf_nonzero = 50, bf_size = 100 \<rparr>, \<lparr> bf_nonzero = 50, bf_size = 100 \<rparr>, \<lparr> bf_nonzero = 50, bf_size = 100 \<rparr>, \<lparr> bf_nonzero = 0, bf_size = 100 \<rparr>, \<lparr> bf_nonzero = 0, bf_size = 100 \<rparr>, \<lparr> bf_nonzero = 0, bf_size = 100 \<rparr>, \<lparr> bf_nonzero = 0, bf_size = 100 \<rparr>, \<lparr> bf_nonzero = 0, bf_size = 100 \<rparr>, \<lparr> bf_nonzero = 0, bf_size = 100 \<rparr>, \<lparr> bf_nonzero = 0, bf_size = 100 \<rparr>, \<lparr> bf_nonzero = 0, bf_size = 100 \<rparr>, \<lparr> bf_nonzero = 0, bf_size = 100 \<rparr>, \<lparr> bf_nonzero = 0, bf_size = 100 \<rparr>, \<lparr> bf_nonzero = 0, bf_size = 100 \<rparr>] =
      \<lparr> bl_buffer = [True, False, False, False, False, False, False, False, False, False, False, False], bl_violation_active = True,
        bl_ranges = [\<lparr> vr_start_time = 12 / 30, vr_end_time = None \<rparr>], bl_frame_idx = 23 \<rparr>"
    using f
    by (simp add: s12 bl_step_record deque_append_def Let_def BUFFER_SIZE_FRAMES_def)
  have w1: "bl_violation_active (bl_step 30 (bl_scan 30 bl_init [\<lparr> bf_nonzero = 50, bf_size = 100 \<rparr>, \<lparr> bf_nonzero = 50, bf_size = 100 \<rparr>, \<lparr> bf_nonzero = 50, bf_size = 100 \<rparr>, \<lparr> bf_nonzero = 50, bf_size = 100 \<rparr>, \<lparr> bf_nonzero = 50, bf_size = 100 \<rparr>, \<lparr> bf_nonzero = 50, bf_size = 100 \<rparr>, \<lparr> bf_nonzero = 50, bf_size = 100 \<rparr>, \<lparr> bf_nonzero = 50, bf_size = 100 \<rparr>, \<lparr> bf_nonzero = 50, bf_size = 100 \<rparr>, \<lparr> bf_nonzero = 50, bf_size = 100 \<rparr>, \<lparr> bf_nonzero = 50, bf_size = 100 \<rparr>]) \<lparr> bf_nonzero = 50, bf_size = 100 \<rparr>)
      \<and> length (bl_ranges (bl_step 30 (bl_scan 30 bl_init [\<lparr> bf_nonzero = 50, bf_size = 100 \<rparr>, \<lparr> bf_nonzero = 50, bf_size = 100 \<rparr>, \<lparr> bf_nonzero = 50, bf_size = 100 \<rparr>, \<lparr> bf_nonzero = 50, bf_size = 100 \<rparr>, \<lparr> bf_nonzero = 50, bf_size = 100 \<rparr>, \<lparr> bf_nonzero = 50, bf_size = 100 \<rparr>, \<lparr> bf_nonzero = 50, bf_size = 100 \<rparr>, \<lparr> bf_nonzero = 50, bf_size = 100 \<rparr>, \<lparr> bf_nonzero = 50, bf_size = 100 \<rparr>, \<lparr> bf_nonzero = 50, bf_size = 100 \<rparr>, \<lparr> bf_nonzero = 50, bf_size = 100 \<rparr>]) \<lparr> bf_nonzero = 50, bf_size = 100 \<rparr>)) = 1"
    using unanimous_buffer [of 30 "[\<lparr> bf_nonzero = 50, bf_size = 100 \<rparr>, \<lparr> bf_nonzero = 50, bf_size = 100 \<rparr>, \<lparr> bf_nonzero = 50, bf_size = 100 \<rparr>, \<lparr> bf_nonzero = 50, bf_size = 100 \<rparr>, \<lparr> bf_nonzero = 50, bf_size = 100 \<rparr>, \<lparr> bf_nonzero = 50, bf_size = 100 \<rparr>, \<lparr> bf_nonzero = 50, bf_size = 100 \<rparr>, \<lparr> bf_nonzero = 50, bf_size = 100 \<rparr>, \<lparr> bf_nonzero = 50, bf_size = 100 \<rparr>, \<lparr> bf_nonzero = 50, bf_size = 100 \<rparr>, \<lparr> bf_nonzero = 50, bf_size = 100 \<rparr>]" "\<lparr> bf_nonzero = 50, bf_size = 100 \<rparr>"] t
    by (simp add: Let_def s11 bl_step_record deque_append_def BUFFER_SIZE_FRAMES_def)
  have w2: "\<not> bl_violation_active (bl_step 30 (bl_scan 30 bl_init [\<lparr> bf_nonzero = 50, bf_size = 100 \<rparr>, \<lparr> bf_nonzero = 50, bf_size = 100 \<rparr>, \<lparr> bf_nonzero = 50, bf_size = 100 \<rparr>, \<lparr> bf_nonzero = 50, bf_size = 100 \<rparr>, \<lparr> bf_nonzero = 50, bf_size = 100 \<rparr>, \<lparr> bf_nonzero = 50, bf_size = 100 \<rparr>, \<lparr> bf_nonzero = 50, bf_size = 100 \<rparr>, \<lparr> bf_nonzero = 50, bf_size = 100 \<rparr>, \<lparr> bf_nonzero = 50, bf_size = 100 \<rparr>, \<lparr> bf_nonzero = 50, bf_size = 100 \<rparr>, \<lparr> bf_nonzero = 50, bf_size = 100 \<rparr>]) \<lparr> bf_nonzero = 0, bf_size = 100 \<rparr>)
      \<and> bl_ranges (bl_step 30 (bl_scan 30 bl_init [\<lparr> bf_nonzero = 50, bf_size = 100 \<rparr>, \<lparr> bf_nonzero = 50, bf_size = 100 \<rparr>, \<lparr> bf_nonzero = 50, bf_size = 100 \<rparr>, \<lparr> bf_nonzero = 50, bf_size = 100 \<rparr>, \<lparr> bf_nonzero = 50, bf_size = 100 \<rparr>, \<lparr> bf_nonzero = 50, bf_size = 100 \<rparr>, \<lparr> bf_nonzero = 50, bf_size = 100 \<rparr>, \<lparr> bf_nonzero = 50, bf_size = 100 \<rparr>, \<lparr> bf_nonzero = 50, bf_size = 100 \<rparr>, \<lparr> bf_nonzero = 50, bf_size = 100 \<rparr>, \<lparr> bf_nonzero = 50, bf_size = 100 \<rparr>]) \<lparr> bf_nonzero = 0, bf_size = 100 \<rparr>) = []"
    using unanimous_buffer [of 30 "[\<lparr> bf_nonzero = 50, bf_size = 100 \<rparr>, \<lparr> bf_nonzero = 50, bf_size = 100 \<rparr>, \<lparr> bf_nonzero = 50, bf_size = 100 \<rparr>, \<lparr> bf_nonzero = 50, bf_size = 100 \<rparr>, \<lparr> bf_nonzero = 50, bf_size = 100 \<rparr>, \<lparr> bf_nonzero = 50, bf_size = 100 \<rparr>, \<lparr> bf_nonzero = 50, bf_size = 100 \<rparr>, \<lparr> bf_nonzero = 50, bf_size = 100 \<rparr>, \<lparr> bf_nonzero = 50, bf_size = 100 \<rparr>, \<lparr> bf_nonzero = 50, bf_size = 100 \<rparr>, \<lparr> bf_nonzero = 50, bf_size = 100 \<rparr>]" "\<lparr> bf_nonzero = 0, bf_size = 100 \<rparr>"] f
    by (simp add: Let_def s11 bl_step_record deque_append_def BUFFER_SIZE_FRAMES_def)
  have w3: "\<not> bl_violation_active (bl_step 30 (bl_scan 30 bl_init [\<lparr> bf_nonzero = 50, bf_size = 100 \<rparr>, \<lparr> bf_nonzero = 50, bf_size = 100 \<rparr>, \<lparr> bf_nonzero = 50, bf_size = 100 \<rparr>, \<lparr> bf_nonzero = 50, bf_size = 100 \<rparr>, \<lparr> bf_nonzero = 50, bf_size = 100 \<rparr>, \<lparr> bf_nonzero = 50, bf_size = 100 \<rparr>, \<lparr> bf_nonzero = 50, bf_size = 100 \<rparr>, \<lparr> bf_nonzero = 50, bf_size = 100 \<rparr>, \<lparr> bf_nonzero = 50, bf_size = 100 \<rparr>, \<lparr> bf_nonzero = 50, bf_size = 100 \<rparr>, \<lparr> bf_nonzero = 50, bf_size = 100 \<rparr>, \<lparr> bf_nonzero = 50, bf_size = 100 \<rparr>, \<lparr> bf_nonzero = 0, bf_size = 100 \<rparr>, \<lparr> bf_nonzero = 0, bf_size = 100 \<rparr>, \<lparr> bf_nonzero = 0, bf_size = 100 \<rparr>, \<lparr> bf_nonzero = 0, bf_size = 100 \<rparr>, \<lparr> bf_nonzero = 0, bf_size = 100 \<rparr>, \<lparr> bf_nonzero = 0, bf_size = 100 \<rparr>, \<lparr> bf_nonzero = 0, bf_size = 100 \<rparr>, \<lparr> bf_nonzero = 0, bf_size = 100 \<rparr>, \<lparr> bf_nonzero = 0, bf_size = 100 \<rparr>, \<lparr> bf_nonzero = 0, bf_size = 100 \<rparr>, \<lparr> bf_nonzero = 0, bf_size = 100 \<rparr>]) \<lparr> bf_nonzero = 0, bf_size = 100 \<rparr>)"
    using unanimous_buffer [of 30 "[\<lparr> bf_nonzero = 50, bf_size = 100 \<rparr>, \<lparr> bf_nonzero = 50, bf_size = 100 \<rparr>, \<lparr> bf_nonzero = 50, bf_size = 100 \<rparr>, \<lparr> bf_nonzero = 50, bf_size = 100 \<rparr>, \<lparr> bf_nonzero = 50, bf_size = 100 \<rparr>, \<lparr> bf_nonzero = 50, bf_size = 100 \<rparr>, \<lparr> bf_nonzero = 50, bf_size = 100 \<rparr>, \<lparr> bf_nonzero = 50, bf_size = 100 \<rparr>, \<lparr> bf_nonzero = 50, bf_size = 100 \<rparr>, \<lparr> bf_nonzero = 50, bf_size = 100 \<rparr>, \<lparr> bf_nonzero = 50, bf_size = 100 \<rparr>, \<lparr> bf_nonzero = 50, bf_size = 100 \<rparr>, \<lparr> bf_nonzero = 0, bf_size = 100 \<rparr>, \<lparr> bf_nonzero = 0, bf_size = 100 \<rparr>, \<lparr> bf_nonzero = 0, bf_size = 100 \<rparr>, \<lparr> bf_nonzero = 0, bf_size = 100 \<rparr>, \<lparr> bf_nonzero = 0, bf_size = 100 \<rparr>, \<lparr> bf_nonzero = 0, bf_size = 100 \<rparr>, \<lparr> bf_nonzero = 0, bf_size = 100 \<rparr>, \<lparr> bf_nonzero = 0, bf_size = 100 \<rparr>, \<lparr> bf_nonzero = 0, bf_size = 100 \<rparr>, \<lparr> bf_nonzero = 0, bf_size = 100 \<rparr>, \<lparr> bf_nonzero = 0, bf_size = 100 \<rparr>]" "\<lparr> bf_nonzero = 0, bf_size = 100 \<rparr>"] f
    by (simp add: Let_def s23 bl_step_record deque_append_def BUFFER_SIZE_FRAMES_def)
  have w4: "bl_ranges (bl_step 30 (bl_scan 30 bl_init [\<lparr> bf_nonzero = 50, bf_size = 100 \<rparr>, \<lparr> bf_nonzero = 50, bf_size = 100 \<rparr>, \<lparr> bf_nonzero = 50, bf_size = 100 \<rparr>, \<lparr> bf_nonzero = 50, bf_size = 100 \<rparr>, \<lparr> bf_nonzero = 50, bf_size = 100 \<rparr>, \<lparr> bf_nonzero = 50, bf_size = 100 \<rparr>, \<lparr> bf_nonzero = 50, bf_size = 100 \<rparr>, \<lparr> bf_nonzero = 50, bf_size = 100 \<rparr>, \<lparr> bf_nonzero = 50, bf_size = 100 \<rparr>, \<lparr> bf_nonzero = 50, bf_size = 100 \<rparr>, \<lparr> bf_nonzero = 50, bf_size = 100 \<rparr>, \<lparr> bf_nonzero = 50, bf_size = 100 \<rparr>, \<lparr> bf_nonzero = 0, bf_size = 100 \<rparr>, \<lparr> bf_nonzero = 0, bf_size = 100 \<rparr>, \<lparr> bf_nonzero = 0, bf_size = 100 \<rparr>, \<lparr> bf_nonzero = 0, bf_size = 100 \<rparr>, \<lparr> bf_nonzero = 0, bf_size = 100 \<rparr>, \<lparr> bf_nonzero = 0, bf_size = 100 \<rparr>, \<lparr> bf_nonzero = 0, bf_size = 100 \<rparr>, \<lparr> bf_nonzero = 0, bf_size = 100 \<rparr>, \<lparr> bf_nonzero = 0, bf_size = 100 \<rparr>, \<lparr> bf_nonzero = 0, bf_size = 100 \<rparr>, \<lparr> bf_nonzero = 0, bf_size = 100 \<rparr>]) \<lparr> bf_nonzero = 0, bf_size = 100 \<rparr>)
       = [\<lparr> vr_start_time = 12 / 30, vr_end_time = Some (24 / 30) \<rparr>]"
    using f
    by (simp add: s23 bl_step_record set_last_end_def deque_append_def Let_def
        BUFFER_SIZE_FRAMES_def)
  from w1 w2 w3 w4 s11 s12 s23 unanimous_buffer [of 30 "[\<lparr> bf_nonzero = 50, bf_size = 100 \<rparr>, \<lparr> bf_nonzero = 50, bf_size = 100 \<rparr>, \<lparr> bf_nonzero = 50, bf_size = 100 \<rparr>, \<lparr> bf_nonzero = 50, bf_size = 100 \<rparr>, \<lparr> bf_nonzero = 50, bf_size = 100 \<rparr>, \<lparr> bf_nonzero = 50, bf_size = 100 \<rparr>, \<lparr> bf_nonzero = 50, bf_size = 100 \<rparr>, \<lparr> bf_nonzero = 50, bf_size = 100 \<rparr>, \<lparr> bf_nonzero = 50, bf_size = 100 \<rparr>, \<lparr> bf_nonzero = 50, bf_size = 100 \<rparr>, \<lparr> bf_nonzero = 50, bf_size = 100 \<rparr>, \<lparr> bf_nonzero = 50, bf_size = 100 \<rparr>]" "\<lparr> bf_nonzero = 50, bf_size = 100 \<rparr>"]
  show ?thesis by simp
qed

section \<open>The finalize pass of \<open>run_close_encounters\<close>\<close>

lemma drop_short_filter:
  "drop_short final events = final @ filter (\<lambda>e. \<not> (end_time e - start_time e < 0.2)) events"
  by (induction events arbitrary: final) (simp_all add: not_less)

lemma merge_step_not_empty: "merge_step merged e \<noteq> []"
  by (simp add: merge_step_def Let_def)

lemma merge_fold_not_empty:
  "merged \<noteq> [] \<Longrightarrow> fold (\<lambda>e merged. merge_step merged e) rest merged \<noteq> []"
  by (induction rest arbitrary: merged) (simp_all add: merge_step_not_empty)

lemma merge_events_not_empty: "final \<noteq> [] \<Longrightarrow> merge_events final \<noteq> []"
  by (cases final) (simp_all add: merge_events_def merge_fold_not_empty)

lemma merge_events_snoc:
  "final \<noteq> [] \<Longrightarrow> merge_events (final @ [e]) = merge_step (merge_events final) e"
  by (cases final) (simp_all add: merge_events_def)

lemma merge_step_explicit:
  "merge_step merged e =
     (let m = last merged
      in if start_time e - end_time m \<le> 2
         then butlast merged @
           [m\<lparr> end_time := end_time e,
               peak_score := max (peak_score m) (peak_score e),
               peak_time := (if peak_score e > peak_score m then peak_time e else peak_time m),
               where_band := (if peak_score e > peak_score m then where_band e else where_band m),
               max_box_height_norm := (if peak_score e > peak_score m
                                       then max_box_height_norm e
                                       else max_box_height_norm m) \<rparr>]
         else merged @ [e])"
  by (simp add: merge_step_def Let_def MERGE_GAP_def max_def)

text \<open>
  Claim C1. The finalize pass first drops every event with
  \<open>end_time - start_time < 0.2\<close> and keeps the others in order. The merge scan then
  treats the kept events chronologically: an event whose \<open>start_time\<close> is within 2.0
  seconds of the \<open>end_time\<close> of the last event kept so far is merged into it, so that
  the merged event ends where the later one ends and its peak score is the larger of
  the two, with peak time, band and box height taken from the later event exactly
  when its peak score is strictly higher; any other event is appended. In particular
  two events within the gap become exactly one event.
\<close>

theorem finalize_pass:
  "finalize_events events =
     merge_events (filter (\<lambda>e. \<not> (end_time e - start_time e < 0.2)) events)
   \<and> merge_events [] = [] \<and> merge_events [single] = [single]
   \<and> (final \<noteq> [] \<longrightarrow>
        merge_events final \<noteq> []
        \<and> merge_events (final @ [e]) =
          (let merged = merge_events final; m = last merged
           in if start_time e - end_time m \<le> 2
              then butlast merged @
                [m\<lparr> end_time := end_time e,
                    peak_score := max (peak_score m) (peak_score e),
                    peak_time := (if peak_score e > peak_score m then peak_time e
                                  else peak_time m),
                    where_band := (if peak_score e > peak_score m then where_band e
                                   else where_band m),
                    max_box_height_norm := (if peak_score e > peak_score m
                                            then max_box_height_norm e
                                            else max_box_height_norm m) \<rparr>]
              else merged @ [e]))
   \<and> (start_time b - end_time a \<le> 2 \<longrightarrow>
        (\<exists>c. merge_events [a, b] = [c] \<and> start_time c = start_time a
           \<and> end_time c = end_time b \<and> peak_score c = max (peak_score a) (peak_score b)))"
proof (intro conjI impI)
  show "finalize_events events =
     merge_events (filter (\<lambda>e. \<not> (end_time e - start_time e < 0.2)) events)"
    by (simp add: finalize_events_def drop_short_filter)
  show "merge_events [] = []" by (simp add: merge_events_def)
  show "merge_events [single] = [single]" by (simp add: merge_events_def)
next
  assume "final \<noteq> []"
  then show "merge_events final \<noteq> []" by (rule merge_events_not_empty)
next
  assume "final \<noteq> []"
  then have "merge_events (final @ [e]) = merge_step (merge_events final) e"
    by (rule merge_events_snoc)
  then show "merge_events (final @ [e]) =
          (let merged = merge_events final; m = last merged
           in if start_time e - end_time m \<le> 2
              then butlast merged @
                [m\<lparr> end_time := end_time e,
                    peak_score := max (peak_score m) (peak_score e),
                    peak_time := (if peak_score e > peak_score m then peak_time e
                                  else peak_time m),
                    where_band := (if peak_score e > peak_score m then where_band e
                                   else where_band m),
                    max_box_height_norm := (if peak_score e > peak_score m
                                            then max_box_height_norm e
                                            else max_box_height_norm m) \<rparr>]
              else merged @ [e])"
    by (simp only: merge_step_explicit Let_def)
next
  assume "start_time b - end_time a \<le> 2"
  then show "\<exists>c. merge_events [a, b] = [c] \<and> start_time c = start_time a
           \<and> end_time c = end_time b \<and> peak_score c = max (peak_score a) (peak_score b)"
    by (simp add: merge_events_def merge_step_explicit Let_def)
qed


theorem finalize_pass_witness:
  "finalize_events [\<lparr> start_time = 1, peak_time = 1, peak_score = 0.3, where_band = ''left'', max_box_height_norm = 0.2, end_time = 1.1 \<rparr>, \<lparr> start_time = 2, peak_time = 2.5, peak_score = 0.5, where_band = ''left'', max_box_height_norm = 0.3, end_time = 3 \<rparr>,
      \<lparr> start_time = 4.5, peak_time = 5, peak_score = 0.7, where_band = ''center'', max_box_height_norm = 0.4, end_time = 6 \<rparr>, \<lparr> start_time = 10, peak_time = 10.5, peak_score = 0.2, where_band = ''right'', max_box_height_norm = 0.2, end_time = 11 \<rparr>]
     = [\<lparr> start_time = 2, peak_time = 5, peak_score = 0.7, where_band = ''center'', max_box_height_norm = 0.4, end_time = 6 \<rparr>, \<lparr> start_time = 10, peak_time = 10.5, peak_score = 0.2, where_band = ''right'', max_box_height_norm = 0.2, end_time = 11 \<rparr>]
   \<and> start_time \<lparr> start_time = 4.5, peak_time = 5, peak_score = 0.7, where_band = ''center'', max_box_height_norm = 0.4, end_time = 6 \<rparr> - end_time \<lparr> start_time = 2, peak_time = 2.5, peak_score = 0.5, where_band = ''left'', max_box_height_norm = 0.3, end_time = 3 \<rparr> \<le> 2
   \<and> merge_events ([\<lparr> start_time = 2, peak_time = 2.5, peak_score = 0.5, where_band = ''left'', max_box_height_norm = 0.3, end_time = 3 \<rparr>] @ [\<lparr> start_time = 4.5, peak_time = 5, peak_score = 0.7, where_band = ''center'', max_box_height_norm = 0.4, end_time = 6 \<rparr>]) = [\<lparr> start_time = 2, peak_time = 5, peak_score = 0.7, where_band = ''center'', max_box_height_norm = 0.4, end_time = 6 \<rparr>]
   \<and> merge_events [\<lparr> start_time = 2, peak_time = 2.5, peak_score = 0.5, where_band = ''left'', max_box_height_norm = 0.3, end_time = 3 \<rparr>, \<lparr> start_time = 4.5, peak_time = 5, peak_score = 0.7, where_band = ''center'', max_box_height_norm = 0.4, end_time = 6 \<rparr>] = [\<lparr> start_time = 2, peak_time = 5, peak_score = 0.7, where_band = ''center'', max_box_height_norm = 0.4, end_time = 6 \<rparr>]"
  using finalize_pass
    [where events = "[\<lparr> start_time = 1, peak_time = 1, peak_score = 0.3, where_band = ''left'', max_box_height_norm = 0.2, end_time = 1.1 \<rparr>, \<lparr> start_time = 2, peak_time = 2.5, peak_score = 0.5, where_band = ''left'', max_box_height_norm = 0.3, end_time = 3 \<rparr>, \<lparr> start_time = 4.5, peak_time = 5, peak_score = 0.7, where_band = ''center'', max_box_height_norm = 0.4, end_time = 6 \<rparr>, \<lparr> start_time = 10, peak_time = 10.5, peak_score = 0.2, where_band = ''right'', max_box_height_norm = 0.2, end_time = 11 \<rparr>]"
       and single = "\<lparr> start_time = 2, peak_time = 2.5, peak_score = 0.5, where_band = ''left'', max_box_height_norm = 0.3, end_time = 3 \<rparr>" and final = "[\<lparr> start_time = 2, peak_time = 2.5, peak_score = 0.5, where_band = ''left'', max_box_height_norm = 0.3, end_time = 3 \<rparr>]" and e = "\<lparr> start_time = 4.5, peak_time = 5, peak_score = 0.7, where_band = ''center'', max_box_height_norm = 0.4, end_time = 6 \<rparr>" and a = "\<lparr> start_time = 2, peak_time = 2.5, peak_score = 0.5, where_band = ''left'', max_box_height_norm = 0.3, end_time = 3 \<rparr>" and b = "\<lparr> start_time = 4.5, peak_time = 5, peak_score = 0.7, where_band = ''center'', max_box_height_norm = 0.4, end_time = 6 \<rparr>"]
  by (simp add: merge_events_def merge_step_def MERGE_GAP_def Let_def)

section \<open>Event times are ordered\<close>

subsection \<open>Rounding is monotone\<close>

lemma py_round_cases: "py_round x = \<lfloor>x\<rfloor> \<or> py_round x = \<lfloor>x\<rfloor> + 1"
  by (simp add: py_round_def Let_def)

lemma py_round_mono:
  assumes "x \<le> y"
  shows "py_round x \<le> py_round y"
proof (cases "\<lfloor>x\<rfloor> = \<lfloor>y\<rfloor>")
  case True
  with assms have "x - of_int \<lfloor>x\<rfloor> \<le> y - of_int \<lfloor>y\<rfloor>" by simp
  with True show ?thesis
    unfolding py_round_def Let_def by auto
next
  case False
  with assms have "\<lfloor>x\<rfloor> + 1 \<le> \<lfloor>y\<rfloor>"
    using floor_mono [OF assms] by linarith
  moreover have "py_round x \<le> \<lfloor>x\<rfloor> + 1" using py_round_cases [of x] by linarith
  moreover have "\<lfloor>y\<rfloor> \<le> py_round y" using py_round_cases [of y] by linarith
  ultimately show ?thesis by linarith
qed

lemma py_round_nd_mono:
  assumes "x \<le> y"
  shows "py_round_nd x n \<le> py_round_nd y n"
proof -
  have "x * 10 ^ n \<le> y * 10 ^ n" using assms by simp
  then have "py_round (x * 10 ^ n) \<le> py_round (y * 10 ^ n)" by (rule py_round_mono)
  then have "(of_int (py_round (x * 10 ^ n)) :: real) \<le> of_int (py_round (y * 10 ^ n))"
    by simp
  then show ?thesis by (simp add: py_round_nd_def divide_right_mono)
qed

subsection \<open>The tracks of \<open>detect_encounters\<close>\<close>

text \<open>A track is in order up to time \<open>T\<close> when its sample times ascend and are bounded
  by \<open>T\<close>, and its peak time, if set, is the time of one of its samples.\<close>

definition track_ordered :: "real \<Rightarrow> track \<Rightarrow> bool" where
  "track_ordered T tr \<longleftrightarrow>
     sorted (map td_time (tr_history tr))
     \<and> (\<forall>td \<in> set (tr_history tr). td_time td \<le> T)
     \<and> (case tr_peak_time tr of None \<Rightarrow> True
         | Some p \<Rightarrow> p \<in> td_time ` set (tr_history tr))"

definition tracks_ordered :: "real \<Rightarrow> tracks \<Rightarrow> bool" where
  "tracks_ordered T vt \<longleftrightarrow> (\<forall>(k, tr) \<in> set vt. track_ordered T tr)"

lemma track_ordered_mono: "track_ordered T tr \<Longrightarrow> T \<le> T' \<Longrightarrow> track_ordered T' tr"
  by (fastforce simp add: track_ordered_def)

lemma tracks_ordered_mono: "tracks_ordered T vt \<Longrightarrow> T \<le> T' \<Longrightarrow> tracks_ordered T' vt"
  by (auto simp add: tracks_ordered_def intro: track_ordered_mono)

lemma track_ordered_new: "track_ordered T new_track"
  by (simp add: track_ordered_def new_track_def)

lemma track_of_ordered: "tracks_ordered T vt \<Longrightarrow> track_ordered T (track_of vt k)"
  by (auto simp add: tracks_ordered_def track_of_def track_ordered_new
      split: option.splits dest: map_of_SomeD)

lemma set_alist_update: "set (AList.update k v al) \<subseteq> insert (k, v) (set al)"
  by (induction al) auto

lemma tracks_ordered_update:
  "tracks_ordered T vt \<Longrightarrow> track_ordered T tr \<Longrightarrow> tracks_ordered T (AList.update k tr vt)"
  using set_alist_update [of k tr vt]
  by (auto simp add: tracks_ordered_def)

lemma update_track_ordered:
  assumes "update_track det k tr td = Inr tr'" and "track_ordered T tr" and "td_time td = T"
  shows "track_ordered T tr'"
proof -
  from assms(2) have s: "sorted (map td_time (tr_history tr))"
    and b: "\<forall>x \<in> set (tr_history tr). td_time x \<le> T"
    and p: "case tr_peak_time tr of None \<Rightarrow> True
         | Some p \<Rightarrow> p \<in> td_time ` set (tr_history tr)"
    by (simp_all add: track_ordered_def)
  have h: "tr_history tr' = tr_history tr @ [td]"
    using assms(1) by (auto simp add: update_track_def Let_def split: if_splits)
  have pk: "tr_peak_time tr' = tr_peak_time tr \<or> tr_peak_time tr' = Some T"
    using assms(1,3) by (auto simp add: update_track_def Let_def split: if_splits)
  have "sorted (map td_time (tr_history tr @ [td]))"
    using s b assms(3) by (auto simp add: sorted_append)
  moreover have "\<forall>x \<in> set (tr_history tr @ [td]). td_time x \<le> T"
    using b assms(3) by simp
  moreover have "case tr_peak_time tr' of None \<Rightarrow> True
         | Some p \<Rightarrow> p \<in> td_time ` set (tr_history tr @ [td])"
    using pk p assms(3) by (auto split: option.splits)
  ultimately show ?thesis by (auto simp add: track_ordered_def h split: option.splits)
qed

lemma make_track_data_time: "td_time (make_track_data det t b) = t"
  by (cases "det_xyxy b") (simp add: make_track_data_def Let_def)

lemma process_box_ordered:
  assumes "process_box det k t vt b = Inr vt'" and "tracks_ordered t vt"
  shows "tracks_ordered t vt'"
proof (cases "vt' = vt")
  case True
  with assms(2) show ?thesis by simp
next
  case False
  with assms(1) obtain tid tr where u: "update_track det k (track_of vt tid)
      (make_track_data det t b) = Inr tr" and v: "vt' = AList.update tid tr vt"
    by (auto simp add: process_box_def split: if_splits prod.splits option.splits sum.splits)
  from update_track_ordered [OF u track_of_ordered [OF assms(2)] make_track_data_time]
  have "track_ordered t tr" .
  with assms(2) v show ?thesis by (simp add: tracks_ordered_update)
qed

lemma process_boxes_ordered:
  assumes "process_boxes det k t vt boxes = Inr vt'" and "tracks_ordered t vt"
  shows "tracks_ordered t vt'"
  using assms
proof (induction boxes arbitrary: vt)
  case Nil
  then show ?case by simp
next
  case (Cons b boxes)
  from Cons.prems(1) obtain vt1 where b: "process_box det k t vt b = Inr vt1"
    and rest: "process_boxes det k t vt1 boxes = Inr vt'"
    by (auto split: sum.splits)
  from Cons.IH [OF rest process_box_ordered [OF b Cons.prems(2)]] show ?case .
qed

lemma detect_loop_ordered:
  assumes "detect_loop det i vt frames = Inr vt'" and "0 < d_fps det"
    and "tracks_ordered (of_nat i / d_fps det) vt"
  shows "\<exists>T. tracks_ordered T vt'"
  using assms
proof (induction frames arbitrary: i vt)
  case Nil
  then show ?case by auto
next
  case (Cons boxes frames)
  have le: "of_nat i / d_fps det \<le> of_nat (Suc i) / d_fps det"
    using Cons.prems(2) by (simp add: divide_right_mono)
  from tracks_ordered_mono [OF Cons.prems(3) le]
  have ord: "tracks_ordered (of_nat (Suc i) / d_fps det) vt" .
  show ?case
  proof (cases "Suc i mod 2 \<noteq> 0 \<or> boxes = []")
    case True
    with Cons.prems(1) have "detect_loop det (Suc i) vt frames = Inr vt'"
      by (auto simp add: Let_def split: if_splits)
    from Cons.IH [OF this Cons.prems(2) ord] show ?thesis .
  next
    case False
    with Cons.prems(1) obtain vt1 where
      b: "process_boxes det (Suc i) (of_nat (Suc i) / d_fps det) vt boxes = Inr vt1"
      and rest: "detect_loop det (Suc i) vt1 frames = Inr vt'"
      by (auto simp add: Let_def split: if_splits sum.splits)
    from Cons.IH [OF rest Cons.prems(2) process_boxes_ordered [OF b ord]] show ?thesis .
  qed
qed

lemma make_encounter_ordered:
  assumes "make_encounter det tr = Inr enc" and "track_ordered T tr" and "tr_history tr \<noteq> []"
  shows "enc_start_time enc \<le> enc_peak_time enc \<and> enc_peak_time enc \<le> enc_end_time enc"
proof -
  let ?ts = "map td_time (tr_history tr)"
  from assms(2) have s: "sorted ?ts"
    and p: "case tr_peak_time tr of None \<Rightarrow> True
         | Some p \<Rightarrow> p \<in> td_time ` set (tr_history tr)"
    by (simp_all add: track_ordered_def)
  define pt where "pt = (case tr_peak_time tr of Some t \<Rightarrow> t | None \<Rightarrow> td_time (hd (tr_history tr)))"
  have ne: "?ts \<noteq> []" using assms(3) by simp
  have "pt \<in> set ?ts"
    using p assms(3) by (auto simp add: pt_def split: option.splits)
  then obtain j where j: "j < length ?ts" "?ts ! j = pt" by (auto simp add: in_set_conv_nth)
  have "?ts ! 0 \<le> ?ts ! j" by (rule sorted_nth_mono [OF s]) (use j(1) in simp_all)
  moreover have "?ts ! j \<le> ?ts ! (length ?ts - 1)"
    by (rule sorted_nth_mono [OF s]) (use j(1) in simp_all)
  moreover have "?ts ! 0 = td_time (hd (tr_history tr))"
    using assms(3) by (simp add: hd_conv_nth)
  moreover have "?ts ! (length ?ts - 1) = td_time (last (tr_history tr))"
    using assms(3) by (simp add: last_conv_nth)
  ultimately have "td_time (hd (tr_history tr)) \<le> pt" "pt \<le> td_time (last (tr_history tr))"
    using j(2) by simp_all
  then have "py_round_nd (td_time (hd (tr_history tr))) 2 \<le> py_round_nd pt 2"
    "py_round_nd pt 2 \<le> py_round_nd (td_time (last (tr_history tr))) 2"
    by (simp_all add: py_round_nd_mono)
  moreover from assms(1) have "enc_start_time enc = py_round_nd (td_time (hd (tr_history tr))) 2"
    "enc_end_time enc = py_round_nd (td_time (last (tr_history tr))) 2"
    "enc_peak_time enc = py_round_nd pt 2"
    by (auto simp add: make_encounter_def Let_def pt_def split: if_splits)
  ultimately show ?thesis by simp
qed

lemma convert_tracks_ordered:
  assumes "convert_tracks det vt = Inr encs" and "tracks_ordered T vt"
  shows "\<forall>enc \<in> set encs. enc_start_time enc \<le> enc_peak_time enc
            \<and> enc_peak_time enc \<le> enc_end_time enc"
  using assms
proof (induction vt arbitrary: encs)
  case Nil
  then show ?case by simp
next
  case (Cons p vt)
  obtain k tr where p: "p = (k, tr)" by (cases p)
  from Cons.prems(2) p have tr: "track_ordered T tr" and rest: "tracks_ordered T vt"
    by (simp_all add: tracks_ordered_def)
  show ?case
  proof (cases "\<not> tr_is_dangerous tr \<or> length (tr_history tr) < MIN_TRACK_FRAMES")
    case True
    with Cons.prems(1) p have "convert_tracks det vt = Inr encs"
      by (auto split: if_splits)
    from Cons.IH [OF this rest] show ?thesis .
  next
    case False
    then have ne: "tr_history tr \<noteq> []" by (auto simp add: MIN_TRACK_FRAMES_def)
    from False Cons.prems(1) p obtain enc encs' where e: "make_encounter det tr = Inr enc"
      and r: "convert_tracks det vt = Inr encs'" and c: "encs = enc # encs'"
      by (auto split: sum.splits)
    from make_encounter_ordered [OF e tr ne] Cons.IH [OF r rest] c show ?thesis by simp
  qed
qed

lemma detect_encounters_ordered:
  assumes "detect_encounters det frames = Inr r" and "0 < d_fps det"
  shows "\<forall>enc \<in> set (pr_close_encounters r). enc_start_time enc \<le> enc_peak_time enc
            \<and> enc_peak_time enc \<le> enc_end_time enc"
proof -
  from assms(1) obtain vt encs where l: "detect_loop det 0 [] frames = Inr vt"
    and c: "convert_tracks det vt = Inr encs" and r: "pr_close_encounters r = encs"
    by (auto simp add: detect_encounters_def split: sum.splits)
  have "tracks_ordered (of_nat 0 / d_fps det) []" by (simp add: tracks_ordered_def)
  from detect_loop_ordered [OF l assms(2) this] obtain T where "tracks_ordered T vt" ..
  from convert_tracks_ordered [OF c this] r show ?thesis by simp
qed

subsection \<open>The state machine of \<open>run_close_encounters\<close>\<close>

lemma fps_or_default_pos: "0 \<le> r \<Longrightarrow> 0 < fps_or_default r"
  by (simp add: fps_or_default_def)

lemma ce_smooth_fields:
  "cl_i (ce_smooth t W H st fr) = cl_i st"
  "cl_times (ce_smooth t W H st fr) = cl_times st @ [t]"
  "cl_state (ce_smooth t W H st fr) = cl_state st"
  "cl_events (ce_smooth t W H st fr) = cl_events st"
  by (simp_all add: ce_smooth_def Let_def)

lemma ce_machine_fields:
  "cl_i (ce_machine t sc st) = cl_i st"
  "cl_times (ce_machine t sc st) = cl_times st"
  by (simp_all add: ce_machine_def Let_def split: machine.splits)

lemma ce_machine_idle:
  assumes "cl_state st = Idle"
  shows "cl_events (ce_machine t sc st) = cl_events st
     \<and> (cl_state (ce_machine t sc st) = Idle
        \<or> (\<exists>c. cl_state (ce_machine t sc st) = InEvent c
              \<and> ce_start_time c = py_round_nd t 2 \<and> ce_peak_time c = py_round_nd t 2))"
  using assms by (simp add: ce_machine_def)

lemma ce_machine_in_event:
  assumes "cl_state st = InEvent c"
  shows "\<exists>c'. ce_start_time c' = ce_start_time c
      \<and> (ce_peak_time c' = ce_peak_time c \<or> ce_peak_time c' = py_round_nd t 2)
      \<and> ((cl_state (ce_machine t sc st) = InEvent c'
             \<and> cl_events (ce_machine t sc st) = cl_events st)
          \<or> (cl_state (ce_machine t sc st) = Idle
             \<and> cl_events (ce_machine t sc st)
                 = cl_events st @ [close_event c' (py_round_nd t 2)]))"
proof -
  define c' where "c' = (if sc_fused sc > ce_peak_score c
                    then c\<lparr> ce_peak_score := py_round_nd (sc_fused sc) 3,
                            ce_peak_time := py_round_nd t 2,
                            ce_where := [''left'', ''center'', ''right''] ! sc_peak_band sc,
                            ce_max_box_height_norm := py_round_nd (sc_peak_box_h sc) 3 \<rparr>
                    else c)"
  have "ce_start_time c' = ce_start_time c" by (simp add: c'_def)
  moreover have "ce_peak_time c' = ce_peak_time c \<or> ce_peak_time c' = py_round_nd t 2"
    by (simp add: c'_def)
  moreover have "(cl_state (ce_machine t sc st) = InEvent c'
             \<and> cl_events (ce_machine t sc st) = cl_events st)
          \<or> (cl_state (ce_machine t sc st) = Idle
             \<and> cl_events (ce_machine t sc st)
                 = cl_events st @ [close_event c' (py_round_nd t 2)])"
    using assms by (simp add: ce_machine_def Let_def c'_def)
  ultimately show ?thesis by blast
qed

definition event_ordered :: "event \<Rightarrow> bool" where
  "event_ordered e \<longleftrightarrow> start_time e \<le> peak_time e \<and> peak_time e \<le> end_time e"

text \<open>Events in chronological order: each one is ordered and ends before the next starts.\<close>

definition chrono :: "event list \<Rightarrow> bool" where
  "chrono evs \<longleftrightarrow>
     (\<forall>e \<in> set evs. event_ordered e) \<and> sorted_wrt (\<lambda>a b. end_time a \<le> start_time b) evs"

text \<open>The invariant of the sampled-frame loop, with \<open>L\<close> the rounded last sampled time.\<close>

definition ce_inv :: "real \<Rightarrow> ce_loop \<Rightarrow> bool" where
  "ce_inv fps st \<longleftrightarrow>
     chrono (cl_events st)
     \<and> (\<forall>e \<in> set (cl_events st).
           cl_times st \<noteq> [] \<and> end_time e \<le> py_round_nd (last (cl_times st)) 2)
     \<and> (\<forall>c. cl_state st = InEvent c \<longrightarrow>
           cl_times st \<noteq> [] \<and> ce_start_time c \<le> ce_peak_time c
           \<and> ce_peak_time c \<le> py_round_nd (last (cl_times st)) 2
           \<and> (\<forall>e \<in> set (cl_events st). end_time e \<le> ce_start_time c))
     \<and> (cl_times st \<noteq> [] \<longrightarrow> last (cl_times st) \<le> of_nat (cl_i st) / fps)"

lemma ce_inv_init: "ce_inv fps ce_init"
  by (simp add: ce_inv_def ce_init_def chrono_def)

lemma ce_sample_inv:
  assumes "ce_inv fps st"
  shows "ce_inv fps (ce_sample fps W H st fr)"
proof -
  define t where "t = of_nat (cl_i st) / fps"
  define st1 where "st1 = ce_smooth t W H st fr"
  define sc where "sc = ce_scores_of W H st1 fr"
  define st2 where "st2 = ce_machine t sc st1"
  define L where "L = py_round_nd t 2"
  have s2: "ce_sample fps W H st fr = st2"
    by (simp add: ce_sample_def Let_def st2_def sc_def st1_def t_def)
  have i2: "cl_i st2 = cl_i st" and t2: "cl_times st2 = cl_times st @ [t]"
    by (simp_all add: st2_def st1_def ce_machine_fields ce_smooth_fields)
  have st1: "cl_state st1 = cl_state st" "cl_events st1 = cl_events st"
    by (simp_all add: st1_def ce_smooth_fields)
  from assms have ch: "chrono (cl_events st)"
    and ev: "\<forall>e \<in> set (cl_events st).
           cl_times st \<noteq> [] \<and> end_time e \<le> py_round_nd (last (cl_times st)) 2"
    and inev: "\<forall>c. cl_state st = InEvent c \<longrightarrow>
           cl_times st \<noteq> [] \<and> ce_start_time c \<le> ce_peak_time c
           \<and> ce_peak_time c \<le> py_round_nd (last (cl_times st)) 2
           \<and> (\<forall>e \<in> set (cl_events st). end_time e \<le> ce_start_time c)"
    and tm: "cl_times st \<noteq> [] \<longrightarrow> last (cl_times st) \<le> t"
    by (simp_all add: ce_inv_def t_def)
  have old: "py_round_nd (last (cl_times st)) 2 \<le> L" if "cl_times st \<noteq> []"
    using tm that by (simp add: L_def py_round_nd_mono)
  have evL: "\<forall>e \<in> set (cl_events st). end_time e \<le> L"
    using ev old by fastforce
  have last2: "py_round_nd (last (cl_times st2)) 2 = L" "cl_times st2 \<noteq> []"
    "last (cl_times st2) \<le> of_nat (cl_i st2) / fps"
    by (simp_all add: t2 i2 L_def t_def)
  show ?thesis
  proof (cases "cl_state st")
    case Idle
    from ce_machine_idle [of st1 t sc] Idle st1
    have e2: "cl_events st2 = cl_events st"
      and c2: "cl_state st2 = Idle
        \<or> (\<exists>c. cl_state st2 = InEvent c \<and> ce_start_time c = L \<and> ce_peak_time c = L)"
      by (simp_all add: st2_def L_def)
    have "\<forall>c. cl_state st2 = InEvent c \<longrightarrow>
           cl_times st2 \<noteq> [] \<and> ce_start_time c \<le> ce_peak_time c
           \<and> ce_peak_time c \<le> py_round_nd (last (cl_times st2)) 2
           \<and> (\<forall>e \<in> set (cl_events st2). end_time e \<le> ce_start_time c)"
      using c2 evL by (auto simp add: last2 e2)
    with ch evL last2 show ?thesis
      unfolding s2 ce_inv_def by (simp add: e2)
  next
    case (InEvent c)
    with inev have c: "cl_times st \<noteq> []" "ce_start_time c \<le> ce_peak_time c"
      "ce_peak_time c \<le> py_round_nd (last (cl_times st)) 2"
      "\<forall>e \<in> set (cl_events st). end_time e \<le> ce_start_time c"
      by simp_all
    from c(1,3) old have cL: "ce_peak_time c \<le> L" by linarith
    from ce_machine_in_event [of st1 c t sc] InEvent st1
    obtain c' where c': "ce_start_time c' = ce_start_time c"
      "ce_peak_time c' = ce_peak_time c \<or> ce_peak_time c' = L"
      "(cl_state st2 = InEvent c' \<and> cl_events st2 = cl_events st)
          \<or> (cl_state st2 = Idle \<and> cl_events st2 = cl_events st @ [close_event c' L])"
      by (auto simp add: st2_def L_def)
    have p1: "ce_start_time c' \<le> ce_peak_time c'" using c'(1,2) c(2) cL by auto
    have p2: "ce_peak_time c' \<le> L" using c'(2) cL by auto
    from c'(3) show ?thesis
    proof
      assume a: "cl_state st2 = InEvent c' \<and> cl_events st2 = cl_events st"
      then show ?thesis
        unfolding s2 ce_inv_def using ch evL last2 p1 p2 c(4) c'(1) by simp
    next
      assume a: "cl_state st2 = Idle \<and> cl_events st2 = cl_events st @ [close_event c' L]"
      have "event_ordered (close_event c' L)"
        using p1 p2 by (simp add: event_ordered_def close_event_def)
      moreover have "\<forall>e \<in> set (cl_events st). end_time e \<le> start_time (close_event c' L)"
        using c(4) c'(1) by (simp add: close_event_def)
      ultimately have "chrono (cl_events st @ [close_event c' L])"
        using ch by (simp add: chrono_def sorted_wrt_append)
      moreover have "end_time (close_event c' L) \<le> L" by (simp add: close_event_def)
      ultimately show ?thesis
        unfolding s2 ce_inv_def using a evL last2 by simp
    qed
  qed
qed

lemma ce_scan_inv:
  assumes "0 < fps" and "ce_inv fps st"
  shows "ce_inv fps (ce_scan fps step W H st frames)"
  using assms(2)
proof (induction frames arbitrary: st)
  case Nil
  then show ?case by simp
next
  case (Cons fr frames)
  have "(of_nat (cl_i st) :: real) / fps \<le> of_nat (cl_i st + 1) / fps"
    using assms(1) by (simp add: divide_right_mono)
  with Cons.prems have inv1: "ce_inv fps (st\<lparr> cl_i := cl_i st + 1 \<rparr>)"
    unfolding ce_inv_def by (simp del: of_nat_add of_nat_Suc) linarith
  show ?case
  proof (cases "int (cl_i st + 1) mod step \<noteq> 0")
    case True
    with Cons.IH [OF inv1] show ?thesis by (simp add: Let_def)
  next
    case False
    with Cons.IH [OF ce_sample_inv [OF inv1]] show ?thesis by (simp add: Let_def)
  qed
qed

lemma force_close_chrono:
  assumes "ce_inv fps st"
  shows "chrono (force_close st)"
proof (cases "cl_state st")
  case Idle
  with assms show ?thesis by (simp add: force_close_def ce_inv_def)
next
  case (InEvent c)
  with assms have ch: "chrono (cl_events st)" and c: "ce_start_time c \<le> ce_peak_time c"
      "ce_peak_time c \<le> py_round_nd (last (cl_times st)) 2"
      "\<forall>e \<in> set (cl_events st). end_time e \<le> ce_start_time c"
    by (simp_all add: ce_inv_def)
  then show ?thesis
    using InEvent
    by (simp add: force_close_def chrono_def sorted_wrt_append event_ordered_def close_event_def)
qed

lemma chrono_filter: "chrono evs \<Longrightarrow> chrono (filter P evs)"
  by (simp add: chrono_def sorted_wrt_filter)

lemma merge_fold_ordered:
  assumes "merged \<noteq> []" and "\<forall>m \<in> set merged. event_ordered m" and "chrono rest"
    and "\<forall>e \<in> set rest. end_time (last merged) \<le> start_time e"
  shows "\<forall>m \<in> set (fold (\<lambda>e merged. merge_step merged e) rest merged). event_ordered m"
  using assms
proof (induction rest arbitrary: merged)
  case Nil
  then show ?case by simp
next
  case (Cons e rest)
  let ?m = "last merged"
  from Cons.prems(3) have e: "event_ordered e" and rest: "chrono rest"
    and after: "\<forall>x \<in> set rest. end_time e \<le> start_time x"
    by (simp_all add: chrono_def)
  from Cons.prems(1,2) have m: "event_ordered ?m" by simp
  from Cons.prems(4) have gap: "end_time ?m \<le> start_time e" by simp
  have bl: "\<forall>x \<in> set (butlast merged). event_ordered x"
    using Cons.prems(2) by (auto dest: in_set_butlastD)
  have ms: "merge_step merged e \<noteq> []" by (simp add: merge_step_def Let_def)
  have ord: "\<forall>x \<in> set (merge_step merged e). event_ordered x"
    using Cons.prems(2) bl m e gap
    by (auto simp add: merge_step_def Let_def event_ordered_def)
  have lst: "end_time (last (merge_step merged e)) = end_time e"
    by (simp add: merge_step_def Let_def)
  from Cons.IH [OF ms ord rest] after lst show ?case by simp
qed

lemma merge_events_ordered:
  assumes "chrono final"
  shows "\<forall>m \<in> set (merge_events final). event_ordered m"
proof (cases final)
  case Nil
  then show ?thesis by (simp add: merge_events_def)
next
  case (Cons e0 rest)
  with assms have "event_ordered e0" "chrono rest"
    "\<forall>e \<in> set rest. end_time e0 \<le> start_time e"
    by (simp_all add: chrono_def)
  with merge_fold_ordered [of "[e0]" rest] Cons show ?thesis
    by (simp add: merge_events_def)
qed

lemma finalize_events_ordered:
  assumes "chrono events"
  shows "\<forall>m \<in> set (finalize_events events). event_ordered m"
proof -
  have "drop_short [] events = filter (\<lambda>e. end_time e - start_time e \<ge> 0.2) events"
  proof -
    have "drop_short final events
        = final @ filter (\<lambda>e. end_time e - start_time e \<ge> 0.2) events" for final
      by (induction events arbitrary: final) simp_all
    then show ?thesis by simp
  qed
  with chrono_filter [OF assms] have "chrono (drop_short [] events)" by simp
  then show ?thesis unfolding finalize_events_def by (rule merge_events_ordered)
qed

text \<open>
  Claim C8. Every event returned by \<open>run_close_encounters\<close>, hence after the merge
  pass, satisfies \<open>start_time \<le> peak_time \<le> end_time\<close>, and so does every event of
  the list before the finalize pass, an event closed by force at the end of the stream
  included. Every encounter returned by \<open>detect_close_encounters_enhanced\<close> satisfies
  the same order. The frame rate reported by the video is taken not to be negative.
\<close>

theorem event_times_ordered:
  "(run_close_encounters has_yolo src = Inr r \<and> (\<forall>v. src = Some v \<longrightarrow> 0 \<le> cv_fps v)
      \<longrightarrow> (\<forall>e \<in> set (cr_close_encounters r).
             start_time e \<le> peak_time e \<and> peak_time e \<le> end_time e))
   \<and> (0 < fps
      \<longrightarrow> (\<forall>e \<in> set (force_close (ce_scan fps step W H ce_init frames)).
             start_time e \<le> peak_time e \<and> peak_time e \<le> end_time e))
   \<and> (detect_close_encounters_enhanced has_yolo' src' = Inr r'
        \<and> (\<forall>v. src' = Some v \<longrightarrow> 0 \<le> pv_fps v)
      \<longrightarrow> (\<forall>enc \<in> set (pr_close_encounters r').
             enc_start_time enc \<le> enc_peak_time enc \<and> enc_peak_time enc \<le> enc_end_time enc))"
proof (intro conjI impI)
  assume a: "run_close_encounters has_yolo src = Inr r \<and> (\<forall>v. src = Some v \<longrightarrow> 0 \<le> cv_fps v)"
  show "\<forall>e \<in> set (cr_close_encounters r).
             start_time e \<le> peak_time e \<and> peak_time e \<le> end_time e"
  proof (cases "cr_close_encounters r = []")
    case True
    then show ?thesis by simp
  next
    case False
    with a obtain v H where v: "src = Some v"
      and r: "cr_close_encounters r = finalize_events (force_close
          (ce_scan (fps_or_default (cv_fps v)) (close_encounters_step (cv_fps v))
             TARGET_W_CE H ce_init (cv_frames v)))"
      by (auto simp add: run_close_encounters_def Let_def
          split: if_splits option.splits prod.splits)
    from a v have "0 < fps_or_default (cv_fps v)" by (simp add: fps_or_default_pos)
    from ce_scan_inv [OF this ce_inv_init]
    have "ce_inv (fps_or_default (cv_fps v))
        (ce_scan (fps_or_default (cv_fps v)) (close_encounters_step (cv_fps v))
             TARGET_W_CE H ce_init (cv_frames v))" .
    from finalize_events_ordered [OF force_close_chrono [OF this]] r
    show ?thesis by (simp add: event_ordered_def)
  qed
next
  assume "0 < fps"
  from force_close_chrono [OF ce_scan_inv [OF this ce_inv_init]]
  show "\<forall>e \<in> set (force_close (ce_scan fps step W H ce_init frames)).
             start_time e \<le> peak_time e \<and> peak_time e \<le> end_time e"
    by (simp add: chrono_def event_ordered_def)
next
  assume a: "detect_close_encounters_enhanced has_yolo' src' = Inr r'
        \<and> (\<forall>v. src' = Some v \<longrightarrow> 0 \<le> pv_fps v)"
  show "\<forall>enc \<in> set (pr_close_encounters r').
             enc_start_time enc \<le> enc_peak_time enc \<and> enc_peak_time enc \<le> enc_end_time enc"
  proof (cases "pr_close_encounters r' = []")
    case True
    then show ?thesis by simp
  next
    case False
    with a obtain v where v: "src' = Some v"
      and r: "detect_encounters (init_detector v) (pv_frames v) = Inr r'"
      by (auto simp add: detect_close_encounters_enhanced_def split: if_splits option.splits)
    from a v have "0 < d_fps (init_detector v)"
      by (simp add: init_detector_def fps_or_default_pos)
    from detect_encounters_ordered [OF r this] show ?thesis .
  qed
qed

text \<open>A video of four sampled frames in which a vehicle box appears at the second frame:
  the event opens at 0.25 s and is closed by force at 0.5 s. A video of ten frames in
  which a car stays 3.2 m ahead: its track becomes dangerous at its fifth sample.\<close>

lemma bands_witness: "bands_px 896 504 = [(107, 302, 358, 478), (313, 302, 582, 478), (537, 302, 788, 478)]"
  by (simp add: bands_px_def Let_def X_BANDS_def Y0_def Y1_def py_int_def)

lemma band_heights_empty: "band_heights 896 504 \<lparr> cf_boxes = [], cf_exp_med = [0, 0, 0] \<rparr> = [0, 0, 0]"
  by (simp add: band_heights_def bands_witness frame_boxes_def band_hmax_def Let_def)

lemma band_heights_box: "band_heights 896 504 \<lparr> cf_boxes = [(2, 400, 300, 500, 480)], cf_exp_med = [0, 0, 0] \<rparr> = [0, 45 / 44, 0]"
  by (simp add: band_heights_def bands_witness frame_boxes_def band_hmax_def Let_def keep_box_def
      VEH_def CENTER_BAND_def)

lemmas ce_sample_eval = ce_sample_def ce_smooth_def ce_scores_of_def ce_machine_def band_heights_empty band_heights_box Let_def
      deque_append_def BASE_SEC_def PROC_HZ_CE_def py_int_def np_median_def np_argmax_def
      ENTER_K_def EXIT_K_def DERIV_MIN_def MIN_BOX_H_def EMA_A_def py_round_nd_def py_round_def

lemma sample_1: "i = 1 \<Longrightarrow> ce_sample 8 896 504 \<lparr> cl_i = i, cl_vals = [[], [], []], cl_bases = [[], [], []], cl_ema = [0, 0, 0], cl_times = [], cl_state = Idle, cl_events = [] \<rparr> \<lparr> cf_boxes = [], cf_exp_med = [0, 0, 0] \<rparr> = \<lparr> cl_i = i, cl_vals = [[0], [0], [0]], cl_bases = [[0], [0], [0]], cl_ema = [0, 0, 0], cl_times = [1 / 8], cl_state = Idle, cl_events = [] \<rparr>"
  by (simp add: ce_sample_eval)

lemma sample_2: "i = 2 \<Longrightarrow> ce_sample 8 896 504 \<lparr> cl_i = i, cl_vals = [[0], [0], [0]], cl_bases = [[0], [0], [0]], cl_ema = [0, 0, 0], cl_times = [1 / 8], cl_state = Idle, cl_events = [] \<rparr> \<lparr> cf_boxes = [(2, 400, 300, 500, 480)], cf_exp_med = [0, 0, 0] \<rparr> = \<lparr> cl_i = i, cl_vals = [[0, 0], [0, 45 / 176], [0, 0]], cl_bases = [[0, 0], [0, 45 / 176], [0, 0]], cl_ema = [0, 45 / 176, 0], cl_times = [1 / 8, 1 / 4], cl_state = InEvent \<lparr> ce_start_time = 1 / 4, ce_peak_time = 1 / 4, ce_peak_score = 32 / 125, ce_where = ''center'', ce_max_box_height_norm = 1023 / 1000 \<rparr>, cl_events = [] \<rparr>"
  by (simp add: ce_sample_eval)

lemma sample_3: "i = 3 \<Longrightarrow> ce_sample 8 896 504 \<lparr> cl_i = i, cl_vals = [[0, 0], [0, 45 / 176], [0, 0]], cl_bases = [[0, 0], [0, 45 / 176], [0, 0]], cl_ema = [0, 45 / 176, 0], cl_times = [1 / 8, 1 / 4], cl_state = InEvent \<lparr> ce_start_time = 1 / 4, ce_peak_time = 1 / 4, ce_peak_score = 32 / 125, ce_where = ''center'', ce_max_box_height_norm = 1023 / 1000 \<rparr>, cl_events = [] \<rparr> \<lparr> cf_boxes = [], cf_exp_med = [0, 0, 0] \<rparr> = \<lparr> cl_i = i, cl_vals = [[0, 0, 0], [0, 45 / 176, 135 / 704], [0, 0, 0]], cl_bases = [[0, 0, 0], [0, 45 / 176, 135 / 704], [0, 0, 0]], cl_ema = [0, 135 / 704, 0], cl_times = [1 / 8, 1 / 4, 3 / 8], cl_state = InEvent \<lparr> ce_start_time = 1 / 4, ce_peak_time = 1 / 4, ce_peak_score = 32 / 125, ce_where = ''center'', ce_max_box_height_norm = 1023 / 1000 \<rparr>, cl_events = [] \<rparr>"
  by (simp add: ce_sample_eval)

lemma sample_4: "i = 4 \<Longrightarrow> ce_sample 8 896 504 \<lparr> cl_i = i, cl_vals = [[0, 0, 0], [0, 45 / 176, 135 / 704], [0, 0, 0]], cl_bases = [[0, 0, 0], [0, 45 / 176, 135 / 704], [0, 0, 0]], cl_ema = [0, 135 / 704, 0], cl_times = [1 / 8, 1 / 4, 3 / 8], cl_state = InEvent \<lparr> ce_start_time = 1 / 4, ce_peak_time = 1 / 4, ce_peak_score = 32 / 125, ce_where = ''center'', ce_max_box_height_norm = 1023 / 1000 \<rparr>, cl_events = [] \<rparr> \<lparr> cf_boxes = [], cf_exp_med = [0, 0, 0] \<rparr> = \<lparr> cl_i = i, cl_vals = [[0, 0, 0, 0], [0, 45 / 176, 135 / 704, 405 / 2816], [0, 0, 0, 0]], cl_bases = [[0, 0, 0, 0], [0, 45 / 176, 135 / 704, 405 / 2816], [0, 0, 0, 0]], cl_ema = [0, 405 / 2816, 0], cl_times = [1 / 8, 1 / 4, 3 / 8, 1 / 2], cl_state = InEvent \<lparr> ce_start_time = 1 / 4, ce_peak_time = 1 / 4, ce_peak_score = 32 / 125, ce_where = ''center'', ce_max_box_height_norm = 1023 / 1000 \<rparr>, cl_events = [] \<rparr>"
  by (simp add: ce_sample_eval)

lemma ce_scan_witness: "ce_scan 8 1 896 504 ce_init [\<lparr> cf_boxes = [], cf_exp_med = [0, 0, 0] \<rparr>, \<lparr> cf_boxes = [(2, 400, 300, 500, 480)], cf_exp_med = [0, 0, 0] \<rparr>, \<lparr> cf_boxes = [], cf_exp_med = [0, 0, 0] \<rparr>, \<lparr> cf_boxes = [], cf_exp_med = [0, 0, 0] \<rparr>] = \<lparr> cl_i = 4, cl_vals = [[0, 0, 0, 0], [0, 45 / 176, 135 / 704, 405 / 2816], [0, 0, 0, 0]], cl_bases = [[0, 0, 0, 0], [0, 45 / 176, 135 / 704, 405 / 2816], [0, 0, 0, 0]], cl_ema = [0, 405 / 2816, 0], cl_times = [1 / 8, 1 / 4, 3 / 8, 1 / 2], cl_state = InEvent \<lparr> ce_start_time = 1 / 4, ce_peak_time = 1 / 4, ce_peak_score = 32 / 125, ce_where = ''center'', ce_max_box_height_norm = 1023 / 1000 \<rparr>, cl_events = [] \<rparr>"
  by (simp add: ce_init_def Let_def sample_1 sample_2 sample_3 sample_4)

lemma finalize_witness: "finalize_events (force_close \<lparr> cl_i = 4, cl_vals = [[0, 0, 0, 0], [0, 45 / 176, 135 / 704, 405 / 2816], [0, 0, 0, 0]], cl_bases = [[0, 0, 0, 0], [0, 45 / 176, 135 / 704, 405 / 2816], [0, 0, 0, 0]], cl_ema = [0, 405 / 2816, 0], cl_times = [1 / 8, 1 / 4, 3 / 8, 1 / 2], cl_state = InEvent \<lparr> ce_start_time = 1 / 4, ce_peak_time = 1 / 4, ce_peak_score = 32 / 125, ce_where = ''center'', ce_max_box_height_norm = 1023 / 1000 \<rparr>, cl_events = [] \<rparr>) = [\<lparr> start_time = 0.25, peak_time = 0.25, peak_score = 0.256, where_band = ''center'', max_box_height_norm = 1.023, end_time = 0.5 \<rparr>]"
  by (simp add: force_close_def close_event_def finalize_events_def merge_events_def
      py_round_nd_def py_round_def Let_def)

lemma step8: "close_encounters_step 8 = 1"
  by (simp add: close_encounters_step_def sampling_step_def fps_or_default_def PROC_HZ_CE_def
      py_round_def Let_def)

lemma run_close_encounters_witness: "run_close_encounters True
    (Some \<lparr> cv_fps = 8, cv_first = Some (504, 896), cv_frames = [\<lparr> cf_boxes = [], cf_exp_med = [0, 0, 0] \<rparr>, \<lparr> cf_boxes = [(2, 400, 300, 500, 480)], cf_exp_med = [0, 0, 0] \<rparr>, \<lparr> cf_boxes = [], cf_exp_med = [0, 0, 0] \<rparr>, \<lparr> cf_boxes = [], cf_exp_med = [0, 0, 0] \<rparr>] \<rparr>)
   = Inr \<lparr> cr_close_encounters = [\<lparr> start_time = 0.25, peak_time = 0.25, peak_score = 0.256, where_band = ''center'', max_box_height_norm = 1.023, end_time = 0.5 \<rparr>], cr_event_count = 1, cr_note = None \<rparr>"
  by (simp add: run_close_encounters_def fps_or_default_def step8
      TARGET_W_CE_def py_int_def ce_scan_witness finalize_witness Let_def del: ce_scan.simps)

lemma init_detector_eval:
  "init_detector v = \<lparr> d_fps = fps_or_default (pv_fps v), d_width = pv_width v,
     d_height = pv_height v, d_focal_length = of_int (pv_width v) / 2 \<rparr>"
proof -
  have "(90 / 2) * pi / 180 = pi / 4" by simp
  then have "tan ((90 / 2) * pi / 180) = 1" by (simp add: tan_45)
  then show ?thesis by (simp add: init_detector_def)
qed

lemma detect_enhanced_witness:
  "detect_close_encounters_enhanced True (Some \<lparr> pv_fps = 30, pv_width = 1280, pv_height = 720, pv_frames = [[], [\<lparr> det_cls = ''car'', det_xyxy = (540, 300, 740, 600), det_id = Some 3 \<rparr>], [], [\<lparr> det_cls = ''car'', det_xyxy = (540, 300, 740, 600), det_id = Some 3 \<rparr>], [], [\<lparr> det_cls = ''car'', det_xyxy = (540, 300, 740, 600), det_id = Some 3 \<rparr>], [], [\<lparr> det_cls = ''car'', det_xyxy = (540, 300, 740, 600), det_id = Some 3 \<rparr>], [], [\<lparr> det_cls = ''car'', det_xyxy = (540, 300, 740, 600), det_id = Some 3 \<rparr>]] \<rparr>)
   = Inr \<lparr> pr_close_encounters = [\<lparr> enc_start_time = 0.07, enc_end_time = 0.33, enc_peak_time = 0.33, enc_peak_score = 0.39, enc_where = ''center'', enc_max_box_height_norm = 0.417, enc_min_distance_m = Fin 3.2, enc_ttc_sec = 0 \<rparr>], pr_event_count = 1,
           pr_method = Some ''enhanced_proximity_v2'', pr_error = None \<rparr>"
proof -
  have loop: "\<exists>tr. detect_loop \<lparr> d_fps = 30, d_width = 1280, d_height = 720, d_focal_length = 640 \<rparr>
       0 [] [[], [\<lparr> det_cls = ''car'', det_xyxy = (540, 300, 740, 600), det_id = Some 3 \<rparr>], [], [\<lparr> det_cls = ''car'', det_xyxy = (540, 300, 740, 600), det_id = Some 3 \<rparr>], [], [\<lparr> det_cls = ''car'', det_xyxy = (540, 300, 740, 600), det_id = Some 3 \<rparr>], [], [\<lparr> det_cls = ''car'', det_xyxy = (540, 300, 740, 600), det_id = Some 3 \<rparr>], [], [\<lparr> det_cls = ''car'', det_xyxy = (540, 300, 740, 600), det_id = Some 3 \<rparr>]] = Inr [(3, tr)] \<and> make_encounter \<lparr> d_fps = 30, d_width = 1280, d_height = 720, d_focal_length = 640 \<rparr> tr = Inr \<lparr> enc_start_time = 0.07, enc_end_time = 0.33, enc_peak_time = 0.33, enc_peak_score = 0.39, enc_where = ''center'', enc_max_box_height_norm = 0.417, enc_min_distance_m = Fin 3.2, enc_ttc_sec = 0 \<rparr> \<and> tr_is_dangerous tr \<and> length (tr_history tr) = 5"
    by (simp add: process_box_def update_track_def make_track_data_def estimate_distance_def
        real_heights_def np_clip_def track_of_def make_encounter_def mean_def
        new_track_def Let_def MIN_TRACK_FRAMES_def MIN_BOX_HEIGHT_RATIO_def
        DANGEROUS_DISTANCE_M_def CRITICAL_DISTANCE_M_def TTC_THRESHOLD_SEC_def
        calculate_ttc_def recent_window_def polyfit_slope_def is_lateral_movement_def
        py_round_nd_def py_round_def)
  then show ?thesis
    by (auto simp add: detect_close_encounters_enhanced_def detect_encounters_def
        init_detector_eval fps_or_default_def MIN_TRACK_FRAMES_def)
qed

theorem event_times_ordered_witness:
  "run_close_encounters True (Some \<lparr> cv_fps = 8, cv_first = Some (504, 896), cv_frames = [\<lparr> cf_boxes = [], cf_exp_med = [0, 0, 0] \<rparr>, \<lparr> cf_boxes = [(2, 400, 300, 500, 480)], cf_exp_med = [0, 0, 0] \<rparr>, \<lparr> cf_boxes = [], cf_exp_med = [0, 0, 0] \<rparr>, \<lparr> cf_boxes = [], cf_exp_med = [0, 0, 0] \<rparr>] \<rparr>)
     = Inr \<lparr> cr_close_encounters = [\<lparr> start_time = 0.25, peak_time = 0.25, peak_score = 0.256, where_band = ''center'', max_box_height_norm = 1.023, end_time = 0.5 \<rparr>], cr_event_count = 1, cr_note = None \<rparr>
   \<and> start_time \<lparr> start_time = 0.25, peak_time = 0.25, peak_score = 0.256, where_band = ''center'', max_box_height_norm = 1.023, end_time = 0.5 \<rparr> \<le> peak_time \<lparr> start_time = 0.25, peak_time = 0.25, peak_score = 0.256, where_band = ''center'', max_box_height_norm = 1.023, end_time = 0.5 \<rparr>
   \<and> peak_time \<lparr> start_time = 0.25, peak_time = 0.25, peak_score = 0.256, where_band = ''center'', max_box_height_norm = 1.023, end_time = 0.5 \<rparr> \<le> end_time \<lparr> start_time = 0.25, peak_time = 0.25, peak_score = 0.256, where_band = ''center'', max_box_height_norm = 1.023, end_time = 0.5 \<rparr>
   \<and> force_close (ce_scan 8 1 896 504 ce_init [\<lparr> cf_boxes = [], cf_exp_med = [0, 0, 0] \<rparr>, \<lparr> cf_boxes = [(2, 400, 300, 500, 480)], cf_exp_med = [0, 0, 0] \<rparr>, \<lparr> cf_boxes = [], cf_exp_med = [0, 0, 0] \<rparr>, \<lparr> cf_boxes = [], cf_exp_med = [0, 0, 0] \<rparr>]) = [\<lparr> start_time = 0.25, peak_time = 0.25, peak_score = 0.256, where_band = ''center'', max_box_height_norm = 1.023, end_time = 0.5 \<rparr>]
   \<and> detect_close_encounters_enhanced True (Some \<lparr> pv_fps = 30, pv_width = 1280, pv_height = 720, pv_frames = [[], [\<lparr> det_cls = ''car'', det_xyxy = (540, 300, 740, 600), det_id = Some 3 \<rparr>], [], [\<lparr> det_cls = ''car'', det_xyxy = (540, 300, 740, 600), det_id = Some 3 \<rparr>], [], [\<lparr> det_cls = ''car'', det_xyxy = (540, 300, 740, 600), det_id = Some 3 \<rparr>], [], [\<lparr> det_cls = ''car'', det_xyxy = (540, 300, 740, 600), det_id = Some 3 \<rparr>], [], [\<lparr> det_cls = ''car'', det_xyxy = (540, 300, 740, 600), det_id = Some 3 \<rparr>]] \<rparr>)
     = Inr \<lparr> pr_close_encounters = [\<lparr> enc_start_time = 0.07, enc_end_time = 0.33, enc_peak_time = 0.33, enc_peak_score = 0.39, enc_where = ''center'', enc_max_box_height_norm = 0.417, enc_min_distance_m = Fin 3.2, enc_ttc_sec = 0 \<rparr>], pr_event_count = 1,
           pr_method = Some ''enhanced_proximity_v2'', pr_error = None \<rparr>
   \<and> enc_start_time \<lparr> enc_start_time = 0.07, enc_end_time = 0.33, enc_peak_time = 0.33, enc_peak_score = 0.39, enc_where = ''center'', enc_max_box_height_norm = 0.417, enc_min_distance_m = Fin 3.2, enc_ttc_sec = 0 \<rparr> \<le> enc_peak_time \<lparr> enc_start_time = 0.07, enc_end_time = 0.33, enc_peak_time = 0.33, enc_peak_score = 0.39, enc_where = ''center'', enc_max_box_height_norm = 0.417, enc_min_distance_m = Fin 3.2, enc_ttc_sec = 0 \<rparr>
   \<and> enc_peak_time \<lparr> enc_start_time = 0.07, enc_end_time = 0.33, enc_peak_time = 0.33, enc_peak_score = 0.39, enc_where = ''center'', enc_max_box_height_norm = 0.417, enc_min_distance_m = Fin 3.2, enc_ttc_sec = 0 \<rparr> \<le> enc_end_time \<lparr> enc_start_time = 0.07, enc_end_time = 0.33, enc_peak_time = 0.33, enc_peak_score = 0.39, enc_where = ''center'', enc_max_box_height_norm = 0.417, enc_min_distance_m = Fin 3.2, enc_ttc_sec = 0 \<rparr>"
proof -
  have fc: "force_close (ce_scan 8 1 896 504 ce_init [\<lparr> cf_boxes = [], cf_exp_med = [0, 0, 0] \<rparr>, \<lparr> cf_boxes = [(2, 400, 300, 500, 480)], cf_exp_med = [0, 0, 0] \<rparr>, \<lparr> cf_boxes = [], cf_exp_med = [0, 0, 0] \<rparr>, \<lparr> cf_boxes = [], cf_exp_med = [0, 0, 0] \<rparr>]) = [\<lparr> start_time = 0.25, peak_time = 0.25, peak_score = 0.256, where_band = ''center'', max_box_height_norm = 1.023, end_time = 0.5 \<rparr>]"
    by (simp add: ce_scan_witness force_close_def close_event_def py_round_nd_def py_round_def
        Let_def del: ce_scan.simps)
  from event_times_ordered
    [where has_yolo = True and src = "Some \<lparr> cv_fps = 8, cv_first = Some (504, 896), cv_frames = [\<lparr> cf_boxes = [], cf_exp_med = [0, 0, 0] \<rparr>, \<lparr> cf_boxes = [(2, 400, 300, 500, 480)], cf_exp_med = [0, 0, 0] \<rparr>, \<lparr> cf_boxes = [], cf_exp_med = [0, 0, 0] \<rparr>, \<lparr> cf_boxes = [], cf_exp_med = [0, 0, 0] \<rparr>] \<rparr>"
       and r = "\<lparr> cr_close_encounters = [\<lparr> start_time = 0.25, peak_time = 0.25, peak_score = 0.256, where_band = ''center'', max_box_height_norm = 1.023, end_time = 0.5 \<rparr>], cr_event_count = 1, cr_note = None \<rparr>"
       and fps = 8 and step = 1 and W = 896 and H = 504 and frames = "[\<lparr> cf_boxes = [], cf_exp_med = [0, 0, 0] \<rparr>, \<lparr> cf_boxes = [(2, 400, 300, 500, 480)], cf_exp_med = [0, 0, 0] \<rparr>, \<lparr> cf_boxes = [], cf_exp_med = [0, 0, 0] \<rparr>, \<lparr> cf_boxes = [], cf_exp_med = [0, 0, 0] \<rparr>]"
       and has_yolo' = True and src' = "Some \<lparr> pv_fps = 30, pv_width = 1280, pv_height = 720, pv_frames = [[], [\<lparr> det_cls = ''car'', det_xyxy = (540, 300, 740, 600), det_id = Some 3 \<rparr>], [], [\<lparr> det_cls = ''car'', det_xyxy = (540, 300, 740, 600), det_id = Some 3 \<rparr>], [], [\<lparr> det_cls = ''car'', det_xyxy = (540, 300, 740, 600), det_id = Some 3 \<rparr>], [], [\<lparr> det_cls = ''car'', det_xyxy = (540, 300, 740, 600), det_id = Some 3 \<rparr>], [], [\<lparr> det_cls = ''car'', det_xyxy = (540, 300, 740, 600), det_id = Some 3 \<rparr>]] \<rparr>"
       and r' = "\<lparr> pr_close_encounters = [\<lparr> enc_start_time = 0.07, enc_end_time = 0.33, enc_peak_time = 0.33, enc_peak_score = 0.39, enc_where = ''center'', enc_max_box_height_norm = 0.417, enc_min_distance_m = Fin 3.2, enc_ttc_sec = 0 \<rparr>], pr_event_count = 1,
           pr_method = Some ''enhanced_proximity_v2'', pr_error = None \<rparr>"]
    run_close_encounters_witness detect_enhanced_witness fc
  show ?thesis by simp
qed

end
